theory Spec2Isabelle
  imports Main "HOL-Library.AList"
begin

text \<open>
  A shallow embedding of the request pipeline of resfetch: the result constructors
  (\<^verbatim>\<open>result.ts\<close>), the error classes (\<^verbatim>\<open>errors.ts\<close>), the helpers (\<^verbatim>\<open>utils.ts\<close>), the
  fallback options (\<^verbatim>\<open>fallback-options.ts\<close>), the request executor (\<^verbatim>\<open>enhance.ts\<close>) and
  the client (\<^verbatim>\<open>create.ts\<close>), followed by the properties proved about them.
\<close>

section \<open>JavaScript values, responses, requests and abort signals\<close>

text \<open>
  A \<open>Response\<close> as far as the library reads it: \<open>status\<close>, \<open>statusText\<close> and the text of
  the body. The getter \<open>ok\<close> of the platform is \<open>200 \<le> status \<le> 299\<close>.
\<close>

record response =
  status :: nat
  statusText :: string
  body_text :: string

definition response_ok :: "response \<Rightarrow> bool" where
  "response_ok r = (200 \<le> status r \<and> status r \<le> 299)"

text \<open>
  Values of the program. \<open>Obj\<close> is a plain object (constructor \<open>Object\<close>) with its own
  enumerable properties in the order of \<open>Object.entries\<close>; \<open>Inst\<close> is an instance of some other
  class (a \<open>Blob\<close>, an \<open>ArrayBuffer\<close>, a user class), with a flag telling whether it has a
  \<open>toJSON\<close> method; \<open>ErrorObj name message\<close> is an instance of \<open>Error\<close> that is neither a
  \<open>ValidationError\<close> nor a \<open>ResponseError\<close>. Numbers are the integers.

  \<open>ValidationError message issues data\<close> and
  \<open>ResponseError message response request data originalError\<close> are the two classes of
  \<^verbatim>\<open>errors.ts\<close>; \<open>status\<close> of a \<open>ResponseError\<close> is \<open>response?.status\<close> and is read
  through \<open>re_status\<close> below.

  An \<open>AbortSignal\<close> is the time (in ms on the clock of the run) at which it fires, if it
  ever does, and its \<open>reason\<close>.
\<close>

datatype jsval =
    Undefined
  | Null
  | Bool bool
  | Num int
  | Str string
  | Arr "jsval list"
  | Obj "(string \<times> jsval) list"
  | Inst bool string
  | FormData "(string \<times> string) list"
  | ErrorObj string string
  | ValidationError string "jsval list" jsval
  | ResponseError string "response option" "request option" jsval jsval
and request =
    Request (req_url: string) (req_method: "string option")
      (req_headers: "(string \<times> string) list") (req_body: jsval) (req_signal: "signal option")
and signal =
    Signal (fires_at: "nat option") (reason: jsval)

fun truthy :: "jsval \<Rightarrow> bool" where
  "truthy Undefined = False"
| "truthy Null = False"
| "truthy (Bool b) = b"
| "truthy (Num n) = (n \<noteq> 0)"
| "truthy (Str s) = (s \<noteq> [])"
| "truthy _ = True"

definition isNil :: "jsval \<Rightarrow> bool" where
  "isNil v = (v = Undefined \<or> v = Null)"

fun isValidationError :: "jsval \<Rightarrow> bool" where
  "isValidationError (ValidationError m is d) = True"
| "isValidationError _ = False"

fun isResponseError :: "jsval \<Rightarrow> bool" where
  "isResponseError (ResponseError m rs rq d oe) = True"
| "isResponseError _ = False"

text \<open>\<open>e instanceof Error\<close>: both error classes extend \<open>Error\<close>.\<close>

fun instanceof_Error :: "jsval \<Rightarrow> bool" where
  "instanceof_Error (ErrorObj n m) = True"
| "instanceof_Error (ValidationError m is d) = True"
| "instanceof_Error (ResponseError m rs rq d oe) = True"
| "instanceof_Error _ = False"

fun error_message :: "jsval \<Rightarrow> string" where
  "error_message (ErrorObj n m) = m"
| "error_message (ValidationError m is d) = m"
| "error_message (ResponseError m rs rq d oe) = m"
| "error_message _ = []"

fun re_status :: "jsval \<Rightarrow> nat option" where
  "re_status (ResponseError m rs rq d oe) = map_option status rs"
| "re_status _ = None"

fun re_originalError :: "jsval \<Rightarrow> jsval" where
  "re_originalError (ResponseError m rs rq d oe) = oe"
| "re_originalError _ = Undefined"



text \<open>
  Calling a property that holds \<open>undefined\<close> throws a \<open>TypeError\<close>. Its message is the one of
  the engine; it is written here as V8 words it, with the expression that was called.
\<close>

definition not_a_function :: "string \<Rightarrow> jsval" where
  "not_a_function callee_text = ErrorObj ''TypeError'' (callee_text @ '' is not a function'')"


section \<open>The run of a call: clock, trace and callbacks\<close>

text \<open>
  The functions the library calls and does not define (the transport, the hooks, the retry
  callbacks, the parsers) may depend on anything that happened before and may take time.
  A run carries a clock in ms and the list of the callbacks invoked so far; a callback
  reads both and gives its outcome, thrown value (\<open>Inl\<close>) or result (\<open>Inr\<close>), with the time
  it took.
\<close>

datatype src = Default | PerCall

datatype callee =
    Fetch | OnRequest src | OnResponse src | OnSuccess src | OnError src | OnRetry src
  | RetryWhen | RetryAttempts | RetryDelay | Reject | ParseRejected | ParseResponse | Delay

record world =
  now :: nat
  trace :: "callee list"

type_synonym 'a eff = "(jsval + 'a) \<times> nat"

type_synonym 'a run = "world \<Rightarrow> (jsval + 'a) \<times> world"

definition call :: "callee \<Rightarrow> (world \<Rightarrow> 'a eff) \<Rightarrow> 'a run" where
  "call c f w = (case f w of (r, dt) \<Rightarrow> (r, \<lparr>now = now w + dt, trace = trace w @ [c]\<rparr>))"

text \<open>\<open>await hook?.(...)\<close>: a hook that is not there is not called.\<close>

definition call_opt :: "callee \<Rightarrow> (world \<Rightarrow> unit eff) option \<Rightarrow> unit run" where
  "call_opt c h w = (case h of None \<Rightarrow> (Inr (), w) | Some f \<Rightarrow> call c f w)"

definition ret :: "'a \<Rightarrow> 'a run" where
  "ret x w = (Inr x, w)"

definition throw :: "jsval \<Rightarrow> 'a run" where
  "throw e w = (Inl e, w)"

text \<open>
  \<open>await options.k(...)\<close> for a key \<open>k\<close> that may hold \<open>undefined\<close>: nothing is called then,
  and the \<open>TypeError\<close> \<open>e\<close> is thrown.
\<close>

definition call_key :: "callee \<Rightarrow> jsval \<Rightarrow> (world \<Rightarrow> 'a eff) option \<Rightarrow> 'a run" where
  "call_key c e h = (case h of None \<Rightarrow> throw e | Some f \<Rightarrow> call c f)"

text \<open>Sequencing: a thrown value skips what follows.\<close>

definition bnd :: "'a run \<Rightarrow> ('a \<Rightarrow> 'b run) \<Rightarrow> 'b run" where
  "bnd m k w = (case m w of (Inl e, w') \<Rightarrow> (Inl e, w') | (Inr x, w') \<Rightarrow> k x w')"

definition lift :: "jsval + 'a \<Rightarrow> 'a run" where
  "lift r w = (r, w)"

section \<open>Platform primitives\<close>

text \<open>
  What the library takes from the JavaScript platform and this development does not
  define: \<open>JSON.stringify\<close> (its result is a string or \<open>undefined\<close>), \<open>JSON.parse\<close>
  (\<open>None\<close> when it throws), the presence of \<open>AbortSignal.any\<close>, the keys of the query string
  of a URL (\<open>new URL(s, 'http://a').searchParams.keys()\<close>, which may throw), the serialisation of
  \<open>URLSearchParams.toString\<close>, the constructor \<open>new Request(url, init)\<close>, which may throw,
  and the global \<open>fetch\<close>.
\<close>

record request_init =
  init_method :: "string option"
  init_headers :: "(string \<times> string) list"
  init_body :: jsval
  init_signal :: "signal option"

record platform =
  JSON_stringify :: "jsval \<Rightarrow> jsval"
  JSON_parse :: "string \<Rightarrow> jsval option"
  AbortSignal_has_any :: bool
  searchParams_keys :: "string \<Rightarrow> jsval + string list"
  URLSearchParams_toString :: "(string \<times> string) list \<Rightarrow> string"
  new_Request :: "string \<Rightarrow> request_init \<Rightarrow> jsval + request"
  global_fetch :: "request \<Rightarrow> world \<Rightarrow> response eff"

section \<open>The error classes (errors.ts)\<close>

text \<open>
  \<open>new ValidationError(result, data)\<close>: the message is \<open>JSON.stringify(result.issues)\<close>, the
  fields are \<open>result.issues\<close> and \<open>data\<close>.
\<close>

definition new_ValidationError :: "platform \<Rightarrow> jsval list \<Rightarrow> jsval \<Rightarrow> jsval" where
  "new_ValidationError pf issues d =
     ValidationError (case JSON_stringify pf (Arr issues) of Str s \<Rightarrow> s | _ \<Rightarrow> []) issues d"

text \<open>
  \<open>new ResponseError({message, response, data, request, originalError})\<close>: the message is
  \<open>props.message || (props.originalError instanceof Error ? props.originalError.message : '')\<close>.
\<close>

definition new_ResponseError ::
    "string option \<Rightarrow> response option \<Rightarrow> jsval \<Rightarrow> request option \<Rightarrow> jsval \<Rightarrow> jsval" where
  "new_ResponseError msg rs d rq oe =
     ResponseError
       (if msg \<noteq> None \<and> msg \<noteq> Some [] then the msg
        else if instanceof_Error oe then error_message oe else [])
       rs rq d oe"

section \<open>Results (result.ts)\<close>

text \<open>
  A result object, as its three properties read: a property that the object does not have
  reads \<open>Undefined\<close>, like \<open>result.error\<close> of \<open>{ ok: true, data }\<close>.
\<close>

record resfetch_result =
  r_ok :: bool
  r_data :: jsval
  r_error :: jsval

definition ok :: "jsval \<Rightarrow> resfetch_result" where
  "ok d = \<lparr>r_ok = True, r_data = d, r_error = Undefined\<rparr>"

definition err :: "jsval \<Rightarrow> resfetch_result" where
  "err e = \<lparr>r_ok = False, r_data = Undefined, r_error = e\<rparr>"

record 'r match_handlers =
  h_ok :: "jsval \<Rightarrow> 'r"
  h_validationError :: "jsval \<Rightarrow> 'r"
  h_responseError :: "jsval \<Rightarrow> 'r"

definition matchResfetch :: "resfetch_result \<Rightarrow> 'r match_handlers \<Rightarrow> 'r" where
  "matchResfetch r h =
     (if r_ok r then h_ok h (r_data r)
      else if isValidationError (r_error r) then h_validationError h (r_error r)
      else h_responseError h (r_error r))"

section \<open>Schema validation (utils.ts, validate)\<close>

text \<open>
  A Standard Schema validator returns \<open>{ value }\<close> or \<open>{ issues }\<close>, or throws. The test
  \<open>if (result.issues)\<close> is on an array, which is truthy also when it is empty.
\<close>

datatype vresult = VSuccess jsval | VFailure "jsval list"

type_synonym schema = "jsval \<Rightarrow> jsval + vresult"

definition validate :: "platform \<Rightarrow> schema \<Rightarrow> jsval \<Rightarrow> jsval + jsval" where
  "validate pf sch d =
     (case sch d of
        Inl e \<Rightarrow> Inl e
      | Inr (VFailure issues) \<Rightarrow> Inl (new_ValidationError pf issues d)
      | Inr (VSuccess v) \<Rightarrow> Inr v)"

section \<open>Strings: \<open>String(value)\<close> and \<open>String.prototype.replace\<close>\<close>

definition digit_char :: "nat \<Rightarrow> char" where
  "digit_char n = char_of (48 + n)"

function nat_digits :: "nat \<Rightarrow> string" where
  "nat_digits n = (if n < 10 then [digit_char n] else nat_digits (n div 10) @ [digit_char (n mod 10)])"
  by pat_completeness auto
termination
  by (relation "measure id") auto

declare nat_digits.simps [simp del]

definition int_digits :: "int \<Rightarrow> string" where
  "int_digits i = (if i < 0 then CHR ''-'' # nat_digits (nat (- i)) else nat_digits (nat i))"

fun join_strings :: "string \<Rightarrow> string list \<Rightarrow> string" where
  "join_strings sep [] = []"
| "join_strings sep [x] = x"
| "join_strings sep (x # y # ys) = x @ sep @ join_strings sep (y # ys)"

text \<open>
  \<open>String(v)\<close>. An array is joined with commas, \<open>null\<close> and \<open>undefined\<close> elements giving the
  empty string; an object that does not override \<open>toString\<close> gives \<open>[object Object]\<close>; an
  error gives its name, followed by its message when that is not empty.
\<close>

definition error_toString :: "string \<Rightarrow> string \<Rightarrow> string" where
  "error_toString n m = (if m = [] then n else if n = [] then m else n @ '': '' @ m)"

fun js_String :: "jsval \<Rightarrow> string" where
  "js_String Undefined = ''undefined''"
| "js_String Null = ''null''"
| "js_String (Bool b) = (if b then ''true'' else ''false'')"
| "js_String (Num n) = int_digits n"
| "js_String (Str s) = s"
| "js_String (Arr xs) =
     join_strings '','' (map (\<lambda>x. if x = Undefined \<or> x = Null then [] else js_String x) xs)"
| "js_String (Obj es) = ''[object Object]''"
| "js_String (Inst j n) = ''[object Object]''"
| "js_String (FormData fs) = ''[object FormData]''"
| "js_String (ErrorObj n m) = error_toString n m"
| "js_String (ValidationError m is d) = error_toString ''ValidationError'' m"
| "js_String (ResponseError m rs rq d oe) = error_toString ''ResponseError'' m"

text \<open>The word characters of a regular expression without the \<open>u\<close> flag: \<open>[A-Za-z0-9_]\<close>.\<close>

definition is_word_char :: "char \<Rightarrow> bool" where
  "is_word_char c =
     (let n = (of_char c :: nat)
      in (48 \<le> n \<and> n \<le> 57) \<or> (65 \<le> n \<and> n \<le> 90) \<or> (97 \<le> n \<and> n \<le> 122) \<or> n = 95)"

text \<open>
  The assertion \<open>\b\<close> between a character and the next one (\<open>None\<close> past either end of the
  string): exactly one of the two is a word character.
\<close>

definition word_boundary :: "char option \<Rightarrow> char option \<Rightarrow> bool" where
  "word_boundary prev nxt =
     ((case prev of None \<Rightarrow> False | Some c \<Rightarrow> is_word_char c)
      \<noteq> (case nxt of None \<Rightarrow> False | Some c \<Rightarrow> is_word_char c))"

text \<open>
  A replacement string of \<open>String.prototype.replace\<close> is not inserted as it is: \<open>$$\<close> stands
  for one \<open>$\<close>, \<open>$&\<close> for the matched text, \<open>$`\<close> for the text before the match and \<open>$'\<close> for
  the text after it. The pattern has no capture group, so \<open>$1\<close> and the like stay as they
  are.
\<close>

fun GetSubstitution :: "string \<Rightarrow> string \<Rightarrow> string \<Rightarrow> string \<Rightarrow> string" where
  "GetSubstitution matched bef aft [] = []"
| "GetSubstitution matched bef aft [c] = [c]"
| "GetSubstitution matched bef aft (c # d # r) =
     (if c = CHR ''$'' \<and> d = CHR ''$'' then CHR ''$'' # GetSubstitution matched bef aft r
      else if c = CHR ''$'' \<and> d = CHR ''&'' then matched @ GetSubstitution matched bef aft r
      else if c = CHR ''$'' \<and> d = CHR 0x60 then bef @ GetSubstitution matched bef aft r
      else if c = CHR ''$'' \<and> d = CHR 0x27 then aft @ GetSubstitution matched bef aft r
      else c # GetSubstitution matched bef aft (d # r))"

text \<open>
  \<open>s.replace(new RegExp(pat + '\\b', 'g'), repl)\<close> for a pattern \<open>pat\<close> that matches itself
  (a colon followed by a key of word characters): every match from left to right, without
  overlap. \<open>pre\<close> is the part of the string already passed.
\<close>

definition matches_at :: "string \<Rightarrow> string \<Rightarrow> bool" where
  "matches_at pat s =
     (pat \<noteq> [] \<and> take (length pat) s = pat
      \<and> word_boundary (Some (last pat))
           (if length pat < length s then Some (s ! length pat) else None))"

function replace_from :: "string \<Rightarrow> string \<Rightarrow> string \<Rightarrow> string \<Rightarrow> string" where
  "replace_from pat repl pre [] = []"
| "replace_from pat repl pre (c # cs) =
     (if matches_at pat (c # cs)
      then GetSubstitution pat pre (drop (length pat) (c # cs)) repl
           @ replace_from pat repl (pre @ pat) (drop (length pat) (c # cs))
      else c # replace_from pat repl (pre @ [c]) cs)"
  by pat_completeness auto
termination
  by (relation "measure (\<lambda>(pat, repl, pre, s). length s)") (auto simp: matches_at_def)

definition replace_all :: "string \<Rightarrow> string \<Rightarrow> string \<Rightarrow> string" where
  "replace_all pat repl s = replace_from pat repl [] s"

section \<open>Path parameters (utils.ts, replacePathParams)\<close>

text \<open>
  The loop over \<open>Object.entries(params)\<close>: an entry whose value is \<open>undefined\<close> or \<open>null\<close> is
  skipped, every other one rewrites the path with
  \<open>newPath.replace(new RegExp(`:${key}\\b`, 'g'), String(value))\<close>. The key goes into the
  regular expression as it is; the model reads it literally, which is what the regular
  expression does for a key of word characters.
\<close>

fun replace_entries :: "(string \<times> jsval) list \<Rightarrow> string \<Rightarrow> string" where
  "replace_entries [] newPath = newPath"
| "replace_entries ((key, v) # es) newPath =
     (if v = Undefined \<or> v = Null then replace_entries es newPath
      else replace_entries es (replace_all (CHR '':'' # key) (js_String v) newPath))"

text \<open>\<open>isPlainObject\<close>: not \<open>null\<close>, an object, and its constructor is named \<open>Object\<close>.\<close>

fun isPlainObject :: "jsval \<Rightarrow> bool" where
  "isPlainObject (Obj es) = True"
| "isPlainObject _ = False"

definition replacePathParams :: "string \<Rightarrow> jsval \<Rightarrow> string" where
  "replacePathParams path params =
     (case params of Obj es \<Rightarrow> replace_entries es path | _ \<Rightarrow> path)"


section \<open>Helpers (utils.ts)\<close>

subsection \<open>Headers\<close>

definition lower_char :: "char \<Rightarrow> char" where
  "lower_char c =
     (let n = (of_char c :: nat) in if 65 \<le> n \<and> n \<le> 90 then char_of (n + 32) else c)"

definition is_http_ws :: "char \<Rightarrow> bool" where
  "is_http_ws c = ((of_char c :: nat) \<in> {9, 10, 13, 32})"

definition trim_ws :: "string \<Rightarrow> string" where
  "trim_ws s = rev (dropWhile is_http_ws (rev (dropWhile is_http_ws s)))"

text \<open>
  \<open>new Headers(init).forEach\<close>: names in lower case, values as strings (\<open>undefined\<close> and
  \<open>null\<close> of a plain object become the strings \<open>undefined\<close> and \<open>null\<close>) without the white
  space around them, the values of a repeated name joined with a comma. A name or a value
  that the platform refuses (it throws a \<open>TypeError\<close>) is outside the model.
\<close>

definition headers_append ::
    "(string \<times> string) list \<Rightarrow> string \<Rightarrow> string \<Rightarrow> (string \<times> string) list" where
  "headers_append hs name v =
     (case map_of hs name of
        None \<Rightarrow> hs @ [(name, v)]
      | Some old \<Rightarrow> AList.update name (old @ '', '' @ v) hs)"

definition new_Headers :: "(string \<times> jsval) list \<Rightarrow> (string \<times> string) list" where
  "new_Headers init =
     foldl (\<lambda>hs (name, v). headers_append hs (map lower_char name) (trim_ws (js_String v))) [] init"

text \<open>
  \<open>mergeHeaders\<close>: every entry of every \<open>Headers\<close> object, in order, either deletes its key
  from the result (when its value is the string \<open>null\<close> or \<open>undefined\<close>) or sets it.
\<close>

definition merge_entry :: "(string \<times> string) list \<Rightarrow> string \<times> string \<Rightarrow> (string \<times> string) list" where
  "merge_entry res kv =
     (if snd kv = ''null'' \<or> snd kv = ''undefined'' then AList.delete (fst kv) res
      else AList.update (fst kv) (snd kv) res)"

definition init_entries :: "(string \<times> jsval) list option \<Rightarrow> (string \<times> string) list" where
  "init_entries init = new_Headers (case init of None \<Rightarrow> [] | Some h \<Rightarrow> h)"

definition mergeHeaders :: "(string \<times> jsval) list option list \<Rightarrow> (string \<times> string) list" where
  "mergeHeaders headerInits =
     foldl (\<lambda>res init. foldl merge_entry res (init_entries init)) [] headerInits"

subsection \<open>Abort signals\<close>

definition TimeoutError :: jsval where
  "TimeoutError = ErrorObj ''TimeoutError'' ''The operation was aborted due to timeout''"

definition AbortSignal_timeout :: "nat \<Rightarrow> nat \<Rightarrow> signal" where
  "AbortSignal_timeout t ms = Signal (Some (t + ms)) TimeoutError"

text \<open>\<open>AbortSignal.any\<close> fires with the first of its signals that fires, and with its reason.\<close>

definition earlier :: "signal \<Rightarrow> signal \<Rightarrow> signal" where
  "earlier a b =
     (case fires_at a of
        None \<Rightarrow> b
      | Some x \<Rightarrow> (case fires_at b of None \<Rightarrow> a | Some y \<Rightarrow> if y < x then b else a))"

definition AbortSignal_any :: "signal list \<Rightarrow> signal" where
  "AbortSignal_any sgs = foldl earlier (Signal None Undefined) sgs"

text \<open>
  \<open>withTimeout(signal, timeout)\<close> at time \<open>t\<close>; \<open>timeout ? ... : undefined\<close> gives no timeout
  signal for \<open>0\<close>.
\<close>

definition withTimeout :: "platform \<Rightarrow> nat \<Rightarrow> signal option \<Rightarrow> nat option \<Rightarrow> signal option" where
  "withTimeout pf t sg tmo =
     (if AbortSignal_has_any pf
      then Some (AbortSignal_any
             (List.map_filter id
                [sg, if tmo \<noteq> None \<and> tmo \<noteq> Some 0 then Some (AbortSignal_timeout t (the tmo))
                     else None]))
      else sg)"

text \<open>
  \<open>abortableDelay(delay, signal)\<close>: the promise resolves after \<open>delay\<close> ms, unless the
  signal fires before, while the listener is in place; then it rejects with the reason of
  the signal. A signal that has fired before the call never calls the listener.
\<close>

definition abortableDelay :: "nat \<Rightarrow> signal option \<Rightarrow> unit run" where
  "abortableDelay ms sg =
     call Delay (\<lambda>w. case sg of
                       None \<Rightarrow> (Inr (), ms)
                     | Some s \<Rightarrow>
                         (case fires_at s of
                            None \<Rightarrow> (Inr (), ms)
                          | Some t \<Rightarrow> if now w < t \<and> t < now w + ms then (Inl (reason s), t - now w)
                                      else (Inr (), ms)))"

subsection \<open>Objects and URLs\<close>

text \<open>
  The own enumerable properties that a spread copies. Query parameters are plain objects;
  any other value is read as having none.
\<close>

fun entries :: "jsval \<Rightarrow> (string \<times> jsval) list" where
  "entries (Obj es) = es"
| "entries _ = []"

definition spread :: "(string \<times> jsval) list \<Rightarrow> (string \<times> jsval) list \<Rightarrow> (string \<times> jsval) list" where
  "spread a b = foldl (\<lambda>acc (k, v). AList.update k v acc) a b"

definition omit :: "(string \<times> jsval) list \<Rightarrow> string list \<Rightarrow> (string \<times> jsval) list" where
  "omit obj ks = filter (\<lambda>(k, v). k \<notin> set ks) obj"

fun isSerializable :: "jsval \<Rightarrow> bool" where
  "isSerializable (Obj es) = True"
| "isSerializable (Arr xs) = True"
| "isSerializable (Inst has_toJSON n) = has_toJSON"
| "isSerializable _ = False"

definition is_absolute_url :: "string \<Rightarrow> bool" where
  "is_absolute_url s = (take 7 s = ''http://'' \<or> take 8 s = ''https://'')"

definition strip_trailing_slash :: "string \<Rightarrow> string" where
  "strip_trailing_slash s = (if s \<noteq> [] \<and> last s = CHR ''/'' then butlast s else s)"

definition strip_leading :: "char \<Rightarrow> string \<Rightarrow> string" where
  "strip_leading c s = (case s of [] \<Rightarrow> [] | x # xs \<Rightarrow> if x = c then xs else s)"

type_synonym serialize_params = "(string \<times> jsval) list \<Rightarrow> jsval + string"

text \<open>
  \<open>resolveUrl\<close> for an \<open>input\<close> that is a string. The base is \<open>''\<close> when \<open>options.baseUrl\<close> is
  \<open>undefined\<close> (a default parameter); \<open>serializeParams\<close> is called after its argument has been
  built, and the call throws when \<open>options.serializeParams\<close> holds \<open>undefined\<close>.
\<close>

definition resolveUrl ::
    "platform \<Rightarrow> string option \<Rightarrow> string \<Rightarrow> jsval \<Rightarrow> jsval \<Rightarrow> serialize_params option
     \<Rightarrow> jsval + string" where
  "resolveUrl pf base_opt inputStr defaultOptsParams fetcherOptsParams serializeParams =
     (let base = (case base_opt of None \<Rightarrow> [] | Some b \<Rightarrow> b)
      in case searchParams_keys pf inputStr of
           Inl e \<Rightarrow> Inl e
         | Inr ks \<Rightarrow>
             (case (case serializeParams of
                      None \<Rightarrow> Inl (not_a_function ''serializeParams'')
                    | Some sp \<Rightarrow> sp (spread (omit (entries defaultOptsParams) ks)
                                      (entries fetcherOptsParams))) of
                Inl e \<Rightarrow> Inl e
              | Inr qs \<Rightarrow>
                  (let u = (if is_absolute_url inputStr then inputStr
                            else if base = [] \<or> inputStr = [] then base @ inputStr
                            else strip_trailing_slash base @ ''/'' @ strip_leading (CHR ''/'') inputStr)
                   in Inr (if qs \<noteq> []
                           then u @ (if CHR ''?'' \<in> set u then ''&'' else ''?'')
                                  @ strip_leading (CHR ''?'') qs
                           else u))))"

section \<open>Options (types.ts)\<close>

record when_ctx =
  ctx_request :: request
  ctx_response :: "response option"
  ctx_error :: jsval

record retry_ctx = when_ctx +
  ctx_attempt :: nat

type_synonym retry_when = "when_ctx \<Rightarrow> world \<Rightarrow> bool eff"
type_synonym retry_attempts = "nat + (request \<Rightarrow> world \<Rightarrow> nat eff)"
type_synonym retry_delay = "nat + (retry_ctx \<Rightarrow> world \<Rightarrow> nat eff)"

text \<open>
  An options object is spread into another one (\<open>{ ...fallbackOptions, ...defaultOpts,
  ...fetcherOpts }\<close>), and a spread copies a key that holds \<open>undefined\<close> over the value that
  the key had. So a key that the executor reads from the merged object has three states:
  \<open>None\<close> when the object has no such key, \<open>Some None\<close> when it has the key with the value
  \<open>undefined\<close>, and \<open>Some (Some v)\<close>. The keys of \<open>retry\<close> are of this kind.
\<close>

record retry_options =
  attempts :: "retry_attempts option option"
  delay :: "retry_delay option option"
  retry_when :: "retry_when option option"

type_synonym parser = "response option \<Rightarrow> request \<Rightarrow> world \<Rightarrow> jsval eff"
type_synonym serialize_body = "jsval \<Rightarrow> jsval + jsval"

text \<open>
  \<open>DefaultOptions\<close>. The keys that the executor reads from the merged object \<open>options\<close>
  (\<open>baseUrl\<close>, \<open>method\<close>, \<open>parseRejected\<close>, \<open>parseResponse\<close>, \<open>reject\<close>, \<open>serializeBody\<close>,
  \<open>serializeParams\<close>, \<open>timeout\<close>) have the three states. The other keys are read from the
  object itself (\<open>defaultOpts.headers\<close>, \<open>fetcherOpts?.onRetry?.(...)\<close>, \<open>...defaultOpts.retry\<close>),
  where a key that is absent and a key that holds \<open>undefined\<close> read the same: \<open>None\<close>.
\<close>

record default_options =
  baseUrl :: "string option option"
  headers :: "(string \<times> jsval) list option"
  method_key :: "string option option"
  onError :: "(jsval \<Rightarrow> request \<Rightarrow> world \<Rightarrow> unit eff) option"
  onRequest :: "(request \<Rightarrow> world \<Rightarrow> unit eff) option"
  onResponse :: "(response option \<Rightarrow> request \<Rightarrow> world \<Rightarrow> unit eff) option"
  onRetry :: "(retry_ctx \<Rightarrow> world \<Rightarrow> unit eff) option"
  onSuccess :: "(jsval \<Rightarrow> request \<Rightarrow> world \<Rightarrow> unit eff) option"
  params :: jsval
  parseRejected :: "parser option option"
  parseResponse :: "parser option option"
  reject :: "(response option \<Rightarrow> world \<Rightarrow> bool eff) option option"
  retry :: "retry_options option"
  serializeBody :: "serialize_body option option"
  serializeParams :: "serialize_params option option"
  signal :: "signal option"
  timeout :: "nat option option"

record call_options = default_options +
  body :: jsval

text \<open>\<open>FetcherOptions\<close> of \<open>enhance\<close>: \<open>schema\<close> is the schema of the response.\<close>

record fetcher_options = call_options +
  schema :: "schema option"


section \<open>Fallback options (fallback-options.ts)\<close>

definition fallback_parseResponse :: "platform \<Rightarrow> parser" where
  "fallback_parseResponse pf res rq w =
     (case res of
        None \<Rightarrow> (Inr Null, 0)
      | Some r \<Rightarrow>
          (Inr (case JSON_parse pf (body_text r) of
                  Some v \<Rightarrow> v
                | None \<Rightarrow> if body_text r = [] then Null else Str (body_text r)), 0))"

definition fallback_parseRejected :: "platform \<Rightarrow> parser" where
  "fallback_parseRejected pf res rq w =
     (case fallback_parseResponse pf res rq w of
        (Inl e, dt) \<Rightarrow> (Inl e, dt)
      | (Inr d, dt) \<Rightarrow>
          (Inr (new_ResponseError
                  (Some (case res of
                           None \<Rightarrow> []
                         | Some r \<Rightarrow> ''['' @ nat_digits (status r) @ ''] '' @ statusText r))
                  res d (Some rq) Undefined), dt))"

text \<open>Query values that are \<open>Date\<close> objects are not modelled.\<close>

definition append_param :: "string \<Rightarrow> jsval \<Rightarrow> (string \<times> string) list" where
  "append_param key v = (if isNil v then [] else [(key, js_String v)])"

definition fallback_serializeParams :: "platform \<Rightarrow> serialize_params" where
  "fallback_serializeParams pf ps =
     Inr (URLSearchParams_toString pf
            (concat (map (\<lambda>(key, v). case v of
                                        Arr items \<Rightarrow> concat (map (append_param key) items)
                                      | _ \<Rightarrow> append_param key v) ps)))"

definition fallback_serializeBody :: "platform \<Rightarrow> serialize_body" where
  "fallback_serializeBody pf b =
     Inr (case b of
            FormData fs \<Rightarrow> b
          | _ \<Rightarrow> if isSerializable b then JSON_stringify pf b else b)"

definition fallback_reject :: "response option \<Rightarrow> world \<Rightarrow> bool eff" where
  "fallback_reject res w = (Inr (\<not> (case res of None \<Rightarrow> False | Some r \<Rightarrow> response_ok r)), 0)"

text \<open>The default \<open>retry.when\<close>: \<open>ctx.response?.ok === false\<close>.\<close>

definition fallback_retry_when :: retry_when where
  "fallback_retry_when ctx w =
     (Inr (case ctx_response ctx of None \<Rightarrow> False | Some r \<Rightarrow> \<not> response_ok r), 0)"

section \<open>The request executor (enhance.ts)\<close>

text \<open>
  The object \<open>options.retry\<close> and the object \<open>options\<close> of \<open>enhance\<close>, with the keys that the
  function reads. What a key holds is \<open>None\<close> when it holds \<open>undefined\<close>: the fallback options
  define \<open>attempts\<close>, \<open>delay\<close>, \<open>when\<close>, the parsers, the serializers and \<open>reject\<close>, but the
  default options or the options of the call can overwrite them with \<open>undefined\<close>.
\<close>

record retry_required =
  r_attempts :: "retry_attempts option"
  r_delay :: "retry_delay option"
  r_when :: "retry_when option"

record options =
  o_baseUrl :: "string option"
  o_method :: "string option"
  o_headers :: "(string \<times> string) list"
  o_body :: jsval
  o_timeout :: "nat option"
  o_parseRejected :: "parser option"
  o_parseResponse :: "parser option"
  o_reject :: "(response option \<Rightarrow> world \<Rightarrow> bool eff) option"
  o_retry :: retry_required
  o_serializeBody :: "serialize_body option"
  o_serializeParams :: "serialize_params option"

text \<open>
  \<open>{ ...lower, ...upper }\<close> on one key: the key of \<open>upper\<close> wins when \<open>upper\<close> has it, also
  when it holds \<open>undefined\<close> there. \<open>pick\<close> is what \<open>{ ...fallback, ...dflt, ...fo }\<close> holds
  under the key, \<open>fallback\<close> being what the fallback options hold (\<open>None\<close> for a key that
  they do not have).
\<close>

definition over :: "'a option \<Rightarrow> 'a option \<Rightarrow> 'a option" where
  "over lower upper = (case upper of None \<Rightarrow> lower | Some v \<Rightarrow> Some v)"

definition pick :: "'a \<Rightarrow> 'a option \<Rightarrow> 'a option \<Rightarrow> 'a" where
  "pick fallback dflt fo = (case over dflt fo of None \<Rightarrow> fallback | Some v \<Rightarrow> v)"

definition retry_field :: "(retry_options \<Rightarrow> 'a option) \<Rightarrow> retry_options option \<Rightarrow> 'a option" where
  "retry_field sel r = (case r of None \<Rightarrow> None | Some x \<Rightarrow> sel x)"

definition merge_retry :: "retry_options option \<Rightarrow> retry_options option \<Rightarrow> retry_required" where
  "merge_retry dr fr =
     \<lparr>r_attempts = pick (Some (Inl 0)) (retry_field attempts dr) (retry_field attempts fr),
      r_delay = pick (Some (Inl 0)) (retry_field delay dr) (retry_field delay fr),
      r_when = pick (Some fallback_retry_when)
                 (retry_field retry_when dr) (retry_field retry_when fr)\<rparr>"

text \<open>
  \<open>options.body\<close> and \<open>options.headers\<close>, from the body of the call (a body of the default
  options is ignored) and the configured serializer.
\<close>

definition auto_content_type :: "jsval \<Rightarrow> jsval \<Rightarrow> (string \<times> jsval) list" where
  "auto_content_type originalBody serialized =
     (if serialized = Undefined \<or> serialized = Null \<or> (case originalBody of FormData fs \<Rightarrow> True | _ \<Rightarrow> False)
      then []
      else if isSerializable originalBody \<and> (case serialized of Str s \<Rightarrow> True | _ \<Rightarrow> False)
      then [(''content-type'', Str ''application/json'')]
      else [])"

definition make_options ::
    "platform \<Rightarrow> 'a default_options_scheme \<Rightarrow> fetcher_options \<Rightarrow> jsval + options" where
  "make_options pf defaultOpts fetcherOpts =
     (let ser = pick (Some (fallback_serializeBody pf))
                  (serializeBody defaultOpts) (serializeBody fetcherOpts);
          originalBody = body fetcherOpts
      in case (if originalBody = Null \<or> originalBody = Undefined then Inr originalBody
               else (case ser of
                       None \<Rightarrow> Inl (not_a_function ''options.serializeBody'')
                     | Some sb \<Rightarrow> sb originalBody)) of
           Inl e \<Rightarrow> Inl e
         | Inr b \<Rightarrow>
             Inr \<lparr>o_baseUrl = pick None (baseUrl defaultOpts) (baseUrl fetcherOpts),
                  o_method = (case over (method_key defaultOpts) (method_key fetcherOpts) of
                                None \<Rightarrow> None | Some m \<Rightarrow> m),
                  o_headers = mergeHeaders [Some (auto_content_type originalBody b),
                                            headers defaultOpts, headers fetcherOpts],
                  o_body = b,
                  o_timeout = pick None (timeout defaultOpts) (timeout fetcherOpts),
                  o_parseRejected = pick (Some (fallback_parseRejected pf))
                                      (parseRejected defaultOpts) (parseRejected fetcherOpts),
                  o_parseResponse = pick (Some (fallback_parseResponse pf))
                                      (parseResponse defaultOpts) (parseResponse fetcherOpts),
                  o_reject = pick (Some fallback_reject) (reject defaultOpts) (reject fetcherOpts),
                  o_retry = merge_retry (retry defaultOpts) (retry fetcherOpts),
                  o_serializeBody = ser,
                  o_serializeParams = pick (Some (fallback_serializeParams pf))
                                        (serializeParams defaultOpts) (serializeParams fetcherOpts)\<rparr>)"

text \<open>
  The variables of the loop: \<open>attempt\<close>, \<open>response\<close> and \<open>error\<close>. The fourth one,
  \<open>request\<close>, is assigned in every turn before it is read; the loop returns it beside
  the others.
\<close>

record loop_vars =
  attempt :: nat
  v_response :: "response option"
  v_error :: jsval

datatype control = Break loop_vars | Continue loop_vars

text \<open>
  The first \<open>try\<close> of the loop body: the two \<open>onRequest\<close> hooks, then the transport. A
  response resets \<open>error\<close>; a thrown value is kept in \<open>error\<close> and \<open>response\<close> keeps the
  value it had.
\<close>

definition send_attempt ::
    "(request \<Rightarrow> world \<Rightarrow> response eff) \<Rightarrow> 'a default_options_scheme \<Rightarrow> fetcher_options
     \<Rightarrow> request \<Rightarrow> loop_vars \<Rightarrow> world \<Rightarrow> loop_vars \<times> world" where
  "send_attempt fetchFn defaultOpts fetcherOpts rq vs w =
     (case bnd (call_opt (OnRequest Default) (map_option (\<lambda>h. h rq) (onRequest defaultOpts)))
            (\<lambda>_. bnd (call_opt (OnRequest PerCall) (map_option (\<lambda>h. h rq) (onRequest fetcherOpts)))
            (\<lambda>_. call Fetch (fetchFn rq))) w of
        (Inr res, w') \<Rightarrow> (vs\<lparr>v_response := Some res, v_error := Undefined\<rparr>, w')
      | (Inl e, w') \<Rightarrow> (vs\<lparr>v_error := e\<rparr>, w'))"

text \<open>
  \<open>typeof options.retry.attempts === 'function' ? await options.retry.attempts({ request })
  : options.retry.attempts\<close>, and the same for the delay. The bound on the attempts is
  \<open>None\<close> when the key holds \<open>undefined\<close>; \<open>setTimeout\<close> takes the delay \<open>undefined\<close> for
  0.
\<close>

definition eval_attempts :: "retry_attempts option \<Rightarrow> request \<Rightarrow> nat option run" where
  "eval_attempts a rq =
     (case a of
        None \<Rightarrow> ret None
      | Some (Inl n) \<Rightarrow> ret (Some n)
      | Some (Inr f) \<Rightarrow> bnd (call RetryAttempts (f rq)) (\<lambda>n. ret (Some n)))"

definition eval_delay :: "retry_delay option \<Rightarrow> retry_ctx \<Rightarrow> nat run" where
  "eval_delay d ctx =
     (case d of
        None \<Rightarrow> ret 0
      | Some (Inl n) \<Rightarrow> ret n
      | Some (Inr f) \<Rightarrow> call RetryDelay (f ctx))"

text \<open>\<open>++attempt > bound\<close>, which is false when the bound is \<open>undefined\<close>.\<close>

definition exceeds :: "nat \<Rightarrow> nat option \<Rightarrow> bool" where
  "exceeds n bound = (case bound of None \<Rightarrow> False | Some b \<Rightarrow> n > b)"

text \<open>
  The second \<open>try\<close>: \<open>retry.when\<close>, then \<open>++attempt\<close> against \<open>retry.attempts\<close>, then the
  delay, waited on \<open>options.signal\<close>, then the two \<open>onRetry\<close> hooks. Anything thrown here is
  kept in \<open>error\<close> and leaves the loop.
\<close>

definition retry_decision ::
    "'a default_options_scheme \<Rightarrow> fetcher_options \<Rightarrow> options \<Rightarrow> signal option \<Rightarrow> request
     \<Rightarrow> loop_vars \<Rightarrow> world \<Rightarrow> control \<times> world" where
  "retry_decision defaultOpts fetcherOpts opts sg rq vs w =
     (case call_key RetryWhen (not_a_function ''options.retry.when'')
             (map_option (\<lambda>g. g \<lparr>ctx_request = rq, ctx_response = v_response vs,
                                     ctx_error = v_error vs\<rparr>) (r_when (o_retry opts))) w of
        (Inl e, w1) \<Rightarrow> (Break (vs\<lparr>v_error := e\<rparr>), w1)
      | (Inr b, w1) \<Rightarrow>
          if \<not> b then (Break vs, w1)
          else
            (let vs' = vs\<lparr>attempt := attempt vs + 1\<rparr>;
                 retryCtx = \<lparr>ctx_request = rq, ctx_response = v_response vs,
                             ctx_error = v_error vs, ctx_attempt = attempt vs'\<rparr>
             in case bnd (eval_attempts (r_attempts (o_retry opts)) rq)
                  (\<lambda>bound. if exceeds (attempt vs') bound then ret False
                        else bnd (eval_delay (r_delay (o_retry opts)) retryCtx)
                       (\<lambda>ms. bnd (abortableDelay ms sg)
                       (\<lambda>_. bnd (call_opt (OnRetry Default)
                                    (map_option (\<lambda>h. h retryCtx) (onRetry defaultOpts)))
                       (\<lambda>_. bnd (call_opt (OnRetry PerCall)
                                    (map_option (\<lambda>h. h retryCtx) (onRetry fetcherOpts)))
                       (\<lambda>_. ret True))))) w1 of
                  (Inl e, w2) \<Rightarrow> (Break (vs'\<lparr>v_error := e\<rparr>), w2)
                | (Inr again, w2) \<Rightarrow> (if again then Continue vs' else Break vs', w2)))"

text \<open>
  The loop \<open>do { ... } while (true)\<close>. Each turn arms a new timeout signal, builds the
  request (outside the two \<open>try\<close> blocks, so that what is thrown there leaves \<open>enhance\<close> at
  once), sends it and decides. The first argument bounds the number of turns: \<open>None\<close> is a
  loop that has not ended within it.
\<close>

fun retry_loop ::
    "nat \<Rightarrow> platform \<Rightarrow> (request \<Rightarrow> world \<Rightarrow> response eff) \<Rightarrow> 'a default_options_scheme
     \<Rightarrow> fetcher_options \<Rightarrow> options \<Rightarrow> string \<Rightarrow> loop_vars \<Rightarrow> world
     \<Rightarrow> ((jsval + request \<times> loop_vars) \<times> world) option" where
  "retry_loop 0 pf fetchFn defaultOpts fetcherOpts opts input vs w = None"
| "retry_loop (Suc k) pf fetchFn defaultOpts fetcherOpts opts input vs w =
     (let sg = withTimeout pf (now w) (signal fetcherOpts) (o_timeout opts)
      in case resolveUrl pf (o_baseUrl opts) input (params defaultOpts) (params fetcherOpts)
                (o_serializeParams opts) of
           Inl e \<Rightarrow> Some (Inl e, w)
         | Inr requestUrl \<Rightarrow>
             (case new_Request pf requestUrl
                     \<lparr>init_method = o_method opts, init_headers = o_headers opts,
                      init_body = o_body opts, init_signal = sg\<rparr> of
                Inl e \<Rightarrow> Some (Inl e, w)
              | Inr rq \<Rightarrow>
                  (case send_attempt fetchFn defaultOpts fetcherOpts rq vs w of
                     (vs1, w1) \<Rightarrow>
                       (case retry_decision defaultOpts fetcherOpts opts sg rq vs1 w1 of
                          (Break vs2, w2) \<Rightarrow> Some (Inr (rq, vs2), w2)
                        | (Continue vs2, w2) \<Rightarrow>
                            retry_loop k pf fetchFn defaultOpts fetcherOpts opts input vs2 w2))))"

text \<open>
  After the loop: the last \<open>try\<close>, whose \<open>catch\<close> runs the two \<open>onError\<close> hooks and throws
  again. \<open>if (error)\<close> tests the thrown value for truthiness.
\<close>

definition finish ::
    "platform \<Rightarrow> 'a default_options_scheme \<Rightarrow> fetcher_options \<Rightarrow> options \<Rightarrow> loop_vars
     \<Rightarrow> request \<Rightarrow> jsval run" where
  "finish pf defaultOpts fetcherOpts opts vs rq w =
     (case (if truthy (v_error vs) then throw (v_error vs)
            else bnd (call_key Reject (not_a_function ''options.reject'')
                        (map_option (\<lambda>g. g (v_response vs)) (o_reject opts)))
              (\<lambda>rej. if rej
                 then bnd (call_key ParseRejected (not_a_function ''options.parseRejected'')
                             (map_option (\<lambda>g. g (v_response vs) rq) (o_parseRejected opts))) throw
                 else bnd (call_opt (OnResponse Default)
                             (map_option (\<lambda>h. h (v_response vs) rq) (onResponse defaultOpts)))
                   (\<lambda>_. bnd (call_opt (OnResponse PerCall)
                             (map_option (\<lambda>h. h (v_response vs) rq) (onResponse fetcherOpts)))
                   (\<lambda>_. bnd (call_key ParseResponse (not_a_function ''options.parseResponse'')
                                (map_option (\<lambda>g. g (v_response vs) rq) (o_parseResponse opts)))
                   (\<lambda>parsed. bnd (case schema fetcherOpts of
                                     None \<Rightarrow> ret parsed
                                   | Some sch \<Rightarrow> lift (validate pf sch parsed))
                   (\<lambda>d. bnd (call_opt (OnSuccess Default)
                                (map_option (\<lambda>h. h d rq) (onSuccess defaultOpts)))
                   (\<lambda>_. bnd (call_opt (OnSuccess PerCall)
                                (map_option (\<lambda>h. h d rq) (onSuccess fetcherOpts)))
                   (\<lambda>_. ret d)))))))) w of
        (Inr d, w') \<Rightarrow> (Inr d, w')
      | (Inl e, w') \<Rightarrow>
          bnd (call_opt (OnError Default) (map_option (\<lambda>h. h e rq) (onError defaultOpts)))
            (\<lambda>_. bnd (call_opt (OnError PerCall) (map_option (\<lambda>h. h e rq) (onError fetcherOpts)))
            (\<lambda>_. throw e)) w')"

text \<open>
  \<open>enhance(fetchFn, () => defaultOpts)(input, fetcherOpts)\<close> for an \<open>input\<close> that is a
  string, as the client passes it.
\<close>

definition enhance ::
    "nat \<Rightarrow> platform \<Rightarrow> (request \<Rightarrow> world \<Rightarrow> response eff) \<Rightarrow> 'a default_options_scheme
     \<Rightarrow> string \<Rightarrow> fetcher_options \<Rightarrow> world \<Rightarrow> ((jsval + jsval) \<times> world) option" where
  "enhance fuel pf fetchFn defaultOpts input fetcherOpts w =
     (case make_options pf defaultOpts fetcherOpts of
        Inl e \<Rightarrow> Some (Inl e, w)
      | Inr opts \<Rightarrow>
          (case retry_loop fuel pf fetchFn defaultOpts fetcherOpts opts input
                  \<lparr>attempt = 0, v_response = None, v_error = Undefined\<rparr> w of
             None \<Rightarrow> None
           | Some (Inl e, w') \<Rightarrow> Some (Inl e, w')
           | Some (Inr (rq, vs), w') \<Rightarrow> Some (finish pf defaultOpts fetcherOpts opts vs rq w')))"


section \<open>The client (create.ts)\<close>

record fetch_schema =
  s_body :: "schema option"
  s_response :: "schema option"
  s_query :: "schema option"
  s_params :: "schema option"
  s_method :: "string option"

text \<open>
  The options of one call. The key \<open>params\<close> holds the path parameters here, \<open>query\<close> the
  query parameters, and \<open>request_schema\<close> is what reading the key \<open>schema\<close> of a call gives:
  its value (\<open>None\<close> for no key, \<open>undefined\<close> and \<open>null\<close>), or the value that its accessor
  throws when the key is an accessor property that throws. The client reads this key
  before its \<open>try\<close> block; the other keys are read inside the block and are taken to be data
  properties.
\<close>

record resfetch_options = call_options +
  query :: jsval
  request_schema :: "jsval + fetch_schema option"

text \<open>
  The options of \<open>createResfetch\<close>: the default options, the table of route schemas
  (\<open>options.schema.schema\<close>) and a custom transport. The table is given by its own
  properties, a map from the route string to its entry; they are data properties, and an
  entry is a schema object (\<open>FetchSchemaRoutes\<close>).
\<close>

record create_options = default_options +
  c_schema :: "(string \<Rightarrow> fetch_schema option) option"
  c_fetch :: "(request \<Rightarrow> world \<Rightarrow> response eff) option"

definition empty_schema :: fetch_schema where
  "empty_schema = \<lparr>s_body = None, s_response = None, s_query = None, s_params = None, s_method = None\<rparr>"

text \<open>
  \<open>schema.schema[url]\<close>. The table is a plain object, made by an object literal, so the
  read goes on to \<open>Object.prototype\<close> when the table has no route \<open>url\<close>, and finds a member
  there when \<open>url\<close> is the name of one. Such a member is a function, or the prototype itself
  for \<open>__proto__\<close>: it is not \<open>undefined\<close>, and it has no \<open>body\<close>, \<open>query\<close>, \<open>params\<close>,
  \<open>response\<close> or \<open>method\<close>, so as a schema definition it reads like \<open>{}\<close>.
\<close>

definition Object_prototype_keys :: "string list" where
  "Object_prototype_keys =
     [''constructor'', ''__defineGetter__'', ''__defineSetter__'', ''hasOwnProperty'',
      ''__lookupGetter__'', ''__lookupSetter__'', ''isPrototypeOf'', ''propertyIsEnumerable'',
      ''toString'', ''valueOf'', ''__proto__'', ''toLocaleString'']"

definition read_route :: "(string \<Rightarrow> fetch_schema option) \<Rightarrow> string \<Rightarrow> fetch_schema option" where
  "read_route routes u =
     (case routes u of
        Some entry \<Rightarrow> Some entry
      | None \<Rightarrow> if u \<in> set Object_prototype_keys then Some empty_schema else None)"

text \<open>
  \<open>schema?.schema?.[url] ?? fetcherOptions?.schema ?? {}\<close>, evaluated before the \<open>try\<close>
  block: \<open>fetcherOptions?.schema\<close> is read only when the table gives nothing, and what its
  accessor throws is thrown by the client function itself (\<open>Inl\<close>).
\<close>

definition select_schema :: "create_options \<Rightarrow> string \<Rightarrow> resfetch_options \<Rightarrow> jsval + fetch_schema" where
  "select_schema co u fetcherOptions =
     (case (case c_schema co of None \<Rightarrow> None | Some routes \<Rightarrow> read_route routes u) of
        Some globalSchemaDef \<Rightarrow> Inr globalSchemaDef
      | None \<Rightarrow> (case request_schema fetcherOptions of
                   Inl e \<Rightarrow> Inl e
                 | Inr (Some s) \<Rightarrow> Inr s
                 | Inr None \<Rightarrow> Inr empty_schema))"

text \<open>\<open>if (schemaDef.k && currentOptions.k) currentOptions.k = await validate(schemaDef.k, currentOptions.k)\<close>\<close>

definition validate_if :: "platform \<Rightarrow> schema option \<Rightarrow> jsval \<Rightarrow> jsval + jsval" where
  "validate_if pf sch v =
     (case sch of
        None \<Rightarrow> Inr v
      | Some sc \<Rightarrow> if truthy v then validate pf sc v else Inr v)"

text \<open>
  \<open>fetchOptions\<close>: the copy of the options of the call with \<open>params\<close> set to the query,
  \<open>schema\<close> to the schema of the response and \<open>method\<close> to
  \<open>currentOptions.method || schemaDef.method\<close>; the three keys are always written.
\<close>

definition fetch_options :: "fetch_schema \<Rightarrow> resfetch_options \<Rightarrow> fetcher_options" where
  "fetch_options schemaDef currentOptions =
     call_options.extend
       (call_options.truncate
          (currentOptions\<lparr>params := query currentOptions,
             method_key := Some (case method_key currentOptions of
                                   Some (Some m) \<Rightarrow> if m \<noteq> [] then Some m else s_method schemaDef
                                 | _ \<Rightarrow> s_method schemaDef)\<rparr>))
       (fetcher_options.fields (s_response schemaDef))"

text \<open>
  The \<open>try\<close> block of the client function. Its first statement,
  \<open>const currentOptions = { ...fetcherOptions }\<close>, reads every key of the options, so an
  accessor \<open>schema\<close> that throws does so here, when the table has made the read before the
  block unnecessary.
\<close>

definition fetcher_try ::
    "nat \<Rightarrow> platform \<Rightarrow> create_options \<Rightarrow> fetch_schema \<Rightarrow> string \<Rightarrow> resfetch_options
     \<Rightarrow> world \<Rightarrow> ((jsval + jsval) \<times> world) option" where
  "fetcher_try fuel pf co schemaDef u fetcherOptions w =
     (case request_schema fetcherOptions of
        Inl e \<Rightarrow> Some (Inl e, w)
      | Inr _ \<Rightarrow>
     (case validate_if pf (s_body schemaDef) (body fetcherOptions) of
        Inl e \<Rightarrow> Some (Inl e, w)
      | Inr b \<Rightarrow>
     (case validate_if pf (s_query schemaDef) (query fetcherOptions) of
        Inl e \<Rightarrow> Some (Inl e, w)
      | Inr q \<Rightarrow>
     (case validate_if pf (s_params schemaDef) (params fetcherOptions) of
        Inl e \<Rightarrow> Some (Inl e, w)
      | Inr ps \<Rightarrow>
          (let currentOptions = fetcherOptions\<lparr>body := b, query := q, params := ps\<rparr>;
               actualUrl = replacePathParams u (params currentOptions)
           in enhance fuel pf (case c_fetch co of Some f \<Rightarrow> f | None \<Rightarrow> global_fetch pf)
                (default_options.truncate co) actualUrl
                (fetch_options schemaDef currentOptions) w)))))"

text \<open>
  What the \<open>catch\<close> of the client function makes of a thrown value.
\<close>

definition to_failure :: "jsval \<Rightarrow> resfetch_result" where
  "to_failure e =
     (if isValidationError e then err e
      else if isResponseError e then err e
      else err (new_ResponseError (Some (if instanceof_Error e then error_message e else []))
                  None Undefined None e))"

text \<open>
  The client function \<open>fetcher(url, fetcherOptions)\<close> of \<open>createResfetch(options)\<close>. The
  outcome of its promise is \<open>Inl\<close> for a rejection and \<open>Inr\<close> for a result. What is thrown
  before the \<open>try\<close> block rejects the promise.
\<close>

definition fetcher ::
    "nat \<Rightarrow> platform \<Rightarrow> create_options \<Rightarrow> string \<Rightarrow> resfetch_options \<Rightarrow> world
     \<Rightarrow> ((jsval + resfetch_result) \<times> world) option" where
  "fetcher fuel pf co u fetcherOptions w =
     (case select_schema co u fetcherOptions of
        Inl e \<Rightarrow> Some (Inl e, w)
      | Inr schemaDef \<Rightarrow>
          (case fetcher_try fuel pf co schemaDef u fetcherOptions w of
             None \<Rightarrow> None
           | Some (Inr d, w') \<Rightarrow> Some (Inr (ok d), w')
           | Some (Inl e, w') \<Rightarrow> Some (Inr (to_failure e), w')))"

text \<open>A call without options, and \<open>createResfetch()\<close> without options.\<close>

definition no_default_options :: default_options where
  "no_default_options =
     \<lparr>baseUrl = None, headers = None, method_key = None, onError = None, onRequest = None,
      onResponse = None, onRetry = None, onSuccess = None, params = Undefined,
      parseRejected = None, parseResponse = None, reject = None, retry = None,
      serializeBody = None, serializeParams = None, signal = None, timeout = None\<rparr>"

definition no_options :: resfetch_options where
  "no_options =
     call_options.extend (default_options.extend no_default_options (call_options.fields Undefined))
       (resfetch_options.fields Undefined (Inr None))"

definition no_create_options :: create_options where
  "no_create_options = default_options.extend no_default_options (create_options.fields None None)"

definition resfetch ::
    "nat \<Rightarrow> platform \<Rightarrow> string \<Rightarrow> resfetch_options \<Rightarrow> world
     \<Rightarrow> ((jsval + resfetch_result) \<times> world) option" where
  "resfetch fuel pf = fetcher fuel pf no_create_options"


section \<open>A platform, transports and schemas for the examples\<close>

text \<open>
  A \<open>Request\<close> constructor that refuses a body on \<open>GET\<close> and \<open>HEAD\<close>, the default method
  being \<open>GET\<close>, and copies its arguments otherwise.
\<close>

definition std_new_Request :: "string \<Rightarrow> request_init \<Rightarrow> jsval + request" where
  "std_new_Request u init =
     (if init_method init \<in> {None, Some ''GET'', Some ''HEAD''} \<and> \<not> isNil (init_body init)
      then Inl (ErrorObj ''TypeError'' ''Request with GET/HEAD method cannot have body.'')
      else Inr (Request u (init_method init) (init_headers init) (init_body init) (init_signal init)))"

text \<open>
  A transport that honours the signal of its request: it throws the reason at once when
  the signal has fired already, and at the time the signal fires when that is before the
  exchange has ended.
\<close>

definition abortable :: "request \<Rightarrow> world \<Rightarrow> jsval + response \<Rightarrow> nat \<Rightarrow> response eff" where
  "abortable rq w outcome dur =
     (case req_signal rq of
        None \<Rightarrow> (outcome, dur)
      | Some s \<Rightarrow>
          (case fires_at s of
             None \<Rightarrow> (outcome, dur)
           | Some t \<Rightarrow> if t \<le> now w then (Inl (reason s), 0)
                       else if t < now w + dur then (Inl (reason s), t - now w)
                       else (outcome, dur)))"

text \<open>
  A transport whose \<open>i\<close>-th invocation has the \<open>i\<close>-th outcome of a list and takes \<open>dur\<close> ms;
  it counts its invocations in the trace.
\<close>

definition scripted :: "(jsval + response) list \<Rightarrow> nat \<Rightarrow> request \<Rightarrow> world \<Rightarrow> response eff" where
  "scripted outcomes dur rq w =
     (let i = count_list (trace w) Fetch
      in abortable rq w (if i < length outcomes then outcomes ! i
                         else Inl (ErrorObj ''TypeError'' ''fetch failed'')) dur)"

definition demo_platform :: platform where
  "demo_platform =
     \<lparr>JSON_stringify = (\<lambda>v. if v = Undefined then Undefined else Str ''{}''),
      JSON_parse = (\<lambda>s. if s = ''null'' then Some Null else None),
      AbortSignal_has_any = True,
      searchParams_keys = (\<lambda>s. Inr []),
      URLSearchParams_toString = (\<lambda>ps. join_strings ''&'' (map (\<lambda>(k, v). k @ ''='' @ v) ps)),
      new_Request = std_new_Request,
      global_fetch = scripted [] 0\<rparr>"

definition resp :: "nat \<Rightarrow> string \<Rightarrow> response" where
  "resp st t = \<lparr>status = st, statusText = [], body_text = t\<rparr>"

definition w0 :: world where
  "w0 = \<lparr>now = 0, trace = []\<rparr>"

definition client :: "(jsval + response) list \<Rightarrow> create_options" where
  "client outcomes = no_create_options\<lparr>c_fetch := Some (scripted outcomes 10)\<rparr>"

definition string_schema :: schema where
  "string_schema v =
     (case v of Str s \<Rightarrow> Inr (VSuccess (Str s)) | _ \<Rightarrow> Inr (VFailure [Str ''expected string'']))"

definition routes1 :: "string \<Rightarrow> fetch_schema option" where
  "routes1 = (\<lambda>u. None)(''/test'' := Some (empty_schema\<lparr>s_response := Some string_schema\<rparr>))"

definition other_schema :: fetch_schema where
  "other_schema = empty_schema\<lparr>s_response := Some (\<lambda>v. Inr (VFailure [Str ''never'']))\<rparr>"

definition routed_client :: create_options where
  "routed_client = (client [Inr (resp 200 ''hi'')])\<lparr>c_schema := Some routes1\<rparr>"

definition failure_500 :: resfetch_result where
  "failure_500 =
     err (ResponseError ''[500] '' (Some (resp 500 []))
            (Some (Request ''/x'' None [] Undefined (Some (Signal None Undefined))))
            Null Undefined)"







section \<open>Vocabulary of the properties\<close>

text \<open>A hook that, when it is there, returns normally whenever it is called.\<close>

definition never_throws1 :: "('a \<Rightarrow> world \<Rightarrow> unit eff) option \<Rightarrow> bool" where
  "never_throws1 h = (\<forall>g. h = Some g \<longrightarrow> (\<forall>a w. fst (g a w) = Inr ()))"

definition never_throws2 :: "('a \<Rightarrow> 'b \<Rightarrow> world \<Rightarrow> unit eff) option \<Rightarrow> bool" where
  "never_throws2 h = (\<forall>g. h = Some g \<longrightarrow> (\<forall>a b w. fst (g a b w) = Inr ()))"

text \<open>
  The context that \<open>retry.when\<close> is given after an attempt: when the transport has returned
  a response, that response and no error; when it has thrown, the thrown value and the
  response that the loop variable held before the attempt.
\<close>

definition attempt_ctx :: "request \<Rightarrow> response option \<Rightarrow> jsval + response \<Rightarrow> when_ctx" where
  "attempt_ctx rq prev outcome =
     (case outcome of
        Inr r \<Rightarrow> \<lparr>ctx_request = rq, ctx_response = Some r, ctx_error = Undefined\<rparr>
      | Inl e \<Rightarrow> \<lparr>ctx_request = rq, ctx_response = prev, ctx_error = e\<rparr>)"

text \<open>
  A signal of the caller that is absent or never fires, and a signal that does not fire
  before the time \<open>t\<close>.
\<close>

definition never_fires :: "signal option \<Rightarrow> bool" where
  "never_fires sg = (case sg of None \<Rightarrow> True | Some s \<Rightarrow> fires_at s = None)"

definition fires_after :: "nat \<Rightarrow> signal option \<Rightarrow> bool" where
  "fires_after t sg =
     (case sg of
        None \<Rightarrow> True
      | Some s \<Rightarrow> (case fires_at s of None \<Rightarrow> True | Some x \<Rightarrow> t \<le> x))"

text \<open>The events that a hook leaves in the trace when it is called once.\<close>

definition hook_events :: "callee \<Rightarrow> 'a option \<Rightarrow> callee list" where
  "hook_events c h = (case h of None \<Rightarrow> [] | Some g \<Rightarrow> [c])"

definition advance :: "world \<Rightarrow> nat \<Rightarrow> callee list \<Rightarrow> world" where
  "advance w dt evs = \<lparr>now = now w + dt, trace = trace w @ evs\<rparr>"

text \<open>
  \<open>retry.attempts\<close> is \<open>N\<close>, as a number or as a function that always returns \<open>N\<close>, and
  \<open>retry.delay\<close> is a number or a function that always returns one; the events that their
  evaluation leaves in the trace.
\<close>

definition attempts_is :: "nat \<Rightarrow> retry_attempts option \<Rightarrow> bool" where
  "attempts_is N a =
     (case a of
        None \<Rightarrow> False
      | Some (Inl n) \<Rightarrow> n = N
      | Some (Inr g) \<Rightarrow> (\<forall>rq w. \<exists>dt. g rq w = (Inr N, dt)))"

definition delay_total :: "retry_delay option \<Rightarrow> bool" where
  "delay_total dl =
     (case dl of
        Some (Inr g) \<Rightarrow> (\<forall>ctx w. \<exists>ms dt. g ctx w = (Inr ms, dt))
      | _ \<Rightarrow> True)"

definition attempts_events :: "retry_attempts option \<Rightarrow> callee list" where
  "attempts_events a = (case a of Some (Inr g) \<Rightarrow> [RetryAttempts] | _ \<Rightarrow> [])"

definition delay_events :: "retry_delay option \<Rightarrow> callee list" where
  "delay_events dl = (case dl of Some (Inr g) \<Rightarrow> [RetryDelay] | _ \<Rightarrow> [])"

text \<open>
  A budget of time, in ms, for the callbacks of one turn of the loop: for each kind of
  callee, the longest that one call of it takes; under \<open>Delay\<close>, the longest retry delay.
  \<open>within_budget\<close> says that the \<open>onRequest\<close> hooks, the transport, \<open>retry.when\<close>,
  \<open>retry.attempts\<close> and \<open>retry.delay\<close> of a call keep to it. \<open>turn_time\<close> is then the longest
  that a turn takes from its start, where the timeout signal of the attempt is armed, to
  the end of its retry delay.
\<close>

definition within_budget ::
    "(callee \<Rightarrow> nat) \<Rightarrow> (request \<Rightarrow> world \<Rightarrow> response eff) \<Rightarrow> 'a default_options_scheme
     \<Rightarrow> 'b default_options_scheme \<Rightarrow> options \<Rightarrow> bool" where
  "within_budget B fetchFn d f opts =
     ((\<forall>g rq w. onRequest d = Some g \<longrightarrow> snd (g rq w) \<le> B (OnRequest Default))
      \<and> (\<forall>g rq w. onRequest f = Some g \<longrightarrow> snd (g rq w) \<le> B (OnRequest PerCall))
      \<and> (\<forall>rq w. snd (fetchFn rq w) \<le> B Fetch)
      \<and> (\<forall>g ctx w. r_when (o_retry opts) = Some g \<longrightarrow> snd (g ctx w) \<le> B RetryWhen)
      \<and> (\<forall>g rq w. r_attempts (o_retry opts) = Some (Inr g) \<longrightarrow> snd (g rq w) \<le> B RetryAttempts)
      \<and> (\<forall>g ctx w. r_delay (o_retry opts) = Some (Inr g) \<longrightarrow> snd (g ctx w) \<le> B RetryDelay)
      \<and> (\<forall>g ctx w ms. r_delay (o_retry opts) = Some (Inr g) \<and> fst (g ctx w) = Inr ms
             \<longrightarrow> ms \<le> B Delay)
      \<and> (\<forall>ms. r_delay (o_retry opts) = Some (Inl ms) \<longrightarrow> ms \<le> B Delay))"

definition turn_time :: "(callee \<Rightarrow> nat) \<Rightarrow> nat" where
  "turn_time B =
     B (OnRequest Default) + B (OnRequest PerCall) + B Fetch + B RetryWhen + B RetryAttempts
     + B RetryDelay + B Delay"

text \<open>
  The timeout of a call leaves every turn the time of the budget: there is none, or it is
  0, which arms no signal, or it is not shorter than \<open>turn_time\<close>.
\<close>

definition timeout_allows :: "(callee \<Rightarrow> nat) \<Rightarrow> nat option \<Rightarrow> bool" where
  "timeout_allows B tmo = (case tmo of None \<Rightarrow> True | Some t \<Rightarrow> t = 0 \<or> turn_time B \<le> t)"

text \<open>The events of the \<open>onRequest\<close> hooks of one attempt.\<close>

definition request_events :: "'a default_options_scheme \<Rightarrow> 'b default_options_scheme \<Rightarrow> callee list" where
  "request_events d f =
     hook_events (OnRequest Default) (onRequest d) @ hook_events (OnRequest PerCall) (onRequest f)"

text \<open>The events of a second try block that goes on to the next attempt.\<close>

definition retry_events ::
    "options \<Rightarrow> 'a default_options_scheme \<Rightarrow> 'b default_options_scheme \<Rightarrow> callee list" where
  "retry_events opts d f =
     [RetryWhen] @ attempts_events (r_attempts (o_retry opts))
     @ delay_events (r_delay (o_retry opts)) @ [Delay]
     @ hook_events (OnRetry Default) (onRetry d) @ hook_events (OnRetry PerCall) (onRetry f)"

text \<open>Events among which there is no transport call and no \<open>onRetry\<close> hook.\<close>

definition quiet_events :: "callee list \<Rightarrow> bool" where
  "quiet_events evs = (Fetch \<notin> set evs \<and> OnRetry Default \<notin> set evs \<and> OnRetry PerCall \<notin> set evs)"

section \<open>Configurations for the examples\<close>

text \<open>
  Default options that retry once after 1 ms when the attempt has thrown (\<open>!!error\<close>), and
  a transport that throws and then answers 200; a call without options, as \<open>enhance\<close>
  receives it, and its request.
\<close>

definition error_defaults :: default_options where
  "error_defaults =
     no_default_options
       \<lparr>retry := Some \<lparr>attempts = Some (Some (Inl 1)), delay = Some (Some (Inl 1)),
                       retry_when = Some (Some (\<lambda>ctx w. (Inr (truthy (ctx_error ctx)), 0)))\<rparr>\<rparr>"

definition outcomes_network :: "(jsval + response) list" where
  "outcomes_network = [Inl (ErrorObj ''Error'' ''Network error''), Inr (resp 200 ''hello'')]"

definition plain_call :: fetcher_options where
  "plain_call = fetch_options empty_schema no_options"

definition plain_request :: request where
  "plain_request = Request ''https://a.com/x'' None [] Undefined (Some (Signal None Undefined))"

text \<open>A transport that fails twice, with a response and with a thrown error, and then succeeds.\<close>

definition outcomes3 :: "(jsval + response) list" where
  "outcomes3 = [Inr (resp 500 ''e''), Inl (ErrorObj ''TypeError'' ''fetch failed''), Inr (resp 200 ''hello'')]"

text \<open>
  Clients with the default \<open>retry.when\<close>: one that retries twice at once, one that retries
  twice after 5 ms and has a timeout of 12 ms.
\<close>

definition default_when_client :: "(jsval + response) list \<Rightarrow> create_options" where
  "default_when_client outcomes =
     (client outcomes)
       \<lparr>retry := Some \<lparr>attempts = Some (Some (Inl 2)), delay = None, retry_when = None\<rparr>\<rparr>"

definition timeout_client :: create_options where
  "timeout_client =
     (client [Inr (resp 500 ''e''), Inr (resp 200 ''hello'')])
       \<lparr>timeout := Some (Some 12),
        retry := Some \<lparr>attempts = Some (Some (Inl 2)), delay = Some (Some (Inl 5)),
                       retry_when = None\<rparr>\<rparr>"

text \<open>
  A client that retries once after 5 ms, with the default \<open>retry.when\<close> and a timeout of
  12 ms, against a transport that answers 500 and then 200.
\<close>

definition retry_once_client :: create_options where
  "retry_once_client =
     (client [Inr (resp 500 ''e''), Inr (resp 200 ''hello'')])
       \<lparr>timeout := Some (Some 12),
        retry := Some \<lparr>attempts = Some (Some (Inl 1)), delay = Some (Some (Inl 5)),
                       retry_when = None\<rparr>\<rparr>"

text \<open>
  Default options that retry twice after 5 ms, with the default \<open>retry.when\<close>, a timeout of
  40 ms and an \<open>onRetry\<close> hook; a transport that answers 500, 503 and then 200; a budget
  of 10 ms for the transport and 5 ms for the delay, the other callbacks taking no time.
\<close>

definition patient_defaults :: default_options where
  "patient_defaults =
     no_default_options
       \<lparr>timeout := Some (Some 40),
        retry := Some \<lparr>attempts = Some (Some (Inl 2)), delay = Some (Some (Inl 5)),
                       retry_when = None\<rparr>,
        onRetry := Some (\<lambda>ctx w. (Inr (), 1))\<rparr>"

definition outcomes_retry :: "(jsval + response) list" where
  "outcomes_retry = [Inr (resp 500 ''e''), Inr (resp 503 ''e''), Inr (resp 200 ''hello'')]"

definition demo_budget :: "callee \<Rightarrow> nat" where
  "demo_budget c = (if c = Fetch then 10 else if c = Delay then 5 else 0)"

definition five_attempts_defaults :: default_options where
  "five_attempts_defaults =
     no_default_options
       \<lparr>retry := Some \<lparr>attempts = Some (Some (Inl 5)), delay = None, retry_when = None\<rparr>\<rparr>"

text \<open>
  The options that \<open>make_options\<close> gives on the example platform for a call without body
  and headers, with a timeout and a retry policy; two retries after 5 ms with the default
  predicate; default options with a timeout of 12 ms; a call whose caller aborts at 13 ms.
\<close>

definition demo_options :: "nat option \<Rightarrow> retry_required \<Rightarrow> options" where
  "demo_options tmo r =
     \<lparr>o_baseUrl = None, o_method = None, o_headers = [], o_body = Undefined, o_timeout = tmo,
      o_parseRejected = Some (fallback_parseRejected demo_platform),
      o_parseResponse = Some (fallback_parseResponse demo_platform),
      o_reject = Some fallback_reject,
      o_retry = r,
      o_serializeBody = Some (fallback_serializeBody demo_platform),
      o_serializeParams = Some (fallback_serializeParams demo_platform)\<rparr>"

definition two_retries :: retry_required where
  "two_retries =
     \<lparr>r_attempts = Some (Inl 2), r_delay = Some (Inl 5), r_when = Some fallback_retry_when\<rparr>"

definition timeout_defaults :: default_options where
  "timeout_defaults =
     no_default_options
       \<lparr>timeout := Some (Some 12),
        retry := Some \<lparr>attempts = Some (Some (Inl 2)), delay = Some (Some (Inl 5)),
                       retry_when = None\<rparr>\<rparr>"

definition cancelled_call :: fetcher_options where
  "cancelled_call = plain_call\<lparr>signal := Some (Signal (Some 13) (Str ''cancelled''))\<rparr>"

definition vars0 :: loop_vars where
  "vars0 = \<lparr>attempt = 0, v_response = None, v_error = Undefined\<rparr>"

section \<open>Objects in a store: what a call writes\<close>

text \<open>
  The definitions above treat option objects as values. Whether a call changes an object
  of its caller depends on which object each assignment of the source writes to, so the
  assignments, the object literals and the \<open>delete\<close>s of \<open>createResfetch\<close>, \<open>enhance\<close>,
  \<open>mergeHeaders\<close> and \<open>omit\<close> are modelled once more, over a store: a list of objects,
  addressed by their index, whose properties hold primitive values, functions or
  references to other objects. The store of a call holds the options of the caller, the
  default options captured by the client, the fallback options and every object that
  these refer to.

  What the callbacks, the schemas and the platform compute is not computed again here:
  the values that end up being written and the path that the control flow takes are
  inputs of the model (the records \<open>fetcher_path\<close>, \<open>enhance_path\<close> and \<open>turn\<close>), and the
  properties below hold for every such input. The callbacks themselves are taken not to
  write to the objects they are given.
\<close>

type_synonym addr = nat

datatype hval = Prim jsval | Func string | Ref addr

type_synonym obj = "(string \<times> hval) list"

type_synonym store = "obj list"

text \<open>An object literal makes a new object.\<close>

definition alloc :: "store \<Rightarrow> obj \<Rightarrow> addr \<times> store" where
  "alloc h ob = (length h, h @ [ob])"

text \<open>The properties that \<open>...x\<close> copies: none when \<open>x\<close> is \<open>undefined\<close>.\<close>

definition props :: "store \<Rightarrow> addr option \<Rightarrow> obj" where
  "props h a = (case a of None \<Rightarrow> [] | Some x \<Rightarrow> if x < length h then h ! x else [])"

definition spread_props :: "obj \<Rightarrow> obj \<Rightarrow> obj" where
  "spread_props a b = foldl (\<lambda>acc (k, v). AList.update k v acc) a b"

definition get_prop :: "obj \<Rightarrow> string \<Rightarrow> hval" where
  "get_prop ob k = (case map_of ob k of None \<Rightarrow> Prim Undefined | Some v \<Rightarrow> v)"

definition get_ref :: "obj \<Rightarrow> string \<Rightarrow> addr option" where
  "get_ref ob k = (case map_of ob k of Some (Ref a) \<Rightarrow> Some a | _ \<Rightarrow> None)"

text \<open>\<open>o.k = v\<close> and \<open>delete o.k\<close>\<close>

definition set_prop :: "store \<Rightarrow> addr \<Rightarrow> string \<Rightarrow> hval \<Rightarrow> store" where
  "set_prop h a k v = (if a < length h then h[a := AList.update k v (h ! a)] else h)"

definition delete_prop :: "store \<Rightarrow> addr \<Rightarrow> string \<Rightarrow> store" where
  "delete_prop h a k = (if a < length h then h[a := AList.delete k (h ! a)] else h)"

text \<open>
  One turn of the retry loop: the signal written to \<open>options.signal\<close>, whether
  \<open>new Request\<close> returned, and the headers of that request.
\<close>

record turn =
  turn_signal :: hval
  turn_request :: bool
  turn_headers :: hval

text \<open>
  \<open>enhance\<close>: the outcome of the body serializer (\<open>Inr\<close> also stands for a body that is not
  serialized), the entries that the \<open>Headers\<close> objects of \<open>mergeHeaders\<close> enumerate, and the
  turns of the loop.
\<close>

record enhance_path =
  serialized_body :: "jsval + hval"
  header_entries :: "(string \<times> string) list"
  turns :: "turn list"

text \<open>
  The client function: for \<open>body\<close>, \<open>query\<close> and \<open>params\<close>, whether the value was validated
  and with which outcome; the values written to \<open>schema\<close> and \<open>method\<close>.
\<close>

record fetcher_path =
  validated_body :: "(jsval + hval) option"
  validated_query :: "(jsval + hval) option"
  validated_params :: "(jsval + hval) option"
  response_schema :: hval
  method_value :: hval
  executor :: enhance_path

text \<open>\<open>omit(options, ['body'])\<close>, then \<open>{ ...that, headers: request.headers }\<close>\<close>

definition store_init :: "store \<Rightarrow> addr \<Rightarrow> hval \<Rightarrow> store" where
  "store_init h options hdrs =
     (case alloc h (props h (Some options)) of
        (copy, h1) \<Rightarrow>
          (let h2 = delete_prop h1 copy ''body''
           in snd (alloc h2 (spread_props (props h2 (Some copy)) [(''headers'', hdrs)]))))"

fun store_loop :: "store \<Rightarrow> addr \<Rightarrow> turn list \<Rightarrow> store" where
  "store_loop h options [] = h"
| "store_loop h options (t # ts) =
     (let h1 = set_prop h options ''signal'' (turn_signal t)
      in if \<not> turn_request t then h1
         else store_loop (store_init h1 options (turn_headers t)) options ts)"

text \<open>\<open>mergeHeaders\<close>: \<open>const res = {}\<close>, then one write or \<open>delete\<close> on \<open>res\<close> for every entry.\<close>

definition store_mergeHeaders :: "store \<Rightarrow> (string \<times> string) list \<Rightarrow> addr \<times> store" where
  "store_mergeHeaders h es =
     (case alloc h [] of
        (res, h1) \<Rightarrow>
          (res, foldl (\<lambda>h' (key, v).
                         if v = ''null'' \<or> v = ''undefined'' then delete_prop h' res key
                         else set_prop h' res key (Prim (Str v)))
                  h1 es))"

text \<open>
  \<open>enhance\<close> at the addresses \<open>fb\<close> of \<open>fallbackOptions\<close>, \<open>dflt\<close> of the default options and
  \<open>fo\<close> of the options of the call.
\<close>

definition store_enhance :: "store \<Rightarrow> addr \<Rightarrow> addr \<Rightarrow> addr \<Rightarrow> enhance_path \<Rightarrow> store" where
  "store_enhance h fb dflt fo p =
     (case alloc h (spread_props
                      (spread_props (props h (get_ref (props h (Some fb)) ''retry''))
                         (props h (get_ref (props h (Some dflt)) ''retry'')))
                      (props h (get_ref (props h (Some fo)) ''retry''))) of
        (rt, h1) \<Rightarrow>
          (case alloc h1 (spread_props
                            (spread_props (spread_props (props h1 (Some fb)) (props h1 (Some dflt)))
                               (props h1 (Some fo)))
                            [(''body'', Prim Undefined), (''retry'', Ref rt)]) of
             (options, h2) \<Rightarrow>
               (case serialized_body p of
                  Inl e \<Rightarrow> h2
                | Inr b \<Rightarrow>
                    (let h3 = set_prop h2 options ''body'' b
                     in case store_mergeHeaders h3 (header_entries p) of
                          (res, h4) \<Rightarrow>
                            store_loop (set_prop h4 options ''headers'' (Ref res)) options
                              (turns p)))))"

text \<open>\<open>if (schemaDef.k && currentOptions.k) currentOptions.k = await validate(...)\<close>\<close>

definition store_validated :: "store \<Rightarrow> addr \<Rightarrow> string \<Rightarrow> (jsval + hval) option \<Rightarrow> jsval + store" where
  "store_validated h cur k outcome =
     (case outcome of
        None \<Rightarrow> Inr h
      | Some (Inl e) \<Rightarrow> Inl e
      | Some (Inr v) \<Rightarrow> Inr (set_prop h cur k v))"

text \<open>
  The client function on the options at \<open>fetcherOptions\<close> (\<open>None\<close> for a call without
  options): the store when its promise settles.
\<close>

definition store_fetcher :: "store \<Rightarrow> addr \<Rightarrow> addr \<Rightarrow> addr option \<Rightarrow> fetcher_path \<Rightarrow> store" where
  "store_fetcher h fb defaultOpts fetcherOptions p =
     (case alloc h (props h fetcherOptions) of
        (currentOptions, h1) \<Rightarrow>
          (case store_validated h1 currentOptions ''body'' (validated_body p) of
             Inl e \<Rightarrow> h1
           | Inr h2 \<Rightarrow>
          (case store_validated h2 currentOptions ''query'' (validated_query p) of
             Inl e \<Rightarrow> h2
           | Inr h3 \<Rightarrow>
          (case store_validated h3 currentOptions ''params'' (validated_params p) of
             Inl e \<Rightarrow> h3
           | Inr h4 \<Rightarrow>
               (case alloc h4 (spread_props (props h4 (Some currentOptions))
                                [(''params'', get_prop (props h4 (Some currentOptions)) ''query''),
                                 (''schema'', response_schema p),
                                 (''method'', method_value p)]) of
                  (fetchOptions, h5) \<Rightarrow>
                    store_enhance h5 fb defaultOpts fetchOptions (executor p))))))"

text \<open>
  \<open>createResfetch(options)\<close>:
  \<open>const { schema, fetch: customFetch, ...defaultOpts } = options ?? {}\<close> makes the object of
  the default options, once.
\<close>

definition store_create :: "store \<Rightarrow> addr option \<Rightarrow> addr \<times> store" where
  "store_create h options =
     alloc h (filter (\<lambda>(k, v). k \<noteq> ''schema'' \<and> k \<noteq> ''fetch'') (props h options))"

text \<open>Every object of the first store is in the second one, unchanged.\<close>

definition extends :: "store \<Rightarrow> store \<Rightarrow> bool" where
  "extends h0 h = (length h0 \<le> length h \<and> (\<forall>a < length h0. h ! a = h0 ! a))"

subsection \<open>A store for the examples\<close>

text \<open>
  A store for the examples: \<open>fallbackOptions\<close> (0) and its \<open>retry\<close> (1), the options given
  to \<open>createResfetch\<close> (2) with their headers (3), the options of a call (4) with its body
  (5), headers (6) and retry options (7), and, made by \<open>createResfetch\<close>, the default
  options (8). The call validates its body, serializes it, merges three headers and takes
  two turns of the loop.
\<close>

definition store0 :: store where
  "store0 =
     [[(''reject'', Func ''reject''), (''retry'', Ref 1)],
      [(''when'', Func ''when''), (''attempts'', Prim (Num 0)), (''delay'', Prim (Num 0))],
      [(''baseUrl'', Prim (Str ''https://a.com'')), (''headers'', Ref 3), (''fetch'', Func ''fetch'')],
      [(''x-default'', Prim (Str ''1''))],
      [(''method'', Prim (Str ''POST'')), (''body'', Ref 5), (''headers'', Ref 6), (''retry'', Ref 7)],
      [(''a'', Prim (Num 1))],
      [(''x-call'', Prim (Str ''2''))],
      [(''attempts'', Prim (Num 2))]]"

definition demo_store :: store where
  "demo_store = snd (store_create store0 (Some 2))"

definition demo_path :: fetcher_path where
  "demo_path =
     \<lparr>validated_body = Some (Inr (Ref 5)), validated_query = None, validated_params = None,
      response_schema = Prim Undefined, method_value = Prim (Str ''POST''),
      executor =
        \<lparr>serialized_body = Inr (Prim (Str ''{\"a\":1}'')),
         header_entries = [(''content-type'', ''application/json''), (''x-default'', ''1''),
                           (''x-call'', ''2'')],
         turns = [\<lparr>turn_signal = Func ''signal 1'', turn_request = True,
                    turn_headers = Func ''headers 1''\<rparr>,
                  \<lparr>turn_signal = Func ''signal 2'', turn_request = True,
                    turn_headers = Func ''headers 2''\<rparr>]\<rparr>\<rparr>"

section \<open>Properties\<close>

subsection \<open>Validation errors carry the rejected input\<close>



subsection \<open>Path parameters\<close>

text \<open>
  C7. The token \<open>:id\<close> is not always replaced by \<open>String(value)\<close>: the value is handed to
  \<open>String.prototype.replace\<close> as a replacement pattern, so the value \<open>a$$b\<close> puts \<open>a$b\<close>
  into the path.
\<close>

theorem replacePathParams_dollar:
  "replacePathParams ''/user/:id'' (Obj [(''id'', Str ''a$$b'')]) = ''/user/a$b''"
  by code_simp

subsection \<open>What the client makes of a thrown value\<close>

lemma to_failure_simp:
  "to_failure e =
     err (if isValidationError e \<or> isResponseError e then e
          else ResponseError (if instanceof_Error e then error_message e else [])
                 None None Undefined e)"
  by (simp add: to_failure_def new_ResponseError_def)

subsection \<open>The shape of a result\<close>

text \<open>
  C2, as the claim states it: exactly one of \<open>data\<close> and \<open>error\<close> is defined in every result.
  A call whose parser returns \<open>undefined\<close> succeeds with the result \<open>ok(undefined)\<close>, in
  which neither is defined.
\<close>

theorem ok_undefined_counterexample:
  "fetcher 1 demo_platform
     ((client [Inr (resp 204 [])])\<lparr>parseResponse := Some (Some (\<lambda>res rq w. (Inr Undefined, 0)))\<rparr>)
     ''https://a.com/x'' no_options w0
   = Some (Inr \<lparr>r_ok = True, r_data = Undefined, r_error = Undefined\<rparr>,
           \<lparr>now = 10, trace = [Fetch, RetryWhen, Reject, ParseResponse]\<rparr>)"
  by code_simp

text \<open>
  C2, amended. \<open>ok(d)\<close> is \<open>{ ok: true, data: d }\<close> with no \<open>error\<close> and \<open>err(e)\<close> is
  \<open>{ ok: false, error: e }\<close> with no \<open>data\<close>; \<open>matchResfetch\<close> only reads its result. Every
  result that the client returns has \<open>error\<close> undefined when \<open>ok\<close> is true, and has \<open>data\<close>
  undefined and \<open>error\<close> defined, a \<open>ValidationError\<close> or a \<open>ResponseError\<close>, when \<open>ok\<close> is
  false. So exactly one of the two is defined, except in a success whose value is itself
  \<open>undefined\<close>.
\<close>

theorem result_shape:
  "r_ok (ok d) \<and> r_data (ok d) = d \<and> r_error (ok d) = Undefined
   \<and> \<not> r_ok (err e) \<and> r_data (err e) = Undefined \<and> r_error (err e) = e
   \<and> matchResfetch (ok d) h = h_ok h d
   \<and> matchResfetch (err e) h = (if isValidationError e then h_validationError h e
                                else h_responseError h e)
   \<and> (fetcher fuel pf co u fo w = Some (Inr r, w') \<longrightarrow>
        (r_ok r \<longrightarrow> r_error r = Undefined)
        \<and> (\<not> r_ok r \<longrightarrow> r_data r = Undefined \<and> r_error r \<noteq> Undefined
              \<and> (isValidationError (r_error r) \<or> isResponseError (r_error r))))"
  by (auto simp add: ok_def err_def matchResfetch_def fetcher_def to_failure_simp
        split: option.splits sum.splits prod.splits)

theorem result_shape_witness:
  "fetcher 1 demo_platform (client [Inr (resp 500 [])]) ''/x'' no_options w0
     = Some (Inr failure_500, \<lparr>now = 10, trace = [Fetch, RetryWhen, Reject, ParseRejected]\<rparr>)
   \<and> \<not> r_ok failure_500 \<and> r_data failure_500 = Undefined \<and> r_error failure_500 \<noteq> Undefined
   \<and> isResponseError (r_error failure_500)"
proof -
  have h: "fetcher 1 demo_platform (client [Inr (resp 500 [])]) ''/x'' no_options w0
     = Some (Inr failure_500, \<lparr>now = 10, trace = [Fetch, RetryWhen, Reject, ParseRejected]\<rparr>)"
    by code_simp
  have v: "\<not> isValidationError (r_error failure_500)" "\<not> r_ok failure_500"
    by (simp_all add: failure_500_def err_def)
  show ?thesis
    using h v result_shape [of Undefined Undefined undefined 1 demo_platform
            "client [Inr (resp 500 [])]" "''/x''" no_options w0 failure_500
            "\<lparr>now = 10, trace = [Fetch, RetryWhen, Reject, ParseRejected]\<rparr>"]
    by auto
qed

subsection \<open>The schema of a route\<close>

lemma fetcher_try_request_schema:
  "fetcher_try fuel pf co sd u (fo\<lparr>request_schema := Inr s\<rparr>) w
     = fetcher_try fuel pf co sd u (fo\<lparr>request_schema := Inr s'\<rparr>) w"
proof -
  have "\<And>x b q ps. fetch_options sd (fo\<lparr>request_schema := x, body := b, query := q, params := ps\<rparr>)
          = fetch_options sd (fo\<lparr>body := b, query := q, params := ps\<rparr>)"
    by (simp add: fetch_options_def call_options.truncate_def)
  then show ?thesis
    by (simp add: fetcher_try_def Let_def cong: sum.case_cong)
qed

lemma read_route_own: "routes u = Some entry \<Longrightarrow> read_route routes u = Some entry"
  by (simp add: read_route_def)

text \<open>
  When the URL of a call is a route of the table, the schema definition of the call is
  the entry of the table. A schema in the options of the call changes nothing then. The
  entry is what validates: a body that the \<open>body\<close> schema of the entry refuses ends the call
  with the \<open>ValidationError\<close> of that body, before anything is sent; the options that the
  executor is given have the \<open>response\<close> schema of the entry as their schema, and the
  method of the call or, when the call has none, the method of the entry.
\<close>

theorem route_entry_is_used:
  assumes "c_schema co = Some routes" and "routes u = Some entry"
  shows "select_schema co u fo = Inr entry
     \<and> fetcher fuel pf co u (fo\<lparr>request_schema := Inr s\<rparr>) w
         = fetcher fuel pf co u (fo\<lparr>request_schema := Inr s'\<rparr>) w
     \<and> (request_schema fo = Inr s \<and> s_body entry = Some sb \<and> truthy (body fo)
          \<and> sb (body fo) = Inr (VFailure issues) \<longrightarrow>
         fetcher fuel pf co u fo w
           = Some (Inr (err (new_ValidationError pf issues (body fo))), w))
     \<and> schema (fetch_options entry cur) = s_response entry
     \<and> method_key (fetch_options entry cur)
         = Some (case method_key cur of
                   Some (Some m) \<Rightarrow> if m \<noteq> [] then Some m else s_method entry
                 | _ \<Rightarrow> s_method entry)"
proof (intro conjI impI)
  show sel: "select_schema co u fo = Inr entry" for fo
    using assms by (simp add: select_schema_def read_route_own)
  show "fetcher fuel pf co u (fo\<lparr>request_schema := Inr s\<rparr>) w
         = fetcher fuel pf co u (fo\<lparr>request_schema := Inr s'\<rparr>) w"
    using fetcher_try_request_schema [where fuel = fuel and pf = pf and co = co and sd = entry
            and u = u and fo = fo and s = s and w = w and s' = s']
    by (simp add: fetcher_def sel)
  show "fetcher fuel pf co u fo w = Some (Inr (err (new_ValidationError pf issues (body fo))), w)"
    if "request_schema fo = Inr s \<and> s_body entry = Some sb \<and> truthy (body fo)
          \<and> sb (body fo) = Inr (VFailure issues)"
    using that
    by (simp add: fetcher_def sel fetcher_try_def validate_if_def validate_def to_failure_simp
          new_ValidationError_def)
  show "schema (fetch_options entry cur) = s_response entry"
    by (simp add: fetch_options_def call_options.extend_def fetcher_options.defs)
  show "method_key (fetch_options entry cur)
         = Some (case method_key cur of
                   Some (Some m) \<Rightarrow> if m \<noteq> [] then Some m else s_method entry
                 | _ \<Rightarrow> s_method entry)"
    by (simp add: fetch_options_def call_options.extend_def call_options.truncate_def)
qed

theorem route_entry_is_used_witness:
  "c_schema routed_client = Some routes1
   \<and> routes1 ''/test'' = Some (empty_schema\<lparr>s_response := Some string_schema\<rparr>)
   \<and> fetcher 1 demo_platform routed_client ''/test''
         (no_options\<lparr>request_schema := Inr (Some other_schema)\<rparr>) w0
       = fetcher 1 demo_platform routed_client ''/test'' no_options w0
   \<and> fetcher 1 demo_platform routed_client ''/test'' no_options w0
       = Some (Inr (ok (Str ''hi'')),
               \<lparr>now = 10, trace = [Fetch, RetryWhen, Reject, ParseResponse]\<rparr>)"
proof -
  have n: "no_options = no_options\<lparr>request_schema := Inr None\<rparr>"
    by (simp add: no_options_def call_options.defs default_options.defs resfetch_options.defs)
  have e: "fetcher 1 demo_platform routed_client ''/test'' no_options w0
       = Some (Inr (ok (Str ''hi'')),
               \<lparr>now = 10, trace = [Fetch, RetryWhen, Reject, ParseResponse]\<rparr>)"
    by code_simp
  have "fetcher 1 demo_platform routed_client ''/test''
         (no_options\<lparr>request_schema := Inr (Some other_schema)\<rparr>) w0
       = fetcher 1 demo_platform routed_client ''/test'' (no_options\<lparr>request_schema := Inr None\<rparr>) w0"
    using route_entry_is_used [where co = routed_client and routes = routes1 and u = "''/test''"
          and entry = "empty_schema\<lparr>s_response := Some string_schema\<rparr>" and fuel = 1
          and pf = demo_platform and fo = no_options and s = "Some other_schema" and w = w0
          and s' = None]
    by (simp add: routed_client_def routes1_def)
  with n e show ?thesis
    by (simp add: routed_client_def routes1_def)
qed

text \<open>
  C6. For a URL that is not a route of the table, the schema of the options of the call
  should be used. The client reads the table with \<open>schema.schema[url]\<close>, which also finds
  what the table inherits from \<open>Object.prototype\<close>: for the URL \<open>toString\<close> the read gives a
  function, the function is taken as the schema definition, and the schema of the call is
  ignored. Here the table has the single route \<open>/test\<close>, and the call gives a schema whose
  \<open>response\<close> refuses every value: for the URL \<open>toString\<close> the call succeeds with the text of
  the response, which nothing has validated, whereas for the URL \<open>/other\<close> the schema of the
  call is used, and the call fails with its \<open>ValidationError\<close>.
\<close>

theorem inherited_member_hides_call_schema:
  "routes1 ''toString'' = None
   \<and> fetcher 1 demo_platform routed_client ''toString''
         (no_options\<lparr>request_schema := Inr (Some other_schema)\<rparr>) w0
       = Some (Inr (ok (Str ''hi'')),
               \<lparr>now = 10, trace = [Fetch, RetryWhen, Reject, ParseResponse]\<rparr>)
   \<and> fetcher 1 demo_platform routed_client ''/other''
         (no_options\<lparr>request_schema := Inr (Some other_schema)\<rparr>) w0
       = Some (Inr (err (ValidationError ''{}'' [Str ''never''] (Str ''hi''))),
               \<lparr>now = 10, trace = [Fetch, RetryWhen, Reject, ParseResponse]\<rparr>)"
proof (intro conjI)
  show "routes1 ''toString'' = None"
    by (simp add: routes1_def)
  show "fetcher 1 demo_platform routed_client ''toString''
         (no_options\<lparr>request_schema := Inr (Some other_schema)\<rparr>) w0
       = Some (Inr (ok (Str ''hi'')),
               \<lparr>now = 10, trace = [Fetch, RetryWhen, Reject, ParseResponse]\<rparr>)"
    by code_simp
  show "fetcher 1 demo_platform routed_client ''/other''
         (no_options\<lparr>request_schema := Inr (Some other_schema)\<rparr>) w0
       = Some (Inr (err (ValidationError ''{}'' [Str ''never''] (Str ''hi''))),
               \<lparr>now = 10, trace = [Fetch, RetryWhen, Reject, ParseResponse]\<rparr>)"
    by code_simp
qed

subsection \<open>The content type\<close>
















subsection \<open>Runs of the callbacks and of one attempt\<close>

lemma advance_advance [simp]: "advance (advance w a xs) b ys = advance w (a + b) (xs @ ys)"
  by (simp add: advance_def)

lemma advance_simps [simp]:
  "now (advance w dt evs) = now w + dt" "trace (advance w dt evs) = trace w @ evs"
  by (simp_all add: advance_def)

lemma advance_0 [simp]: "advance w 0 [] = w"
  by (simp add: advance_def)

lemma call_eq: "call c f w = (fst (f w), advance w (snd (f w)) [c])"
  by (simp add: call_def advance_def split: prod.splits)

lemma call_key_Some [simp]: "call_key c e (Some g) = call c g"
  by (rule ext) (simp add: call_key_def)

lemma call_opt_quiet1:
  assumes "never_throws1 h"
  shows "\<exists>dt. call_opt c (map_option (\<lambda>g. g a) h) w = (Inr (), advance w dt (hook_events c h))
           \<and> (\<forall>b. (\<forall>g x w'. h = Some g \<longrightarrow> snd (g x w') \<le> b) \<longrightarrow> dt \<le> b)"
proof (cases h)
  case None
  then show ?thesis
    by (auto simp add: call_opt_def hook_events_def intro: exI [of _ 0])
next
  case (Some g)
  from assms Some have "fst (g a w) = Inr ()" by (simp add: never_throws1_def)
  with Some have "call_opt c (map_option (\<lambda>g. g a) h) w
      = (Inr (), advance w (snd (g a w)) (hook_events c h))"
    by (simp add: call_opt_def hook_events_def call_eq)
  moreover have "\<forall>b. (\<forall>g x w'. h = Some g \<longrightarrow> snd (g x w') \<le> b) \<longrightarrow> snd (g a w) \<le> b"
    using Some by simp
  ultimately show ?thesis by blast
qed

lemma call_opt_quiet2:
  assumes "never_throws2 h"
  shows "\<exists>dt. call_opt c (map_option (\<lambda>g. g a b) h) w = (Inr (), advance w dt (hook_events c h))"
proof (cases h)
  case None
  then show ?thesis
    by (auto simp add: call_opt_def hook_events_def intro: exI [of _ 0])
next
  case (Some g)
  obtain r dt where g: "g a b w = (r, dt)" by (cases "g a b w")
  from assms Some have "fst (g a b w) = Inr ()" by (simp add: never_throws2_def)
  with g have "r = Inr ()" by simp
  with g Some show ?thesis
    by (auto simp add: call_opt_def hook_events_def call_eq)
qed

lemma bnd_Inr: "m w = (Inr x, w1) \<Longrightarrow> bnd m k w = k x w1"
  by (simp add: bnd_def)

lemma bnd_Inl: "m w = (Inl e, w1) \<Longrightarrow> bnd m k w = (Inl e, w1)"
  by (simp add: bnd_def)

lemma within_budgetD:
  assumes "within_budget B fetchFn d f opts"
  shows "onRequest d = Some g1 \<Longrightarrow> snd (g1 rq w) \<le> B (OnRequest Default)"
    and "onRequest f = Some g2 \<Longrightarrow> snd (g2 rq w) \<le> B (OnRequest PerCall)"
    and "snd (fetchFn rq w) \<le> B Fetch"
    and "r_when (o_retry opts) = Some g3 \<Longrightarrow> snd (g3 ctx w) \<le> B RetryWhen"
    and "r_attempts (o_retry opts) = Some (Inr g4) \<Longrightarrow> snd (g4 rq w) \<le> B RetryAttempts"
    and "r_delay (o_retry opts) = Some (Inr g5) \<Longrightarrow> snd (g5 rctx w) \<le> B RetryDelay"
    and "r_delay (o_retry opts) = Some (Inr g5) \<Longrightarrow> fst (g5 rctx w) = Inr ms \<Longrightarrow> ms \<le> B Delay"
    and "r_delay (o_retry opts) = Some (Inl ms) \<Longrightarrow> ms \<le> B Delay"
  using assms by (simp_all add: within_budget_def)

lemma send_attempt_quiet:
  assumes "never_throws1 (onRequest d)" "never_throws1 (onRequest f)"
  shows "\<exists>dt1 out dt.
           fetchFn rq (advance w dt1 (request_events d f)) = (out, dt)
           \<and> send_attempt fetchFn d f rq vs w =
               ((case out of Inr r \<Rightarrow> vs\<lparr>v_response := Some r, v_error := Undefined\<rparr>
                           | Inl e \<Rightarrow> vs\<lparr>v_error := e\<rparr>),
                advance w (dt1 + dt) (request_events d f @ [Fetch]))
           \<and> (within_budget B fetchFn d f opts \<longrightarrow>
                 dt1 \<le> B (OnRequest Default) + B (OnRequest PerCall) \<and> dt \<le> B Fetch)"
proof -
  obtain da where a: "call_opt (OnRequest Default) (map_option (\<lambda>h. h rq) (onRequest d)) w
      = (Inr (), advance w da (hook_events (OnRequest Default) (onRequest d)))"
    and ba: "\<forall>b. (\<forall>g x w'. onRequest d = Some g \<longrightarrow> snd (g x w') \<le> b) \<longrightarrow> da \<le> b"
    using call_opt_quiet1 [OF assms(1)] by blast
  let ?wa = "advance w da (hook_events (OnRequest Default) (onRequest d))"
  obtain db where b: "call_opt (OnRequest PerCall) (map_option (\<lambda>h. h rq) (onRequest f)) ?wa
      = (Inr (), advance ?wa db (hook_events (OnRequest PerCall) (onRequest f)))"
    and bb: "\<forall>b. (\<forall>g x w'. onRequest f = Some g \<longrightarrow> snd (g x w') \<le> b) \<longrightarrow> db \<le> b"
    using call_opt_quiet1 [OF assms(2)] by blast
  let ?wb = "advance w (da + db) (request_events d f)"
  have wb: "advance ?wa db (hook_events (OnRequest PerCall) (onRequest f)) = ?wb"
    by (simp add: request_events_def)
  obtain out dt where t: "fetchFn rq ?wb = (out, dt)" by (cases "fetchFn rq ?wb")
  have s: "send_attempt fetchFn d f rq vs w =
               ((case out of Inr r \<Rightarrow> vs\<lparr>v_response := Some r, v_error := Undefined\<rparr>
                           | Inl e \<Rightarrow> vs\<lparr>v_error := e\<rparr>),
                advance w (da + db + dt) (request_events d f @ [Fetch]))"
    unfolding send_attempt_def
    by (simp add: bnd_def a b call_eq t [unfolded request_events_def] request_events_def split: sum.splits)
  have "da + db \<le> B (OnRequest Default) + B (OnRequest PerCall) \<and> dt \<le> B Fetch"
    if wb: "within_budget B fetchFn d f opts"
  proof -
    have "\<forall>g x w'. onRequest d = Some g \<longrightarrow> snd (g x w') \<le> B (OnRequest Default)"
      using within_budgetD(1) [OF wb] by blast
    with ba have "da \<le> B (OnRequest Default)" by blast
    moreover have "\<forall>g x w'. onRequest f = Some g \<longrightarrow> snd (g x w') \<le> B (OnRequest PerCall)"
      using within_budgetD(2) [OF wb] by blast
    with bb have "db \<le> B (OnRequest PerCall)" by blast
    moreover have "snd (fetchFn rq ?wb) \<le> B Fetch"
      by (rule within_budgetD(3) [OF wb])
    ultimately show ?thesis using t by simp
  qed
  with t s show ?thesis by blast
qed

lemma fires_after_mono: "fires_after t sg \<Longrightarrow> t' \<le> t \<Longrightarrow> fires_after t' sg"
  by (auto simp add: fires_after_def split: option.splits)

lemma withTimeout_fires_after:
  assumes "never_fires sg" "timeout_allows B tmo"
  shows "fires_after (t + turn_time B) (withTimeout pf t sg tmo)"
  using assms
  by (auto simp add: never_fires_def timeout_allows_def fires_after_def withTimeout_def
        AbortSignal_any_def List.map_filter_def earlier_def AbortSignal_timeout_def
        split: option.splits)

lemma abortableDelay_fires_after:
  assumes "fires_after (now w + ms) sg"
  shows "abortableDelay ms sg w = (Inr (), advance w ms [Delay])"
  using assms
  by (auto simp add: abortableDelay_def call_eq fires_after_def split: option.splits)

lemma eval_attempts_is:
  assumes "attempts_is N a"
  shows "\<exists>dt. eval_attempts a rq w = (Inr (Some N), advance w dt (attempts_events a))
           \<and> (\<forall>b. (\<forall>g x w'. a = Some (Inr g) \<longrightarrow> snd (g x w') \<le> b) \<longrightarrow> dt \<le> b)"
proof (cases a)
  case None
  with assms show ?thesis by (simp add: attempts_is_def)
next
  case (Some x)
  show ?thesis
  proof (cases x)
    case (Inl n)
    with Some assms show ?thesis
      by (auto simp add: attempts_is_def eval_attempts_def ret_def attempts_events_def
            intro: exI [of _ 0])
  next
    case (Inr g)
    with Some assms obtain dt where g: "g rq w = (Inr N, dt)"
      by (auto simp add: attempts_is_def)
    with Some Inr have "eval_attempts a rq w = (Inr (Some N), advance w dt (attempts_events a))"
      by (simp add: eval_attempts_def attempts_events_def call_eq bnd_def ret_def)
    moreover have "\<forall>b. (\<forall>g x w'. a = Some (Inr g) \<longrightarrow> snd (g x w') \<le> b) \<longrightarrow> dt \<le> b"
      using Some Inr g by (metis snd_conv)
    ultimately show ?thesis by blast
  qed
qed

lemma eval_delay_total:
  assumes "delay_total dl"
  shows "\<exists>ms dt. eval_delay dl ctx w = (Inr ms, advance w dt (delay_events dl))
           \<and> (\<forall>b. (\<forall>g x w'. dl = Some (Inr g) \<longrightarrow> snd (g x w') \<le> b) \<longrightarrow> dt \<le> b)
           \<and> (\<forall>b. (\<forall>g x w' m. dl = Some (Inr g) \<and> fst (g x w') = Inr m \<longrightarrow> m \<le> b)
                    \<and> (\<forall>m. dl = Some (Inl m) \<longrightarrow> m \<le> b) \<longrightarrow> ms \<le> b)"
proof (cases dl)
  case None
  then show ?thesis
    by (auto simp add: eval_delay_def ret_def delay_events_def intro: exI [of _ 0])
next
  case (Some x)
  show ?thesis
  proof (cases x)
    case (Inl n)
    with Some have "eval_delay dl ctx w = (Inr n, advance w 0 (delay_events dl))"
      by (simp add: eval_delay_def ret_def delay_events_def)
    with Some Inl show ?thesis
      by (intro exI [of _ n] exI [of _ 0]) simp
  next
    case (Inr g)
    with Some assms obtain ms dt where g: "g ctx w = (Inr ms, dt)"
      by (auto simp add: delay_total_def) blast
    with Some Inr have "eval_delay dl ctx w = (Inr ms, advance w dt (delay_events dl))"
      by (simp add: eval_delay_def delay_events_def call_eq)
    moreover have "\<forall>b. (\<forall>g x w'. dl = Some (Inr g) \<longrightarrow> snd (g x w') \<le> b) \<longrightarrow> dt \<le> b"
      using Some Inr g by (metis snd_conv)
    moreover have "\<forall>b. (\<forall>g x w' m. dl = Some (Inr g) \<and> fst (g x w') = Inr m \<longrightarrow> m \<le> b)
                    \<and> (\<forall>m. dl = Some (Inl m) \<longrightarrow> m \<le> b) \<longrightarrow> ms \<le> b"
      using Some Inr g by (metis fst_conv)
    ultimately show ?thesis by blast
  qed
qed

lemma retry_decision_continue:
  assumes wf: "r_when (o_retry opts) = Some pred"
    and w: "pred \<lparr>ctx_request = rq, ctx_response = v_response vs, ctx_error = v_error vs\<rparr> w
              = (Inr True, dtw)"
    and a: "attempts_is N (r_attempts (o_retry opts))" "attempt vs < N"
    and dl: "delay_total (r_delay (o_retry opts))"
    and bud: "within_budget B fetchFn d f opts"
    and sg: "fires_after (now w + (B RetryWhen + B RetryAttempts + B RetryDelay + B Delay)) sg"
    and h: "never_throws1 (onRetry d)" "never_throws1 (onRetry f)"
  shows "\<exists>dt. retry_decision d f opts sg rq vs w =
           (Continue (vs\<lparr>attempt := attempt vs + 1\<rparr>), advance w dt (retry_events opts d f))"
proof -
  let ?vs = "vs\<lparr>attempt := attempt vs + 1\<rparr>"
  let ?ctx = "\<lparr>ctx_request = rq, ctx_response = v_response vs, ctx_error = v_error vs,
               ctx_attempt = attempt ?vs\<rparr>"
  let ?w1 = "advance w dtw [RetryWhen]"
  have b1: "dtw \<le> B RetryWhen"
  proof -
    have "snd (pred \<lparr>ctx_request = rq, ctx_response = v_response vs,
                                 ctx_error = v_error vs\<rparr> w) \<le> B RetryWhen"
      by (rule within_budgetD(4) [OF bud wf])
    with w show ?thesis by simp
  qed
  obtain d2 where e2: "eval_attempts (r_attempts (o_retry opts)) rq ?w1
      = (Inr (Some N), advance ?w1 d2 (attempts_events (r_attempts (o_retry opts))))"
    and b2: "d2 \<le> B RetryAttempts"
  proof -
    from eval_attempts_is [OF a(1), of rq ?w1]
    obtain d2 where e: "eval_attempts (r_attempts (o_retry opts)) rq ?w1
        = (Inr (Some N), advance ?w1 d2 (attempts_events (r_attempts (o_retry opts))))"
      and x: "\<forall>b. (\<forall>g x w'. r_attempts (o_retry opts) = Some (Inr g) \<longrightarrow> snd (g x w') \<le> b) \<longrightarrow> d2 \<le> b"
      by blast
    have "\<forall>g x w'. r_attempts (o_retry opts) = Some (Inr g) \<longrightarrow> snd (g x w') \<le> B RetryAttempts"
      using within_budgetD(5) [OF bud] by blast
    with x have "d2 \<le> B RetryAttempts" by blast
    with e that show ?thesis by blast
  qed
  let ?w2 = "advance ?w1 d2 (attempts_events (r_attempts (o_retry opts)))"
  obtain ms d3 where e3: "eval_delay (r_delay (o_retry opts)) ?ctx ?w2
      = (Inr ms, advance ?w2 d3 (delay_events (r_delay (o_retry opts))))"
    and b3: "d3 \<le> B RetryDelay" and b4: "ms \<le> B Delay"
  proof -
    from eval_delay_total [OF dl, of ?ctx ?w2]
    obtain ms d3 where e: "eval_delay (r_delay (o_retry opts)) ?ctx ?w2
        = (Inr ms, advance ?w2 d3 (delay_events (r_delay (o_retry opts))))"
      and x: "\<forall>b. (\<forall>g x w'. r_delay (o_retry opts) = Some (Inr g) \<longrightarrow> snd (g x w') \<le> b) \<longrightarrow> d3 \<le> b"
      and y: "\<forall>b. (\<forall>g x w' m. r_delay (o_retry opts) = Some (Inr g) \<and> fst (g x w') = Inr m \<longrightarrow> m \<le> b)
                    \<and> (\<forall>m. r_delay (o_retry opts) = Some (Inl m) \<longrightarrow> m \<le> b) \<longrightarrow> ms \<le> b"
      by blast
    have "\<forall>g x w'. r_delay (o_retry opts) = Some (Inr g) \<longrightarrow> snd (g x w') \<le> B RetryDelay"
      using within_budgetD(6) [OF bud] by blast
    with x have "d3 \<le> B RetryDelay" by blast
    moreover have
      "(\<forall>g x w' m. r_delay (o_retry opts) = Some (Inr g) \<and> fst (g x w') = Inr m \<longrightarrow> m \<le> B Delay)
       \<and> (\<forall>m. r_delay (o_retry opts) = Some (Inl m) \<longrightarrow> m \<le> B Delay)"
      using within_budgetD(7,8) [OF bud] by blast
    with y have "ms \<le> B Delay" by blast
    ultimately show ?thesis using e that by blast
  qed
  let ?w3 = "advance ?w2 d3 (delay_events (r_delay (o_retry opts)))"
  have "now ?w3 + ms \<le> now w + (B RetryWhen + B RetryAttempts + B RetryDelay + B Delay)"
    using b1 b2 b3 b4 by simp
  with sg have "fires_after (now ?w3 + ms) sg"
    by (rule fires_after_mono)
  then have e4: "abortableDelay ms sg ?w3 = (Inr (), advance ?w3 ms [Delay])"
    by (rule abortableDelay_fires_after)
  let ?w4 = "advance ?w3 ms [Delay]"
  obtain d5 where e5: "call_opt (OnRetry Default) (map_option (\<lambda>h. h ?ctx) (onRetry d)) ?w4
      = (Inr (), advance ?w4 d5 (hook_events (OnRetry Default) (onRetry d)))"
    using call_opt_quiet1 [OF h(1)] by blast
  let ?w5 = "advance ?w4 d5 (hook_events (OnRetry Default) (onRetry d))"
  obtain d6 where e6: "call_opt (OnRetry PerCall) (map_option (\<lambda>h. h ?ctx) (onRetry f)) ?w5
      = (Inr (), advance ?w5 d6 (hook_events (OnRetry PerCall) (onRetry f)))"
    using call_opt_quiet1 [OF h(2)] by blast
  have "retry_decision d f opts sg rq vs w =
          (Continue ?vs, advance w (dtw + d2 + d3 + ms + d5 + d6) (retry_events opts d f))"
    unfolding retry_decision_def
    using a(2) e2 e3 e4 e5 e6
    by (simp add: wf call_eq w bnd_def Let_def ret_def retry_events_def exceeds_def)
  then show ?thesis by blast
qed

lemma quiet_events_count:
  "quiet_events evs \<Longrightarrow> count_list evs Fetch = 0 \<and> count_list evs (OnRetry Default) = 0
     \<and> count_list evs (OnRetry PerCall) = 0"
  by (simp add: quiet_events_def)

lemma quiet_events_simps [simp]:
  "quiet_events []"
  "quiet_events (xs @ ys) = (quiet_events xs \<and> quiet_events ys)"
  "quiet_events (x # xs) = (x \<noteq> Fetch \<and> x \<noteq> OnRetry Default \<and> x \<noteq> OnRetry PerCall \<and> quiet_events xs)"
  "quiet_events (attempts_events a)"
  "quiet_events (delay_events dl)"
  by (auto simp add: quiet_events_def attempts_events_def delay_events_def
        split: sum.splits option.splits)

lemma quiet_hook_events [simp]:
  "c \<noteq> Fetch \<Longrightarrow> c \<noteq> OnRetry Default \<Longrightarrow> c \<noteq> OnRetry PerCall \<Longrightarrow> quiet_events (hook_events c h)"
  by (auto simp add: quiet_events_def hook_events_def split: option.splits)

lemma retry_decision_last:
  assumes wf: "r_when (o_retry opts) = Some pred"
    and w: "pred \<lparr>ctx_request = rq, ctx_response = v_response vs, ctx_error = v_error vs\<rparr> w
              = (Inr b, dtw)"
    and a: "attempts_is N (r_attempts (o_retry opts))" "N \<le> attempt vs"
  shows "\<exists>vs' dt evs. retry_decision d f opts sg rq vs w = (Break vs', advance w dt evs)
           \<and> v_response vs' = v_response vs \<and> v_error vs' = v_error vs \<and> quiet_events evs"
proof -
  let ?w1 = "advance w dtw [RetryWhen]"
  obtain d2 where e2: "eval_attempts (r_attempts (o_retry opts)) rq ?w1
      = (Inr (Some N), advance ?w1 d2 (attempts_events (r_attempts (o_retry opts))))"
    using eval_attempts_is [OF a(1)] by blast
  show ?thesis
  proof (cases b)
    case False
    then have "retry_decision d f opts sg rq vs w = (Break vs, advance w dtw [RetryWhen])"
      unfolding retry_decision_def by (simp add: wf call_eq w)
    then show ?thesis by (auto intro!: exI [of _ vs] exI [of _ dtw] exI [of _ "[RetryWhen]"])
  next
    case True
    let ?vs = "vs\<lparr>attempt := attempt vs + 1\<rparr>"
    from True a(2) have "retry_decision d f opts sg rq vs w =
        (Break ?vs, advance w (dtw + d2) ([RetryWhen] @ attempts_events (r_attempts (o_retry opts))))"
      unfolding retry_decision_def
      by (simp add: wf call_eq w e2 bnd_def Let_def ret_def exceeds_def)
    then show ?thesis
      by (auto intro!: exI [of _ ?vs] exI [of _ "dtw + d2"]
            exI [of _ "[RetryWhen] @ attempts_events (r_attempts (o_retry opts))"])
  qed
qed

lemma finish_success:
  assumes e: "v_error vs = Undefined" and r: "v_response vs = Some res"
    and rj: "o_reject opts = Some rj"
    and rej: "\<forall>w. \<exists>dt. rj (Some res) w = (Inr False, dt)"
    and h1: "never_throws2 (onResponse d)" "never_throws2 (onResponse f)"
    and pr: "o_parseResponse opts = Some pr"
    and p: "\<forall>rq w. \<exists>dt. pr (Some res) rq w = (Inr v, dt)"
    and s: "(case schema f of None \<Rightarrow> Inr v | Some sch \<Rightarrow> validate pf sch v) = Inr dv"
    and h2: "never_throws2 (onSuccess d)" "never_throws2 (onSuccess f)"
  shows "\<exists>dt evs. finish pf d f opts vs rq w = (Inr dv, advance w dt evs) \<and> quiet_events evs"
proof -
  obtain d1 where e1: "rj (Some res) w = (Inr False, d1)"
    using rej by blast
  let ?w1 = "advance w d1 [Reject]"
  obtain d2 where e2: "call_opt (OnResponse Default)
        (map_option (\<lambda>h. h (Some res) rq) (onResponse d)) ?w1
      = (Inr (), advance ?w1 d2 (hook_events (OnResponse Default) (onResponse d)))"
    using call_opt_quiet2 [OF h1(1)] by blast
  let ?w2 = "advance ?w1 d2 (hook_events (OnResponse Default) (onResponse d))"
  obtain d3 where e3: "call_opt (OnResponse PerCall)
        (map_option (\<lambda>h. h (Some res) rq) (onResponse f)) ?w2
      = (Inr (), advance ?w2 d3 (hook_events (OnResponse PerCall) (onResponse f)))"
    using call_opt_quiet2 [OF h1(2)] by blast
  let ?w3 = "advance ?w2 d3 (hook_events (OnResponse PerCall) (onResponse f))"
  obtain d4 where e4: "pr (Some res) rq ?w3 = (Inr v, d4)"
    using p by blast
  let ?w4 = "advance ?w3 d4 [ParseResponse]"
  have e5: "(case schema f of None \<Rightarrow> ret v | Some sch \<Rightarrow> lift (validate pf sch v)) ?w4 = (Inr dv, ?w4)"
    using s by (simp add: ret_def lift_def split: option.splits)
  obtain d6 where e6: "call_opt (OnSuccess Default)
        (map_option (\<lambda>h. h dv rq) (onSuccess d)) ?w4
      = (Inr (), advance ?w4 d6 (hook_events (OnSuccess Default) (onSuccess d)))"
    using call_opt_quiet2 [OF h2(1)] by blast
  let ?w6 = "advance ?w4 d6 (hook_events (OnSuccess Default) (onSuccess d))"
  obtain d7 where e7: "call_opt (OnSuccess PerCall)
        (map_option (\<lambda>h. h dv rq) (onSuccess f)) ?w6
      = (Inr (), advance ?w6 d7 (hook_events (OnSuccess PerCall) (onSuccess f)))"
    using call_opt_quiet2 [OF h2(2)] by blast
  let ?evs = "[Reject] @ hook_events (OnResponse Default) (onResponse d)
              @ hook_events (OnResponse PerCall) (onResponse f) @ [ParseResponse]
              @ hook_events (OnSuccess Default) (onSuccess d)
              @ hook_events (OnSuccess PerCall) (onSuccess f)"
  have "finish pf d f opts vs rq w = (Inr dv, advance w (d1 + d2 + d3 + d4 + d6 + d7) ?evs)"
    unfolding finish_def
    using e1 e2 e3 e4 e5 e6 e7
    by (simp add: e r rj pr call_eq bnd_def ret_def)
  moreover have "quiet_events ?evs" by simp
  ultimately show ?thesis by blast
qed

subsection \<open>The turns of the retry loop\<close>

lemma count_hook_events [simp]:
  "count_list (hook_events c h) x = (if h \<noteq> None \<and> c = x then 1 else 0)"
  by (simp add: hook_events_def split: option.splits)

lemma count_request_events [simp]:
  "count_list (request_events d f) Fetch = 0"
  "count_list (request_events d f) (OnRetry s) = 0"
  by (simp_all add: request_events_def)

lemma count_retry_events [simp]:
  "count_list (retry_events opts d f) Fetch = 0"
  "count_list (retry_events opts d f) (OnRetry Default) = (if onRetry d = None then 0 else 1)"
  "count_list (retry_events opts d f) (OnRetry PerCall) = (if onRetry f = None then 0 else 1)"
  using quiet_events_count [of "attempts_events (r_attempts (o_retry opts))"]
        quiet_events_count [of "delay_events (r_delay (o_retry opts))"]
  by (simp_all add: retry_events_def)

lemma retry_loop_continue:
  assumes "resolveUrl pf (o_baseUrl opts) input (params d) (params f) (o_serializeParams opts)
              = Inr requestUrl"
    and "new_Request pf requestUrl
                \<lparr>init_method = o_method opts, init_headers = o_headers opts,
                 init_body = o_body opts,
                 init_signal = withTimeout pf (now w) (signal f) (o_timeout opts)\<rparr> = Inr rq"
    and "send_attempt fetchFn d f rq vs w = (vs1, w1)"
    and "retry_decision d f opts (withTimeout pf (now w) (signal f) (o_timeout opts)) rq vs1 w1
           = (Continue vs2, w2)"
  shows "retry_loop (Suc n) pf fetchFn d f opts input vs w
           = retry_loop n pf fetchFn d f opts input vs2 w2"
  using assms by (simp add: Let_def)

lemma retry_loop_break:
  assumes "resolveUrl pf (o_baseUrl opts) input (params d) (params f) (o_serializeParams opts)
              = Inr requestUrl"
    and "new_Request pf requestUrl
                \<lparr>init_method = o_method opts, init_headers = o_headers opts,
                 init_body = o_body opts,
                 init_signal = withTimeout pf (now w) (signal f) (o_timeout opts)\<rparr> = Inr rq"
    and "send_attempt fetchFn d f rq vs w = (vs1, w1)"
    and "retry_decision d f opts (withTimeout pf (now w) (signal f) (o_timeout opts)) rq vs1 w1
           = (Break vs2, w2)"
  shows "retry_loop (Suc n) pf fetchFn d f opts input vs w = Some (Inr (rq, vs2), w2)"
  using assms by (simp add: Let_def)

lemma retry_loop_until_success:
  assumes hooks: "never_throws1 (onRequest d)" "never_throws1 (onRequest f)"
      "never_throws1 (onRetry d)" "never_throws1 (onRetry f)"
    and att: "attempts_is N (r_attempts (o_retry opts))"
    and dl: "delay_total (r_delay (o_retry opts))"
    and pw: "r_when (o_retry opts) = Some pred"
    and sg: "never_fires (signal f)"
    and bud: "within_budget B fetchFn d f opts"
    and tmo: "timeout_allows B (o_timeout opts)"
    and url: "resolveUrl pf (o_baseUrl opts) input (params d) (params f) (o_serializeParams opts)
              = Inr requestUrl"
    and req: "\<forall>s. \<exists>rq. new_Request pf requestUrl
                \<lparr>init_method = o_method opts, init_headers = o_headers opts,
                 init_body = o_body opts, init_signal = s\<rparr> = Inr rq \<and> req_signal rq = s"
    and when_holds: "\<forall>rq w prev w'.
        count_list (trace w) Fetch < N \<and> fires_after (now w + B Fetch) (req_signal rq) \<longrightarrow>
        (\<exists>dt. pred (attempt_ctx rq prev (fst (fetchFn rq w))) w' = (Inr True, dt))"
    and when_last: "\<forall>rq w. \<exists>b dt.
        pred \<lparr>ctx_request = rq, ctx_response = Some res, ctx_error = Undefined\<rparr> w = (Inr b, dt)"
    and t_succ: "\<forall>rq w.
        count_list (trace w) Fetch = N \<and> fires_after (now w + B Fetch) (req_signal rq) \<longrightarrow>
        fst (fetchFn rq w) = Inr res"
    and inv: "attempt vs = k" "k \<le> N" "count_list (trace w) Fetch = k"
      "count_list (trace w) (OnRetry Default) = (if onRetry d = None then 0 else k)"
      "count_list (trace w) (OnRetry PerCall) = (if onRetry f = None then 0 else k)"
  shows "\<exists>rq vs' w'. retry_loop (Suc (N - k)) pf fetchFn d f opts input vs w = Some (Inr (rq, vs'), w')
           \<and> v_response vs' = Some res \<and> v_error vs' = Undefined
           \<and> count_list (trace w') Fetch = Suc N
           \<and> count_list (trace w') (OnRetry Default) = (if onRetry d = None then 0 else N)
           \<and> count_list (trace w') (OnRetry PerCall) = (if onRetry f = None then 0 else N)"
  using inv
proof (induction "N - k" arbitrary: k vs w)
  case 0
  then have kN: "k = N" by simp
  let ?sg = "withTimeout pf (now w) (signal f) (o_timeout opts)"
  have fa: "fires_after (now w + turn_time B) ?sg"
    by (rule withTimeout_fires_after [OF sg tmo])
  obtain rq where r: "new_Request pf requestUrl
                \<lparr>init_method = o_method opts, init_headers = o_headers opts,
                 init_body = o_body opts, init_signal = ?sg\<rparr> = Inr rq"
    and rs: "req_signal rq = ?sg"
    using req by blast
  obtain dt1 out dt where t: "fetchFn rq (advance w dt1 (request_events d f)) = (out, dt)"
    and s: "send_attempt fetchFn d f rq vs w =
               ((case out of Inr r \<Rightarrow> vs\<lparr>v_response := Some r, v_error := Undefined\<rparr>
                           | Inl e \<Rightarrow> vs\<lparr>v_error := e\<rparr>),
                advance w (dt1 + dt) (request_events d f @ [Fetch]))"
    and b: "dt1 \<le> B (OnRequest Default) + B (OnRequest PerCall)"
    using send_attempt_quiet [OF hooks(1,2), of fetchFn rq w vs B opts] bud by blast
  let ?wb = "advance w dt1 (request_events d f)"
  have c: "count_list (trace ?wb) Fetch = N"
    using "0.prems"(3) kN by simp
  have "now ?wb + B Fetch \<le> now w + turn_time B"
    using b by (simp add: turn_time_def)
  with fa have "fires_after (now ?wb + B Fetch) (req_signal rq)"
    unfolding rs by (rule fires_after_mono)
  with t_succ c t have out: "out = Inr res" by (metis fst_conv)
  let ?vs1 = "vs\<lparr>v_response := Some res, v_error := Undefined\<rparr>"
  let ?w1 = "advance w (dt1 + dt) (request_events d f @ [Fetch])"
  obtain bb dtw where wl:
    "pred \<lparr>ctx_request = rq, ctx_response = v_response ?vs1, ctx_error = v_error ?vs1\<rparr> ?w1
       = (Inr bb, dtw)"
    using when_last by (metis loop_vars.select_convs(2,3) loop_vars.update_convs(2,3)
        loop_vars.surjective)
  have "N \<le> attempt ?vs1" using "0.prems"(1) kN by simp
  from retry_decision_last [OF pw wl att this, of d f ?sg]
  obtain vs' dt2 evs where dec: "retry_decision d f opts ?sg rq ?vs1 ?w1 = (Break vs', advance ?w1 dt2 evs)"
    and v: "v_response vs' = Some res" "v_error vs' = Undefined" and q: "quiet_events evs"
    by auto
  have "retry_loop (Suc (N - k)) pf fetchFn d f opts input vs w
          = Some (Inr (rq, vs'), advance ?w1 dt2 evs)"
    using retry_loop_break [OF url r s [unfolded out, simplified] dec] .
  moreover have "count_list (trace (advance ?w1 dt2 evs)) Fetch = Suc N"
    "count_list (trace (advance ?w1 dt2 evs)) (OnRetry Default) = (if onRetry d = None then 0 else N)"
    "count_list (trace (advance ?w1 dt2 evs)) (OnRetry PerCall) = (if onRetry f = None then 0 else N)"
    using "0.prems"(3,4,5) kN quiet_events_count [OF q] by simp_all
  ultimately show ?case using v by blast
next
  case (Suc j)
  then have kN: "k < N" and j: "j = N - Suc k" by simp_all
  let ?sg = "withTimeout pf (now w) (signal f) (o_timeout opts)"
  have fa: "fires_after (now w + turn_time B) ?sg"
    by (rule withTimeout_fires_after [OF sg tmo])
  obtain rq where r: "new_Request pf requestUrl
                \<lparr>init_method = o_method opts, init_headers = o_headers opts,
                 init_body = o_body opts, init_signal = ?sg\<rparr> = Inr rq"
    and rs: "req_signal rq = ?sg"
    using req by blast
  obtain dt1 out dt where t: "fetchFn rq (advance w dt1 (request_events d f)) = (out, dt)"
    and s: "send_attempt fetchFn d f rq vs w =
               ((case out of Inr r \<Rightarrow> vs\<lparr>v_response := Some r, v_error := Undefined\<rparr>
                           | Inl e \<Rightarrow> vs\<lparr>v_error := e\<rparr>),
                advance w (dt1 + dt) (request_events d f @ [Fetch]))"
    and b: "dt1 \<le> B (OnRequest Default) + B (OnRequest PerCall)" "dt \<le> B Fetch"
    using send_attempt_quiet [OF hooks(1,2), of fetchFn rq w vs B opts] bud by blast
  let ?wb = "advance w dt1 (request_events d f)"
  have c: "count_list (trace ?wb) Fetch < N"
    using Suc.prems(3) kN by simp
  have "now ?wb + B Fetch \<le> now w + turn_time B"
    using b by (simp add: turn_time_def)
  with fa have fb: "fires_after (now ?wb + B Fetch) (req_signal rq)"
    unfolding rs by (rule fires_after_mono)
  let ?vs1 = "(case out of Inr r \<Rightarrow> vs\<lparr>v_response := Some r, v_error := Undefined\<rparr>
                           | Inl e \<Rightarrow> vs\<lparr>v_error := e\<rparr>)"
  let ?w1 = "advance w (dt1 + dt) (request_events d f @ [Fetch])"
  let ?ctx = "\<lparr>ctx_request = rq, ctx_response = v_response ?vs1, ctx_error = v_error ?vs1\<rparr>"
  have ctx: "?ctx = attempt_ctx rq (v_response vs) (fst (fetchFn rq ?wb))"
    by (simp add: t attempt_ctx_def split: sum.splits)
  from when_holds c fb obtain dtw where wh: "pred ?ctx ?w1 = (Inr True, dtw)"
    unfolding ctx by blast
  have a1: "attempt ?vs1 = k" using Suc.prems(1) by (simp split: sum.splits)
  with kN have lt: "attempt ?vs1 < N" by simp
  have "now ?w1 + (B RetryWhen + B RetryAttempts + B RetryDelay + B Delay) \<le> now w + turn_time B"
    using b by (simp add: turn_time_def)
  with fa have fd: "fires_after (now ?w1 + (B RetryWhen + B RetryAttempts + B RetryDelay + B Delay)) ?sg"
    by (rule fires_after_mono)
  from retry_decision_continue [OF pw wh att(1) lt dl bud fd hooks(3,4)]
  obtain dt2 where dec: "retry_decision d f opts ?sg rq ?vs1 ?w1 =
           (Continue (?vs1\<lparr>attempt := attempt ?vs1 + 1\<rparr>), advance ?w1 dt2 (retry_events opts d f))"
    by blast
  let ?vs2 = "?vs1\<lparr>attempt := attempt ?vs1 + 1\<rparr>"
  let ?w2 = "advance ?w1 dt2 (retry_events opts d f)"
  have step: "retry_loop (Suc (N - k)) pf fetchFn d f opts input vs w
          = retry_loop (Suc (N - Suc k)) pf fetchFn d f opts input ?vs2 ?w2"
  proof -
    have "Suc (N - k) = Suc (Suc (N - Suc k))" using kN by simp
    then show ?thesis
      using retry_loop_continue [OF url r s dec] by simp
  qed
  have i: "attempt ?vs2 = Suc k" "Suc k \<le> N" "count_list (trace ?w2) Fetch = Suc k"
      "count_list (trace ?w2) (OnRetry Default) = (if onRetry d = None then 0 else Suc k)"
      "count_list (trace ?w2) (OnRetry PerCall) = (if onRetry f = None then 0 else Suc k)"
    using a1 kN Suc.prems(3,4,5) by simp_all
  from Suc.hyps(1) [OF j i] show ?case unfolding step .
qed

subsection \<open>Retrying until the transport succeeds\<close>

lemma retry_loop_fuel:
  "retry_loop n pf fetchFn d f opts input vs w = Some r
     \<Longrightarrow> retry_loop (n + m) pf fetchFn d f opts input vs w = Some r"
proof (induction n arbitrary: vs w)
  case 0
  then show ?case by simp
next
  case (Suc n)
  then show ?case
    by (auto simp add: Let_def split: sum.splits prod.splits control.splits)
qed

text \<open>
  C3, as the claim states it: with \<open>retry.attempts = N\<close> and a predicate that holds for a
  failed attempt, a transport that fails \<open>N\<close> times and then succeeds is invoked \<open>N + 1\<close>
  times and the call succeeds. Here \<open>N\<close> is 1, the delay is 5 ms and the predicate is the
  default one, which holds for a response that is not \<open>ok\<close>; the transport answers 500 to
  its first invocation and 200 to its second, each after 10 ms. The client also has a
  timeout of 12 ms. The timeout of the first attempt expires during the retry delay and
  ends the call: it fails with the \<open>TimeoutError\<close>, and the transport has been invoked once.
\<close>

theorem timeout_ends_retries_counterexample:
  "fetcher 2 demo_platform retry_once_client ''https://a.com/x'' no_options w0
     = Some (Inr (err (ResponseError ''The operation was aborted due to timeout'' None None
                         Undefined TimeoutError)),
             \<lparr>now = 12, trace = [Fetch, RetryWhen, Delay]\<rparr>)"
  by code_simp

text \<open>
  C3, amended. A call is configured with \<open>retry.attempts = N\<close>, as a number or as a function
  that returns \<open>N\<close>. Each of the first \<open>N\<close> invocations of the transport ends in a way for
  which \<open>retry.when\<close> holds (on the response that it returns, or on the value that it throws
  together with whatever response came before), and the next invocation returns a response
  that the call accepts: \<open>reject\<close> is false for it, it is parsed, and the parsed value passes
  the schema of the response. Nothing else ends the call: the signal of the caller never
  fires; the timeout, when there is one, is not shorter than what a turn of the loop takes
  from its start to the end of its retry delay; the hooks and the retry callbacks return;
  the request can be built, with the signal that it is given. Then the call succeeds with
  the parsed and validated value of that response, the transport has been invoked exactly
  \<open>N + 1\<close> times, and every \<open>onRetry\<close> hook that is registered has been called exactly \<open>N\<close>
  times. The transport may honour the signal of its request: what is asked of it is asked
  for requests whose signal does not fire while it works. Any bound on the turns of the
  loop above \<open>N\<close> is enough.
\<close>

theorem retry_until_success:
  assumes opts: "make_options pf d f = Inr opts"
    and att: "attempts_is N (r_attempts (o_retry opts))"
    and dl: "delay_total (r_delay (o_retry opts))"
    and pw: "r_when (o_retry opts) = Some pred"
    and when_holds: "\<forall>rq w prev w'.
        count_list (trace w) Fetch < N \<and> fires_after (now w + B Fetch) (req_signal rq) \<longrightarrow>
        (\<exists>dt. pred (attempt_ctx rq prev (fst (fetchFn rq w))) w' = (Inr True, dt))"
    and when_last: "\<forall>rq w. \<exists>b dt.
        pred \<lparr>ctx_request = rq, ctx_response = Some res, ctx_error = Undefined\<rparr> w = (Inr b, dt)"
    and t_succ: "\<forall>rq w.
        count_list (trace w) Fetch = N \<and> fires_after (now w + B Fetch) (req_signal rq) \<longrightarrow>
        fst (fetchFn rq w) = Inr res"
    and sg: "never_fires (signal f)"
    and bud: "within_budget B fetchFn d f opts"
    and tmo: "timeout_allows B (o_timeout opts)"
    and url: "resolveUrl pf (o_baseUrl opts) input (params d) (params f) (o_serializeParams opts)
              = Inr requestUrl"
    and req: "\<forall>s. \<exists>rq. new_Request pf requestUrl
                \<lparr>init_method = o_method opts, init_headers = o_headers opts,
                 init_body = o_body opts, init_signal = s\<rparr> = Inr rq \<and> req_signal rq = s"
    and hooks: "never_throws1 (onRequest d)" "never_throws1 (onRequest f)"
      "never_throws1 (onRetry d)" "never_throws1 (onRetry f)"
    and rj: "o_reject opts = Some rj"
    and rej: "\<forall>w. \<exists>dt. rj (Some res) w = (Inr False, dt)"
    and h1: "never_throws2 (onResponse d)" "never_throws2 (onResponse f)"
    and pr: "o_parseResponse opts = Some pr"
    and p: "\<forall>rq w. \<exists>dt. pr (Some res) rq w = (Inr v, dt)"
    and s: "(case schema f of None \<Rightarrow> Inr v | Some sch \<Rightarrow> validate pf sch v) = Inr dv"
    and h2: "never_throws2 (onSuccess d)" "never_throws2 (onSuccess f)"
    and start: "trace w = []" and fuel: "N < fuel"
  shows "\<exists>w'. enhance fuel pf fetchFn d input f w = Some (Inr dv, w')
           \<and> count_list (trace w') Fetch = N + 1
           \<and> count_list (trace w') (OnRetry Default) = (if onRetry d = None then 0 else N)
           \<and> count_list (trace w') (OnRetry PerCall) = (if onRetry f = None then 0 else N)"
proof -
  let ?vs = "\<lparr>attempt = 0, v_response = None, v_error = Undefined\<rparr>"
  have "\<exists>rq vs' w'. retry_loop (Suc (N - 0)) pf fetchFn d f opts input ?vs w = Some (Inr (rq, vs'), w')
           \<and> v_response vs' = Some res \<and> v_error vs' = Undefined
           \<and> count_list (trace w') Fetch = Suc N
           \<and> count_list (trace w') (OnRetry Default) = (if onRetry d = None then 0 else N)
           \<and> count_list (trace w') (OnRetry PerCall) = (if onRetry f = None then 0 else N)"
    using retry_loop_until_success [where fetchFn = fetchFn and res = res
        and d = d and f = f and N = N and opts = opts and pf = pf and input = input
        and requestUrl = requestUrl and vs = "?vs" and k = 0 and w = w and pred = pred and B = B,
        OF hooks att dl pw sg bud tmo url req when_holds when_last t_succ]
    by (simp add: start)
  then obtain rq vs' w1 where l: "retry_loop (Suc N) pf fetchFn d f opts input ?vs w = Some (Inr (rq, vs'), w1)"
    and v: "v_response vs' = Some res" "v_error vs' = Undefined"
    and c: "count_list (trace w1) Fetch = Suc N"
      "count_list (trace w1) (OnRetry Default) = (if onRetry d = None then 0 else N)"
      "count_list (trace w1) (OnRetry PerCall) = (if onRetry f = None then 0 else N)"
    by auto
  from fuel have "fuel = Suc N + (fuel - Suc N)" by simp
  with retry_loop_fuel [OF l, of "fuel - Suc N"]
  have l': "retry_loop fuel pf fetchFn d f opts input ?vs w = Some (Inr (rq, vs'), w1)"
    by simp
  obtain dt evs where fin: "finish pf d f opts vs' rq w1 = (Inr dv, advance w1 dt evs)"
    and q: "quiet_events evs"
    using finish_success [OF v(2) v(1) rj rej h1 pr p s h2] by blast
  have "enhance fuel pf fetchFn d input f w = Some (Inr dv, advance w1 dt evs)"
    by (simp add: enhance_def opts l' fin)
  moreover have "count_list (trace (advance w1 dt evs)) Fetch = N + 1"
    "count_list (trace (advance w1 dt evs)) (OnRetry Default) = (if onRetry d = None then 0 else N)"
    "count_list (trace (advance w1 dt evs)) (OnRetry PerCall) = (if onRetry f = None then 0 else N)"
    using c quiet_events_count [OF q] by simp_all
  ultimately show ?thesis by blast
qed

lemma plain_call_fields:
  "signal plain_call = None" "schema plain_call = None" "onRequest plain_call = None"
  "onRetry plain_call = None" "onResponse plain_call = None" "onSuccess plain_call = None"
  "onError plain_call = None" "params plain_call = Undefined"
  by (simp_all add: plain_call_def fetch_options_def no_options_def no_default_options_def
        empty_schema_def call_options.defs default_options.defs resfetch_options.defs
        fetcher_options.defs)

lemma scripted_outcome:
  assumes "fires_after (now w + dur) (req_signal rq)" "0 < dur"
  shows "scripted outcomes dur rq w =
           (if count_list (trace w) Fetch < length outcomes
            then outcomes ! count_list (trace w) Fetch
            else Inl (ErrorObj ''TypeError'' ''fetch failed''), dur)"
  using assms
  by (auto simp add: scripted_def abortable_def fires_after_def Let_def split: option.splits)

lemma scripted_duration: "snd (scripted outcomes dur rq w) \<le> dur"
  by (auto simp add: scripted_def abortable_def Let_def split: option.splits)

lemma std_new_Request_signal:
  "\<forall>s. \<exists>rq. new_Request demo_platform u
            \<lparr>init_method = None, init_headers = hs, init_body = Undefined, init_signal = s\<rparr> = Inr rq
          \<and> req_signal rq = s"
  by (simp add: demo_platform_def std_new_Request_def isNil_def)

theorem retry_until_success_witness:
  "(\<exists>w'. enhance 3 demo_platform (scripted outcomes_retry 10) patient_defaults ''https://a.com/x''
          plain_call w0 = Some (Inr (Str ''hello''), w')
        \<and> count_list (trace w') Fetch = 3
        \<and> count_list (trace w') (OnRetry Default) = 2
        \<and> count_list (trace w') (OnRetry PerCall) = 0)
   \<and> (\<exists>w'. enhance 2 demo_platform (scripted outcomes_network 10) error_defaults ''https://a.com/x''
          plain_call w0 = Some (Inr (Str ''hello''), w')
        \<and> count_list (trace w') Fetch = 2
        \<and> count_list (trace w') (OnRetry Default) = 0
        \<and> count_list (trace w') (OnRetry PerCall) = 0)"
proof
  show "\<exists>w'. enhance 3 demo_platform (scripted outcomes_retry 10) patient_defaults ''https://a.com/x''
          plain_call w0 = Some (Inr (Str ''hello''), w')
        \<and> count_list (trace w') Fetch = 3
        \<and> count_list (trace w') (OnRetry Default) = 2
        \<and> count_list (trace w') (OnRetry PerCall) = 0"
  proof -
    let ?opts = "demo_options (Some 40) two_retries"
    note f = plain_call_fields
    have d: "onRequest patient_defaults = None" "onResponse patient_defaults = None"
      "onSuccess patient_defaults = None" "params patient_defaults = Undefined"
      "onRetry patient_defaults = Some (\<lambda>ctx w. (Inr (), 1))"
      by (simp_all add: patient_defaults_def no_default_options_def)
    have o: "make_options demo_platform patient_defaults plain_call = Inr ?opts"
      by (simp add: demo_options_def two_retries_def make_options_def plain_call_def fetch_options_def no_options_def
            no_default_options_def empty_schema_def patient_defaults_def pick_def over_def merge_retry_def
            retry_field_def auto_content_type_def mergeHeaders_def init_entries_def new_Headers_def
            call_options.defs default_options.defs resfetch_options.defs fetcher_options.defs)
    have a: "attempts_is 2 (r_attempts (o_retry ?opts))" "delay_total (r_delay (o_retry ?opts))"
      "r_when (o_retry ?opts) = Some fallback_retry_when"
      by (simp_all add: demo_options_def two_retries_def attempts_is_def delay_total_def)
    have wh: "\<forall>rq w prev w'.
          count_list (trace w) Fetch < 2 \<and> fires_after (now w + demo_budget Fetch) (req_signal rq) \<longrightarrow>
          (\<exists>dt. fallback_retry_when (attempt_ctx rq prev (fst (scripted outcomes_retry 10 rq w))) w'
                 = (Inr True, dt))"
      by (auto simp add: demo_budget_def scripted_outcome outcomes_retry_def attempt_ctx_def
            fallback_retry_when_def resp_def response_ok_def less_Suc_eq numeral_2_eq_2)
    have wl: "\<forall>rq w. \<exists>b dt. fallback_retry_when
          \<lparr>ctx_request = rq, ctx_response = Some (resp 200 ''hello''), ctx_error = Undefined\<rparr> w = (Inr b, dt)"
      by (simp add: fallback_retry_when_def)
    have t2: "\<forall>rq w. count_list (trace w) Fetch = 2 \<and> fires_after (now w + demo_budget Fetch) (req_signal rq) \<longrightarrow>
                fst (scripted outcomes_retry 10 rq w) = Inr (resp 200 ''hello'')"
      by (simp add: demo_budget_def scripted_outcome outcomes_retry_def)
    have s: "never_fires (signal plain_call)"
      by (simp add: f never_fires_def)
    have bud: "within_budget demo_budget (scripted outcomes_retry 10) patient_defaults plain_call ?opts"
      by (simp add: within_budget_def f d demo_budget_def scripted_duration demo_options_def
            two_retries_def fallback_retry_when_def)
    have tmo: "timeout_allows demo_budget (o_timeout ?opts)"
      by (simp add: timeout_allows_def turn_time_def demo_budget_def demo_options_def)
    have u: "resolveUrl demo_platform (o_baseUrl ?opts) ''https://a.com/x'' (params patient_defaults)
               (params plain_call) (o_serializeParams ?opts) = Inr ''https://a.com/x''"
      by (simp add: demo_options_def f d resolveUrl_def demo_platform_def fallback_serializeParams_def
            spread_def omit_def is_absolute_url_def)
    have r: "\<forall>s. \<exists>rq. new_Request demo_platform ''https://a.com/x''
               \<lparr>init_method = o_method ?opts, init_headers = o_headers ?opts,
                init_body = o_body ?opts, init_signal = s\<rparr> = Inr rq \<and> req_signal rq = s"
      using std_new_Request_signal [of "''https://a.com/x''" "[]"] by (simp add: demo_options_def)
    have h: "never_throws1 (onRequest patient_defaults)" "never_throws1 (onRequest plain_call)"
      "never_throws1 (onRetry patient_defaults)" "never_throws1 (onRetry plain_call)"
      by (simp_all add: f d never_throws1_def)
    have h2: "never_throws2 (onResponse patient_defaults)" "never_throws2 (onResponse plain_call)"
      "never_throws2 (onSuccess patient_defaults)" "never_throws2 (onSuccess plain_call)"
      by (simp_all add: f d never_throws2_def)
    have rj: "o_reject ?opts = Some fallback_reject"
      "\<forall>w. \<exists>dt. fallback_reject (Some (resp 200 ''hello'')) w = (Inr False, dt)"
      by (simp_all add: demo_options_def fallback_reject_def resp_def response_ok_def)
    have p: "o_parseResponse ?opts = Some (fallback_parseResponse demo_platform)"
      "\<forall>rq w. \<exists>dt. fallback_parseResponse demo_platform (Some (resp 200 ''hello'')) rq w
                = (Inr (Str ''hello''), dt)"
      by (simp_all add: demo_options_def fallback_parseResponse_def resp_def demo_platform_def)
    have v: "(case schema plain_call of None \<Rightarrow> Inr (Str ''hello'')
              | Some sch \<Rightarrow> validate demo_platform sch (Str ''hello'')) = Inr (Str ''hello'')"
      by (simp add: f)
    have st: "trace w0 = []" "(2::nat) < 3"
      by (simp_all add: w0_def)
    show ?thesis
      using retry_until_success [where fetchFn = "scripted outcomes_retry 10"
          and res = "resp 200 ''hello''" and d = patient_defaults and f = plain_call and N = 2
          and opts = ?opts and pf = demo_platform and input = "''https://a.com/x''"
          and requestUrl = "''https://a.com/x''" and w = w0 and fuel = 3 and v = "Str ''hello''"
          and dv = "Str ''hello''" and B = demo_budget and pred = fallback_retry_when
          and rj = fallback_reject and pr = "fallback_parseResponse demo_platform",
          OF o a wh wl t2 s bud tmo u r h rj h2(1,2) p v h2(3,4) st]
      by (simp add: d f)
  qed
next
  show "\<exists>w'. enhance 2 demo_platform (scripted outcomes_network 10) error_defaults ''https://a.com/x''
          plain_call w0 = Some (Inr (Str ''hello''), w')
        \<and> count_list (trace w') Fetch = 2
        \<and> count_list (trace w') (OnRetry Default) = 0
        \<and> count_list (trace w') (OnRetry PerCall) = 0"
  proof -
    let ?pred = "\<lambda>ctx w. (Inr (truthy (ctx_error ctx)), 0::nat)"
    let ?opts = "demo_options None
                   \<lparr>r_attempts = Some (Inl 1), r_delay = Some (Inl 1), r_when = Some ?pred\<rparr>"
    note f = plain_call_fields
    have d: "onRequest error_defaults = None" "onResponse error_defaults = None"
      "onSuccess error_defaults = None" "params error_defaults = Undefined"
      "onRetry error_defaults = None"
      by (simp_all add: error_defaults_def no_default_options_def)
    have o: "make_options demo_platform error_defaults plain_call = Inr ?opts"
      by (simp add: demo_options_def make_options_def plain_call_def fetch_options_def no_options_def
            no_default_options_def empty_schema_def error_defaults_def pick_def over_def merge_retry_def
            retry_field_def auto_content_type_def mergeHeaders_def init_entries_def new_Headers_def
            call_options.defs default_options.defs resfetch_options.defs fetcher_options.defs)
    have a: "attempts_is 1 (r_attempts (o_retry ?opts))" "delay_total (r_delay (o_retry ?opts))"
      "r_when (o_retry ?opts) = Some ?pred"
      by (simp_all add: demo_options_def attempts_is_def delay_total_def)
    have wh: "\<forall>rq w prev w'.
          count_list (trace w) Fetch < 1 \<and> fires_after (now w + demo_budget Fetch) (req_signal rq) \<longrightarrow>
          (\<exists>dt. ?pred (attempt_ctx rq prev (fst (scripted outcomes_network 10 rq w))) w'
                 = (Inr True, dt))"
      by (auto simp add: demo_budget_def scripted_outcome outcomes_network_def attempt_ctx_def)
    have wl: "\<forall>rq w. \<exists>b dt. ?pred
          \<lparr>ctx_request = rq, ctx_response = Some (resp 200 ''hello''), ctx_error = Undefined\<rparr> w = (Inr b, dt)"
      by auto
    have t2: "\<forall>rq w. count_list (trace w) Fetch = 1 \<and> fires_after (now w + demo_budget Fetch) (req_signal rq) \<longrightarrow>
                fst (scripted outcomes_network 10 rq w) = Inr (resp 200 ''hello'')"
      by (simp add: demo_budget_def scripted_outcome outcomes_network_def)
    have s: "never_fires (signal plain_call)"
      by (simp add: f never_fires_def)
    have bud: "within_budget demo_budget (scripted outcomes_network 10) error_defaults plain_call ?opts"
      by (simp add: within_budget_def f d demo_budget_def scripted_duration demo_options_def)
    have tmo: "timeout_allows demo_budget (o_timeout ?opts)"
      by (simp add: timeout_allows_def demo_options_def)
    have u: "resolveUrl demo_platform (o_baseUrl ?opts) ''https://a.com/x'' (params error_defaults)
               (params plain_call) (o_serializeParams ?opts) = Inr ''https://a.com/x''"
      by (simp add: demo_options_def f d resolveUrl_def demo_platform_def fallback_serializeParams_def
            spread_def omit_def is_absolute_url_def)
    have r: "\<forall>s. \<exists>rq. new_Request demo_platform ''https://a.com/x''
               \<lparr>init_method = o_method ?opts, init_headers = o_headers ?opts,
                init_body = o_body ?opts, init_signal = s\<rparr> = Inr rq \<and> req_signal rq = s"
      using std_new_Request_signal [of "''https://a.com/x''" "[]"] by (simp add: demo_options_def)
    have h: "never_throws1 (onRequest error_defaults)" "never_throws1 (onRequest plain_call)"
      "never_throws1 (onRetry error_defaults)" "never_throws1 (onRetry plain_call)"
      by (simp_all add: f d never_throws1_def)
    have h2: "never_throws2 (onResponse error_defaults)" "never_throws2 (onResponse plain_call)"
      "never_throws2 (onSuccess error_defaults)" "never_throws2 (onSuccess plain_call)"
      by (simp_all add: f d never_throws2_def)
    have rj: "o_reject ?opts = Some fallback_reject"
      "\<forall>w. \<exists>dt. fallback_reject (Some (resp 200 ''hello'')) w = (Inr False, dt)"
      by (simp_all add: demo_options_def fallback_reject_def resp_def response_ok_def)
    have p: "o_parseResponse ?opts = Some (fallback_parseResponse demo_platform)"
      "\<forall>rq w. \<exists>dt. fallback_parseResponse demo_platform (Some (resp 200 ''hello'')) rq w
                = (Inr (Str ''hello''), dt)"
      by (simp_all add: demo_options_def fallback_parseResponse_def resp_def demo_platform_def)
    have v: "(case schema plain_call of None \<Rightarrow> Inr (Str ''hello'')
              | Some sch \<Rightarrow> validate demo_platform sch (Str ''hello'')) = Inr (Str ''hello'')"
      by (simp add: f)
    have st: "trace w0 = []" "(1::nat) < 2"
      by (simp_all add: w0_def)
    show ?thesis
      using retry_until_success [where fetchFn = "scripted outcomes_network 10"
          and res = "resp 200 ''hello''" and d = error_defaults and f = plain_call and N = 1
          and opts = ?opts and pf = demo_platform and input = "''https://a.com/x''"
          and requestUrl = "''https://a.com/x''" and w = w0 and fuel = 2 and v = "Str ''hello''"
          and dv = "Str ''hello''" and B = demo_budget and pred = ?pred
          and rj = fallback_reject and pr = "fallback_parseResponse demo_platform",
          OF o a wh wl t2 s bud tmo u r h rj h2(1,2) p v h2(3,4) st]
      by (simp add: d f numeral_2_eq_2)
  qed
qed

subsection \<open>The default retry predicate and a transport that throws\<close>

text \<open>
  C9. With the default \<open>retry.when\<close>, an attempt in which the transport throws should
  never be retried. The loop does not clear \<open>response\<close> when an attempt throws, so after a
  response that is not \<open>ok\<close> the predicate still holds. Here the first attempt returns a
  500, the second throws and the third returns a 200, with two retries allowed: the
  second attempt is followed by a delay and a third invocation of the transport, and the
  call succeeds instead of failing with the thrown error.
\<close>

theorem stale_response_is_retried:
  "fetcher 3 demo_platform (default_when_client outcomes3) ''https://a.com/x'' no_options w0
     = Some (Inr (ok (Str ''hello'')),
             \<lparr>now = 30, trace = [Fetch, RetryWhen, Delay, Fetch, RetryWhen, Delay, Fetch,
                                  RetryWhen, Reject, ParseResponse]\<rparr>)"
  by code_simp

lemma retry_decision_default_no_response:
  assumes "r_when (o_retry opts) = Some fallback_retry_when" "v_response vs = None"
  shows "retry_decision d f opts sg rq vs w = (Break vs, advance w 0 [RetryWhen])"
  using assms by (simp add: retry_decision_def call_eq fallback_retry_when_def)

lemma finish_error:
  assumes e: "truthy (v_error vs)"
    and h: "never_throws2 (onError d)" "never_throws2 (onError f)"
  shows "\<exists>dt evs. finish pf d f opts vs rq w = (Inl (v_error vs), advance w dt evs)
           \<and> quiet_events evs"
proof -
  obtain d1 where e1: "call_opt (OnError Default)
        (map_option (\<lambda>h. h (v_error vs) rq) (onError d)) w
      = (Inr (), advance w d1 (hook_events (OnError Default) (onError d)))"
    using call_opt_quiet2 [OF h(1)] by blast
  let ?w1 = "advance w d1 (hook_events (OnError Default) (onError d))"
  obtain d2 where e2: "call_opt (OnError PerCall)
        (map_option (\<lambda>h. h (v_error vs) rq) (onError f)) ?w1
      = (Inr (), advance ?w1 d2 (hook_events (OnError PerCall) (onError f)))"
    using call_opt_quiet2 [OF h(2)] by blast
  let ?evs = "hook_events (OnError Default) (onError d) @ hook_events (OnError PerCall) (onError f)"
  have "finish pf d f opts vs rq w = (Inl (v_error vs), advance w (d1 + d2) ?evs)"
    unfolding finish_def using e e1 e2 by (simp add: throw_def bnd_def)
  moreover have "quiet_events ?evs" by simp
  ultimately show ?thesis by blast
qed

text \<open>
  In the first attempt of a call no response exists, and the default \<open>retry.when\<close> does
  what is expected of it: when the transport throws \<open>e\<close> there, the attempt is not retried,
  whatever \<open>retry.attempts\<close> is; the loop ends after that one invocation of the transport,
  and \<open>e\<close>, when it is truthy, is the terminal error of the executor (after the \<open>onError\<close>
  hooks, which are taken to return).
\<close>

theorem default_when_first_throw:
  assumes opts: "make_options pf d f = Inr opts"
    and dw: "r_when (o_retry opts) = Some fallback_retry_when"
    and url: "resolveUrl pf (o_baseUrl opts) input (params d) (params f) (o_serializeParams opts)
              = Inr requestUrl"
    and req: "new_Request pf requestUrl
                \<lparr>init_method = o_method opts, init_headers = o_headers opts,
                 init_body = o_body opts,
                 init_signal = withTimeout pf (now w) (signal f) (o_timeout opts)\<rparr> = Inr rq"
    and hooks: "never_throws1 (onRequest d)" "never_throws1 (onRequest f)"
    and t: "\<forall>w'. fst (fetchFn rq w') = Inl e"
    and tr: "truthy e"
    and he: "never_throws2 (onError d)" "never_throws2 (onError f)"
  shows "\<exists>w'. enhance (Suc n) pf fetchFn d input f w = Some (Inl e, w')
           \<and> count_list (trace w') Fetch = count_list (trace w) Fetch + 1"
proof -
  let ?vs = "\<lparr>attempt = 0, v_response = None, v_error = Undefined\<rparr>"
  obtain dt1 out dt where t1: "fetchFn rq (advance w dt1 (request_events d f)) = (out, dt)"
    and s: "send_attempt fetchFn d f rq ?vs w =
               ((case out of Inr r \<Rightarrow> ?vs\<lparr>v_response := Some r, v_error := Undefined\<rparr>
                           | Inl e \<Rightarrow> ?vs\<lparr>v_error := e\<rparr>),
                advance w (dt1 + dt) (request_events d f @ [Fetch]))"
    using send_attempt_quiet [OF hooks] by blast
  from t t1 have out: "out = Inl e" by (metis fst_conv)
  let ?vs1 = "\<lparr>attempt = 0, v_response = None, v_error = e\<rparr>"
  let ?w1 = "advance w (dt1 + dt) (request_events d f @ [Fetch])"
  have dec: "retry_decision d f opts (withTimeout pf (now w) (signal f) (o_timeout opts)) rq ?vs1 ?w1
      = (Break ?vs1, advance ?w1 0 [RetryWhen])"
    by (rule retry_decision_default_no_response [OF dw]) simp
  have l: "retry_loop (Suc n) pf fetchFn d f opts input ?vs w
      = Some (Inr (rq, ?vs1), advance ?w1 0 [RetryWhen])"
    using retry_loop_break [OF url req s [unfolded out, simplified] dec] .
  let ?w2 = "advance ?w1 0 [RetryWhen]"
  have "truthy (v_error ?vs1)" using tr by simp
  from finish_error [OF this he, of pf opts rq ?w2]
  obtain dt3 evs where fin: "finish pf d f opts ?vs1 rq ?w2 = (Inl e, advance ?w2 dt3 evs)"
    and q: "quiet_events evs"
    by auto
  have "enhance (Suc n) pf fetchFn d input f w = Some (Inl e, advance ?w2 dt3 evs)"
    by (simp only: enhance_def opts l fin sum.case option.case prod.case)
  moreover have "count_list (trace (advance ?w2 dt3 evs)) Fetch = count_list (trace w) Fetch + 1"
    using quiet_events_count [OF q] by simp
  ultimately show ?thesis by blast
qed

theorem default_when_first_throw_witness:
  "\<exists>w'. enhance 1 demo_platform (scripted [] 10) five_attempts_defaults ''https://a.com/x''
          plain_call w0 = Some (Inl (ErrorObj ''TypeError'' ''fetch failed''), w')
        \<and> count_list (trace w') Fetch = 1"
proof -
  let ?opts = "demo_options None
                 \<lparr>r_attempts = Some (Inl 5), r_delay = Some (Inl 0),
                  r_when = Some fallback_retry_when\<rparr>"
  note f = plain_call_fields
  have d: "onRequest five_attempts_defaults = None" "onError five_attempts_defaults = None"
    "params five_attempts_defaults = Undefined"
    by (simp_all add: five_attempts_defaults_def no_default_options_def)
  have o: "make_options demo_platform five_attempts_defaults plain_call = Inr ?opts"
    by (simp add: demo_options_def make_options_def plain_call_def fetch_options_def no_options_def
          no_default_options_def empty_schema_def five_attempts_defaults_def pick_def over_def
          merge_retry_def retry_field_def auto_content_type_def mergeHeaders_def
          init_entries_def new_Headers_def
          call_options.defs default_options.defs resfetch_options.defs fetcher_options.defs)
  have w: "r_when (o_retry ?opts) = Some fallback_retry_when"
    by (simp add: demo_options_def)
  have u: "resolveUrl demo_platform (o_baseUrl ?opts) ''https://a.com/x''
             (params five_attempts_defaults) (params plain_call) (o_serializeParams ?opts)
           = Inr ''https://a.com/x''"
    by (simp add: demo_options_def f d resolveUrl_def demo_platform_def fallback_serializeParams_def
          spread_def omit_def is_absolute_url_def)
  have r: "new_Request demo_platform ''https://a.com/x''
             \<lparr>init_method = o_method ?opts, init_headers = o_headers ?opts,
              init_body = o_body ?opts,
              init_signal = withTimeout demo_platform (now w0) (signal plain_call) (o_timeout ?opts)\<rparr>
           = Inr plain_request"
    by (simp add: demo_options_def f demo_platform_def std_new_Request_def withTimeout_def isNil_def
          AbortSignal_any_def List.map_filter_def plain_request_def)
  have h: "never_throws1 (onRequest five_attempts_defaults)" "never_throws1 (onRequest plain_call)"
    by (simp_all add: f d never_throws1_def)
  have he: "never_throws2 (onError five_attempts_defaults)" "never_throws2 (onError plain_call)"
    by (simp_all add: f d never_throws2_def)
  have t: "\<forall>w'. fst (scripted [] 10 plain_request w') = Inl (ErrorObj ''TypeError'' ''fetch failed'')"
    by (simp add: scripted_def abortable_def plain_request_def)
  have tr: "truthy (ErrorObj ''TypeError'' ''fetch failed'')"
    by simp
  show ?thesis
    using default_when_first_throw [where fetchFn = "scripted [] 10" and rq = plain_request
        and d = five_attempts_defaults and f = plain_call and opts = ?opts and pf = demo_platform
        and input = "''https://a.com/x''" and requestUrl = "''https://a.com/x''" and w = w0
        and e = "ErrorObj ''TypeError'' ''fetch failed''" and n = 0,
        OF o w u r h t tr he]
    by (simp add: w0_def)
qed

subsection \<open>The retry delay and the abort signals\<close>

lemma withTimeout_timeout:
  assumes "AbortSignal_has_any pf" "0 < tmo" "never_fires sg"
  shows "withTimeout pf t sg (Some tmo) = Some (AbortSignal_timeout t tmo)"
  using assms
  by (auto simp add: withTimeout_def never_fires_def AbortSignal_any_def List.map_filter_def
        earlier_def AbortSignal_timeout_def split: option.splits)

lemma withTimeout_caller:
  assumes "fires_at s = Some c"
    and "tmo = None \<or> tmo = Some 0 \<or> (\<exists>n. tmo = Some n \<and> c \<le> t + n)"
  shows "withTimeout pf t (Some s) tmo = Some s"
  using assms
  by (auto simp add: withTimeout_def AbortSignal_any_def List.map_filter_def
        earlier_def AbortSignal_timeout_def split: option.splits)

lemma abortableDelay_fires:
  assumes "fires_at s = Some t" "now w < t" "t < now w + ms"
  shows "abortableDelay ms (Some s) w = (Inl (reason s), \<lparr>now = t, trace = trace w @ [Delay]\<rparr>)"
  using assms by (simp add: abortableDelay_def call_def)

lemma retry_decision_aborted:
  assumes pw: "r_when (o_retry opts) = Some pred"
    and wh: "pred \<lparr>ctx_request = rq, ctx_response = v_response vs, ctx_error = v_error vs\<rparr> w
              = (Inr True, dtw)"
    and a: "r_attempts (o_retry opts) = Some (Inl N)" "attempt vs < N"
    and dl: "r_delay (o_retry opts) = Some (Inl ms)"
    and sg: "fires_at s = Some t" "now w + dtw < t" "t < now w + dtw + ms"
  shows "retry_decision d f opts (Some s) rq vs w =
           (Break (vs\<lparr>attempt := attempt vs + 1, v_error := reason s\<rparr>),
            \<lparr>now = t, trace = trace w @ [RetryWhen, Delay]\<rparr>)"
proof -
  let ?w1 = "advance w dtw [RetryWhen]"
  have "abortableDelay ms (Some s) ?w1 = (Inl (reason s), \<lparr>now = t, trace = trace ?w1 @ [Delay]\<rparr>)"
    by (rule abortableDelay_fires) (use sg in simp_all)
  then show ?thesis
    unfolding retry_decision_def
    using a
    by (simp add: pw call_eq wh dl bnd_def Let_def ret_def eval_attempts_def eval_delay_def
          exceeds_def)
qed


text \<open>
  C4, as the claim states it: the expiry of the timeout never aborts a pending retry
  delay. Here the timeout is 12 ms and the delay 5 ms; the first attempt returns a 500
  after 10 ms, the delay starts, and at 12 ms the timeout signal of that attempt rejects
  it: the call fails with the \<open>TimeoutError\<close> after one invocation of the transport, two
  retries being allowed.
\<close>

theorem timeout_aborts_delay_counterexample:
  "fetcher 3 demo_platform timeout_client ''https://a.com/x'' no_options w0
     = Some (Inr (err (ResponseError ''The operation was aborted due to timeout'' None None
                         Undefined TimeoutError)),
             \<lparr>now = 12, trace = [Fetch, RetryWhen, Delay]\<rparr>)"
  by code_simp

text \<open>
  C4, amended. The retry delay is waited on \<open>options.signal\<close>, the signal armed for the
  current attempt and given to its request, which combines the signal of the caller with
  the timeout signal of that attempt. In a turn of the loop that wants a retry after \<open>ms\<close>
  ms: when the timeout of the attempt expires while the delay is pending, the delay
  rejects with the \<open>TimeoutError\<close>, which ends the loop as its error, without another
  invocation of the transport; when the signal of the caller fires while the delay is
  pending (and not after the timeout), the delay rejects with the reason of that signal
  in the same way.
\<close>

theorem delay_waits_on_attempt_signal:
  assumes url: "resolveUrl pf (o_baseUrl opts) input (params d) (params f) (o_serializeParams opts)
              = Inr requestUrl"
    and req: "new_Request pf requestUrl
                \<lparr>init_method = o_method opts, init_headers = o_headers opts,
                 init_body = o_body opts,
                 init_signal = withTimeout pf (now w) (signal f) (o_timeout opts)\<rparr> = Inr rq"
    and s: "send_attempt fetchFn d f rq vs w = (vs1, w1)"
    and pw: "r_when (o_retry opts) = Some pred"
    and wh: "pred \<lparr>ctx_request = rq, ctx_response = v_response vs1, ctx_error = v_error vs1\<rparr> w1
              = (Inr True, dtw)"
    and a: "r_attempts (o_retry opts) = Some (Inl N)" "attempt vs1 < N"
    and dl: "r_delay (o_retry opts) = Some (Inl ms)"
  shows "(AbortSignal_has_any pf \<and> o_timeout opts = Some tmo \<and> 0 < tmo \<and> never_fires (signal f)
          \<and> now w1 + dtw < now w + tmo \<and> now w + tmo < now w1 + dtw + ms \<longrightarrow>
            retry_loop (Suc n) pf fetchFn d f opts input vs w =
              Some (Inr (rq, vs1\<lparr>attempt := attempt vs1 + 1, v_error := TimeoutError\<rparr>),
                    \<lparr>now = now w + tmo, trace = trace w1 @ [RetryWhen, Delay]\<rparr>))
       \<and> (signal f = Some sc \<and> fires_at sc = Some c
          \<and> (o_timeout opts = None \<or> o_timeout opts = Some 0
              \<or> (\<exists>k. o_timeout opts = Some k \<and> c \<le> now w + k))
          \<and> now w1 + dtw < c \<and> c < now w1 + dtw + ms \<longrightarrow>
            retry_loop (Suc n) pf fetchFn d f opts input vs w =
              Some (Inr (rq, vs1\<lparr>attempt := attempt vs1 + 1, v_error := reason sc\<rparr>),
                    \<lparr>now = c, trace = trace w1 @ [RetryWhen, Delay]\<rparr>))"
proof (intro conjI impI)
  assume h: "AbortSignal_has_any pf \<and> o_timeout opts = Some tmo \<and> 0 < tmo \<and> never_fires (signal f)
          \<and> now w1 + dtw < now w + tmo \<and> now w + tmo < now w1 + dtw + ms"
  let ?s = "AbortSignal_timeout (now w) tmo"
  have sg: "withTimeout pf (now w) (signal f) (o_timeout opts) = Some ?s"
    using h withTimeout_timeout [of pf tmo "signal f" "now w"] by simp
  have fa: "fires_at ?s = Some (now w + tmo)" "reason ?s = TimeoutError"
    by (simp_all add: AbortSignal_timeout_def)
  have dec: "retry_decision d f opts (withTimeout pf (now w) (signal f) (o_timeout opts)) rq vs1 w1 =
           (Break (vs1\<lparr>attempt := attempt vs1 + 1, v_error := reason ?s\<rparr>),
            \<lparr>now = now w + tmo, trace = trace w1 @ [RetryWhen, Delay]\<rparr>)"
    unfolding sg
    by (rule retry_decision_aborted [OF pw wh a dl fa(1)]) (use h in simp_all)
  show "retry_loop (Suc n) pf fetchFn d f opts input vs w =
              Some (Inr (rq, vs1\<lparr>attempt := attempt vs1 + 1, v_error := TimeoutError\<rparr>),
                    \<lparr>now = now w + tmo, trace = trace w1 @ [RetryWhen, Delay]\<rparr>)"
    using retry_loop_break [OF url req s dec] by (simp add: fa)
next
  assume h: "signal f = Some sc \<and> fires_at sc = Some c
          \<and> (o_timeout opts = None \<or> o_timeout opts = Some 0
              \<or> (\<exists>k. o_timeout opts = Some k \<and> c \<le> now w + k))
          \<and> now w1 + dtw < c \<and> c < now w1 + dtw + ms"
  have sg: "withTimeout pf (now w) (signal f) (o_timeout opts) = Some sc"
    using h withTimeout_caller [of sc c "o_timeout opts" "now w" pf] by simp
  have dec: "retry_decision d f opts (withTimeout pf (now w) (signal f) (o_timeout opts)) rq vs1 w1 =
           (Break (vs1\<lparr>attempt := attempt vs1 + 1, v_error := reason sc\<rparr>),
            \<lparr>now = c, trace = trace w1 @ [RetryWhen, Delay]\<rparr>)"
    unfolding sg
    by (rule retry_decision_aborted [OF pw wh a dl]) (use h in simp_all)
  show "retry_loop (Suc n) pf fetchFn d f opts input vs w =
              Some (Inr (rq, vs1\<lparr>attempt := attempt vs1 + 1, v_error := reason sc\<rparr>),
                    \<lparr>now = c, trace = trace w1 @ [RetryWhen, Delay]\<rparr>)"
    using retry_loop_break [OF url req s dec] .
qed

theorem delay_waits_on_attempt_signal_witness:
  "retry_loop 1 demo_platform (scripted [Inr (resp 500 ''e'')] 10) timeout_defaults plain_call
          (demo_options (Some 12) two_retries) ''https://a.com/x'' vars0 w0
     = Some (Inr (Request ''https://a.com/x'' None [] Undefined (Some (Signal (Some 12) TimeoutError)),
                  \<lparr>attempt = 1, v_response = Some (resp 500 ''e''), v_error = TimeoutError\<rparr>),
             \<lparr>now = 12, trace = [Fetch, RetryWhen, Delay]\<rparr>)
   \<and> retry_loop 1 demo_platform (scripted [Inr (resp 500 ''e'')] 10) no_default_options
          cancelled_call (demo_options None two_retries) ''https://a.com/x'' vars0 w0
     = Some (Inr (Request ''https://a.com/x'' None [] Undefined
                    (Some (Signal (Some 13) (Str ''cancelled''))),
                  \<lparr>attempt = 1, v_response = Some (resp 500 ''e''), v_error = Str ''cancelled''\<rparr>),
             \<lparr>now = 13, trace = [Fetch, RetryWhen, Delay]\<rparr>)"
proof
  let ?opts = "demo_options (Some 12) two_retries"
  let ?rq = "Request ''https://a.com/x'' None [] Undefined (Some (Signal (Some 12) TimeoutError))"
  let ?vs1 = "\<lparr>attempt = 0, v_response = Some (resp 500 ''e''), v_error = Undefined\<rparr>"
  let ?w1 = "\<lparr>now = 10, trace = [Fetch]\<rparr>"
  have f: "signal plain_call = None" "onRequest plain_call = None" "params plain_call = Undefined"
    by (simp_all add: plain_call_def fetch_options_def no_options_def no_default_options_def
          empty_schema_def call_options.defs default_options.defs resfetch_options.defs
          fetcher_options.defs)
  have d: "onRequest timeout_defaults = None" "params timeout_defaults = Undefined"
    by (simp_all add: timeout_defaults_def no_default_options_def)
  have u: "resolveUrl demo_platform (o_baseUrl ?opts) ''https://a.com/x''
             (params timeout_defaults) (params plain_call) (o_serializeParams ?opts)
           = Inr ''https://a.com/x''"
    by (simp add: demo_options_def f d resolveUrl_def demo_platform_def fallback_serializeParams_def
          spread_def omit_def is_absolute_url_def)
  have r: "new_Request demo_platform ''https://a.com/x''
             \<lparr>init_method = o_method ?opts, init_headers = o_headers ?opts,
              init_body = o_body ?opts,
              init_signal = withTimeout demo_platform (now w0) (signal plain_call) (o_timeout ?opts)\<rparr>
           = Inr ?rq"
    by (simp add: demo_options_def f demo_platform_def std_new_Request_def withTimeout_def isNil_def
          AbortSignal_any_def List.map_filter_def w0_def earlier_def AbortSignal_timeout_def)
  have s: "send_attempt (scripted [Inr (resp 500 ''e'')] 10) timeout_defaults plain_call ?rq vars0 w0
           = (?vs1, ?w1)"
    by (simp add: send_attempt_def f d bnd_def call_opt_def call_def scripted_def abortable_def
          w0_def vars0_def)
  have wh: "r_when (o_retry ?opts) = Some fallback_retry_when"
    "fallback_retry_when
       \<lparr>ctx_request = ?rq, ctx_response = v_response ?vs1, ctx_error = v_error ?vs1\<rparr> ?w1
     = (Inr True, 0)"
    by (simp_all add: demo_options_def two_retries_def fallback_retry_when_def resp_def
          response_ok_def)
  have a: "r_attempts (o_retry ?opts) = Some (Inl 2)" "attempt ?vs1 < 2"
    "r_delay (o_retry ?opts) = Some (Inl 5)"
    by (simp_all add: demo_options_def two_retries_def)
  have c: "AbortSignal_has_any demo_platform \<and> o_timeout ?opts = Some 12 \<and> (0::nat) < 12
          \<and> never_fires (signal plain_call)
          \<and> now ?w1 + 0 < now w0 + 12 \<and> now w0 + 12 < now ?w1 + 0 + 5"
    by (simp add: demo_platform_def demo_options_def f never_fires_def w0_def)
  show "retry_loop 1 demo_platform (scripted [Inr (resp 500 ''e'')] 10) timeout_defaults plain_call
          ?opts ''https://a.com/x'' vars0 w0
     = Some (Inr (?rq, \<lparr>attempt = 1, v_response = Some (resp 500 ''e''), v_error = TimeoutError\<rparr>),
             \<lparr>now = 12, trace = [Fetch, RetryWhen, Delay]\<rparr>)"
    using delay_waits_on_attempt_signal [where fetchFn = "scripted [Inr (resp 500 ''e'')] 10"
        and rq = ?rq and d = timeout_defaults and f = plain_call and opts = ?opts
        and pf = demo_platform and input = "''https://a.com/x''"
        and requestUrl = "''https://a.com/x''" and w = w0 and vs = vars0 and ?vs1.0 = ?vs1
        and ?w1.0 = ?w1 and dtw = 0 and N = 2 and ms = 5 and tmo = 12 and n = 0,
        OF u r s wh a] c
    by (simp add: w0_def)
next
  let ?opts = "demo_options None two_retries"
  let ?sc = "Signal (Some 13) (Str ''cancelled'')"
  let ?rq = "Request ''https://a.com/x'' None [] Undefined (Some ?sc)"
  let ?vs1 = "\<lparr>attempt = 0, v_response = Some (resp 500 ''e''), v_error = Undefined\<rparr>"
  let ?w1 = "\<lparr>now = 10, trace = [Fetch]\<rparr>"
  have f: "signal cancelled_call = Some ?sc" "onRequest cancelled_call = None"
    "params cancelled_call = Undefined"
    by (simp_all add: cancelled_call_def plain_call_def fetch_options_def no_options_def
          no_default_options_def empty_schema_def call_options.defs default_options.defs
          resfetch_options.defs fetcher_options.defs)
  have d: "onRequest no_default_options = None" "params no_default_options = Undefined"
    by (simp_all add: no_default_options_def)
  have u: "resolveUrl demo_platform (o_baseUrl ?opts) ''https://a.com/x''
             (params no_default_options) (params cancelled_call) (o_serializeParams ?opts)
           = Inr ''https://a.com/x''"
    by (simp add: demo_options_def f d resolveUrl_def demo_platform_def fallback_serializeParams_def
          spread_def omit_def is_absolute_url_def)
  have r: "new_Request demo_platform ''https://a.com/x''
             \<lparr>init_method = o_method ?opts, init_headers = o_headers ?opts,
              init_body = o_body ?opts,
              init_signal = withTimeout demo_platform (now w0) (signal cancelled_call) (o_timeout ?opts)\<rparr>
           = Inr ?rq"
    by (simp add: demo_options_def f demo_platform_def std_new_Request_def withTimeout_def isNil_def
          AbortSignal_any_def List.map_filter_def w0_def earlier_def)
  have s: "send_attempt (scripted [Inr (resp 500 ''e'')] 10) no_default_options cancelled_call ?rq vars0 w0
           = (?vs1, ?w1)"
    by (simp add: send_attempt_def f d bnd_def call_opt_def call_def scripted_def abortable_def
          w0_def vars0_def)
  have wh: "r_when (o_retry ?opts) = Some fallback_retry_when"
    "fallback_retry_when
       \<lparr>ctx_request = ?rq, ctx_response = v_response ?vs1, ctx_error = v_error ?vs1\<rparr> ?w1
     = (Inr True, 0)"
    by (simp_all add: demo_options_def two_retries_def fallback_retry_when_def resp_def
          response_ok_def)
  have a: "r_attempts (o_retry ?opts) = Some (Inl 2)" "attempt ?vs1 < 2"
    "r_delay (o_retry ?opts) = Some (Inl 5)"
    by (simp_all add: demo_options_def two_retries_def)
  have c: "signal cancelled_call = Some ?sc \<and> fires_at ?sc = Some 13
          \<and> (o_timeout ?opts = None \<or> o_timeout ?opts = Some 0
              \<or> (\<exists>k. o_timeout ?opts = Some k \<and> 13 \<le> now w0 + k))
          \<and> now ?w1 + 0 < 13 \<and> 13 < now ?w1 + 0 + 5"
    by (simp add: demo_options_def f)
  show "retry_loop 1 demo_platform (scripted [Inr (resp 500 ''e'')] 10) no_default_options
          cancelled_call ?opts ''https://a.com/x'' vars0 w0
     = Some (Inr (?rq, \<lparr>attempt = 1, v_response = Some (resp 500 ''e''), v_error = Str ''cancelled''\<rparr>),
             \<lparr>now = 13, trace = [Fetch, RetryWhen, Delay]\<rparr>)"
    using delay_waits_on_attempt_signal [where fetchFn = "scripted [Inr (resp 500 ''e'')] 10"
        and rq = ?rq and d = no_default_options and f = cancelled_call and opts = ?opts
        and pf = demo_platform and input = "''https://a.com/x''"
        and requestUrl = "''https://a.com/x''" and w = w0 and vs = vars0 and ?vs1.0 = ?vs1
        and ?w1.0 = ?w1 and dtw = 0 and N = 2 and ms = 5 and sc = ?sc and c = 13 and n = 0,
        OF u r s wh a] c
    by simp
qed

subsection \<open>A call leaves the objects of its caller as they are\<close>

lemma extends_refl [simp]: "extends h h"
  by (simp add: extends_def)

lemma extends_alloc:
  "extends h0 h \<Longrightarrow> alloc h ob = (a, h') \<Longrightarrow> extends h0 h' \<and> length h0 \<le> a"
  by (auto simp add: extends_def alloc_def nth_append)

lemma extends_set_prop:
  "extends h0 h \<Longrightarrow> length h0 \<le> a \<Longrightarrow> extends h0 (set_prop h a k v)"
  by (auto simp add: extends_def set_prop_def)

lemma extends_delete_prop:
  "extends h0 h \<Longrightarrow> length h0 \<le> a \<Longrightarrow> extends h0 (delete_prop h a k)"
  by (auto simp add: extends_def delete_prop_def)

lemma extends_store_init:
  assumes "extends h0 h"
  shows "extends h0 (store_init h options hdrs)"
proof -
  obtain copy h1 where a: "alloc h (props h (Some options)) = (copy, h1)"
    by (cases "alloc h (props h (Some options))")
  from extends_alloc [OF assms a] have e1: "extends h0 h1" "length h0 \<le> copy" by simp_all
  let ?h2 = "delete_prop h1 copy ''body''"
  have e2: "extends h0 ?h2" by (rule extends_delete_prop [OF e1])
  obtain i h3 where b: "alloc ?h2 (spread_props (props ?h2 (Some copy)) [(''headers'', hdrs)]) = (i, h3)"
    by (cases "alloc ?h2 (spread_props (props ?h2 (Some copy)) [(''headers'', hdrs)])")
  from extends_alloc [OF e2 b] have "extends h0 h3" by simp
  with a b show ?thesis by (simp add: store_init_def Let_def)
qed

lemma extends_store_loop:
  "extends h0 h \<Longrightarrow> length h0 \<le> options \<Longrightarrow> extends h0 (store_loop h options ts)"
proof (induction ts arbitrary: h)
  case Nil
  then show ?case by simp
next
  case (Cons t ts)
  let ?h1 = "set_prop h options ''signal'' (turn_signal t)"
  have e1: "extends h0 ?h1" by (rule extends_set_prop [OF Cons.prems])
  have "extends h0 (store_init ?h1 options (turn_headers t))"
    by (rule extends_store_init [OF e1])
  from Cons.IH [OF this Cons.prems(2)] e1 show ?case by (simp add: Let_def)
qed

lemma extends_header_writes:
  "extends h0 h \<Longrightarrow> length h0 \<le> res \<Longrightarrow>
     extends h0 (foldl (\<lambda>h' (key, v).
                         if v = ''null'' \<or> v = ''undefined'' then delete_prop h' res key
                         else set_prop h' res key (Prim (Str v))) h es)"
proof (induction es arbitrary: h)
  case Nil
  then show ?case by simp
next
  case (Cons e es)
  obtain key v where e: "e = (key, v)" by (cases e)
  have "extends h0 (if v = ''null'' \<or> v = ''undefined'' then delete_prop h res key
                     else set_prop h res key (Prim (Str v)))"
    using Cons.prems by (simp add: extends_set_prop extends_delete_prop)
  from Cons.IH [OF this Cons.prems(2)] show ?case by (simp add: e)
qed

lemma extends_store_mergeHeaders:
  assumes "extends h0 h" "store_mergeHeaders h es = (res, h')"
  shows "extends h0 h' \<and> length h0 \<le> res"
proof -
  obtain r h1 where a: "alloc h [] = (r, h1)" by (cases "alloc h []")
  from extends_alloc [OF assms(1) a] have e1: "extends h0 h1" "length h0 \<le> r" by simp_all
  from assms(2) a have "res = r" and "h' = foldl (\<lambda>h' (key, v).
                         if v = ''null'' \<or> v = ''undefined'' then delete_prop h' r key
                         else set_prop h' r key (Prim (Str v))) h1 es"
    by (simp_all add: store_mergeHeaders_def)
  with extends_header_writes [OF e1] e1 show ?thesis by simp
qed

lemma extends_store_enhance:
  assumes "extends h0 h"
  shows "extends h0 (store_enhance h fb dflt fo p)"
proof -
  let ?r = "spread_props
              (spread_props (props h (get_ref (props h (Some fb)) ''retry''))
                 (props h (get_ref (props h (Some dflt)) ''retry'')))
              (props h (get_ref (props h (Some fo)) ''retry''))"
  obtain rt h1 where a: "alloc h ?r = (rt, h1)" by (cases "alloc h ?r")
  from extends_alloc [OF assms a] have e1: "extends h0 h1" by simp
  let ?o = "spread_props
              (spread_props (spread_props (props h1 (Some fb)) (props h1 (Some dflt)))
                 (props h1 (Some fo)))
              [(''body'', Prim Undefined), (''retry'', Ref rt)]"
  obtain options h2 where b: "alloc h1 ?o = (options, h2)" by (cases "alloc h1 ?o")
  from extends_alloc [OF e1 b] have e2: "extends h0 h2" "length h0 \<le> options" by simp_all
  show ?thesis
  proof (cases "serialized_body p")
    case (Inl e)
    with a b e2 show ?thesis by (simp add: store_enhance_def)
  next
    case (Inr bd)
    let ?h3 = "set_prop h2 options ''body'' bd"
    have e3: "extends h0 ?h3" by (rule extends_set_prop [OF e2])
    obtain res h4 where c: "store_mergeHeaders ?h3 (header_entries p) = (res, h4)"
      by (cases "store_mergeHeaders ?h3 (header_entries p)")
    from extends_store_mergeHeaders [OF e3 c] have e4: "extends h0 h4" by simp
    have "extends h0 (store_loop (set_prop h4 options ''headers'' (Ref res)) options (turns p))"
      by (rule extends_store_loop [OF extends_set_prop [OF e4 e2(2)] e2(2)])
    with a b c Inr show ?thesis by (simp add: store_enhance_def Let_def)
  qed
qed

lemma extends_store_validated:
  "extends h0 h \<Longrightarrow> length h0 \<le> cur \<Longrightarrow> store_validated h cur k outcome = Inr h'
     \<Longrightarrow> extends h0 h'"
  by (auto simp add: store_validated_def extends_set_prop split: option.splits sum.splits)

text \<open>
  C10. A call writes to no object that existed when it started: the options of the
  caller and the objects they refer to (its headers, its retry options, its body), the
  default options captured by the client and the fallback options hold, when the promise
  of the call settles, what they held before, on every path of the call. The validated
  values, the serialized body, the merged headers and the signal of each attempt go to
  objects that the call has made: \<open>currentOptions\<close>, \<open>fetchOptions\<close>, \<open>options\<close> with its
  \<open>retry\<close>, \<open>res\<close> and the copies for the transport.
\<close>

theorem call_writes_only_new_objects:
  assumes "a < length h"
  shows "store_fetcher h fb defaultOpts fetcherOptions p ! a = h ! a"
proof -
  obtain cur h1 where al: "alloc h (props h fetcherOptions) = (cur, h1)"
    by (cases "alloc h (props h fetcherOptions)")
  from extends_alloc [OF extends_refl al] have e1: "extends h h1" and c: "length h \<le> cur"
    by simp_all
  have "extends h (store_fetcher h fb defaultOpts fetcherOptions p)"
  proof (cases "store_validated h1 cur ''body'' (validated_body p)")
    case (Inl e)
    with al e1 show ?thesis by (simp add: store_fetcher_def)
  next
    case b: (Inr h2)
    from extends_store_validated [OF e1 c b] have e2: "extends h h2" .
    show ?thesis
    proof (cases "store_validated h2 cur ''query'' (validated_query p)")
      case (Inl e)
      with al b e2 show ?thesis by (simp add: store_fetcher_def)
    next
      case q: (Inr h3)
      from extends_store_validated [OF e2 c q] have e3: "extends h h3" .
      show ?thesis
      proof (cases "store_validated h3 cur ''params'' (validated_params p)")
        case (Inl e)
        with al b q e3 show ?thesis by (simp add: store_fetcher_def)
      next
        case ps: (Inr h4)
        from extends_store_validated [OF e3 c ps] have e4: "extends h h4" .
        let ?fo = "spread_props (props h4 (Some cur))
                     [(''params'', get_prop (props h4 (Some cur)) ''query''),
                      (''schema'', response_schema p), (''method'', method_value p)]"
        obtain fo h5 where f: "alloc h4 ?fo = (fo, h5)" by (cases "alloc h4 ?fo")
        from extends_alloc [OF e4 f] have "extends h h5" by simp
        then have "extends h (store_enhance h5 fb defaultOpts fo (executor p))"
          by (rule extends_store_enhance)
        with al b q ps f show ?thesis by (simp add: store_fetcher_def)
      qed
    qed
  qed
  with assms show ?thesis by (simp add: extends_def)
qed

theorem call_writes_only_new_objects_witness:
  "(4::nat) < length demo_store \<and> (8::nat) < length demo_store
   \<and> store_fetcher demo_store 0 8 (Some 4) demo_path ! 4
       = [(''method'', Prim (Str ''POST'')), (''body'', Ref 5), (''headers'', Ref 6), (''retry'', Ref 7)]
   \<and> store_fetcher demo_store 0 8 (Some 4) demo_path ! 8
       = [(''baseUrl'', Prim (Str ''https://a.com'')), (''headers'', Ref 3)]"
proof -
  have l: "(4::nat) < length demo_store" "(8::nat) < length demo_store"
    by (simp_all add: demo_store_def store_create_def alloc_def store0_def)
  have v: "demo_store ! 4
       = [(''method'', Prim (Str ''POST'')), (''body'', Ref 5), (''headers'', Ref 6), (''retry'', Ref 7)]"
    "demo_store ! 8 = [(''baseUrl'', Prim (Str ''https://a.com'')), (''headers'', Ref 3)]"
    by (simp_all add: demo_store_def store_create_def alloc_def store0_def props_def nth_append)
  show ?thesis
    using l v call_writes_only_new_objects [OF l(1), of 0 8 "Some 4" demo_path]
      call_writes_only_new_objects [OF l(2), of 0 8 "Some 4" demo_path]
    by simp
qed

subsection \<open>The loop ends and the client never rejects\<close>

lemma send_attempt_attempt:
  "send_attempt fetchFn d f rq vs w = (vs1, w1) \<Longrightarrow> attempt vs1 = attempt vs"
  by (auto simp add: send_attempt_def split: prod.splits sum.splits)

lemma retry_decision_continueD:
  assumes "retry_decision d f opts sg rq vs w = (Continue vs2, w2)"
    and "r_attempts (o_retry opts) = Some (Inl N)"
  shows "attempt vs2 = attempt vs + 1 \<and> attempt vs2 \<le> N"
proof -
  let ?m = "call_key RetryWhen (not_a_function ''options.retry.when'')
             (map_option (\<lambda>g. g \<lparr>ctx_request = rq, ctx_response = v_response vs,
                                     ctx_error = v_error vs\<rparr>) (r_when (o_retry opts)))"
  obtain r1 w1 where c1: "?m w = (r1, w1)"
    by (cases "?m w")
  show ?thesis
  proof (cases "attempt vs + 1 > N")
    case True
    with assms c1 show ?thesis
      by (auto simp add: retry_decision_def Let_def bnd_def ret_def eval_attempts_def exceeds_def
            split: sum.splits if_splits)
  next
    case False
    with assms c1 show ?thesis
      by (auto simp add: retry_decision_def Let_def split: sum.splits if_splits prod.splits)
  qed
qed

lemma retry_loop_returns:
  assumes "r_attempts (o_retry opts) = Some (Inl N)"
  shows "retry_loop (Suc (N - attempt vs)) pf fetchFn d f opts input vs w \<noteq> None"
proof (induction "N - attempt vs" arbitrary: vs w)
  case 0
  show ?case
  proof (cases "resolveUrl pf (o_baseUrl opts) input (params d) (params f) (o_serializeParams opts)")
    case (Inl e)
    then show ?thesis by simp
  next
    case u: (Inr requestUrl)
    let ?sg = "withTimeout pf (now w) (signal f) (o_timeout opts)"
    show ?thesis
    proof (cases "new_Request pf requestUrl
                     \<lparr>init_method = o_method opts, init_headers = o_headers opts,
                      init_body = o_body opts, init_signal = ?sg\<rparr>")
      case (Inl e)
      with u show ?thesis by (simp add: Let_def)
    next
      case r: (Inr rq)
      obtain vs1 w1 where s: "send_attempt fetchFn d f rq vs w = (vs1, w1)"
        by (cases "send_attempt fetchFn d f rq vs w")
      obtain c w2 where dc: "retry_decision d f opts ?sg rq vs1 w1 = (c, w2)"
        by (cases "retry_decision d f opts ?sg rq vs1 w1")
      show ?thesis
      proof (cases c)
        case (Break vs2)
        with u r s dc show ?thesis by (simp add: Let_def)
      next
        case (Continue vs2)
        with retry_decision_continueD [OF dc [unfolded Continue] assms] send_attempt_attempt [OF s] 0
        show ?thesis by simp
      qed
    qed
  qed
next
  case (Suc j)
  show ?case
  proof (cases "resolveUrl pf (o_baseUrl opts) input (params d) (params f) (o_serializeParams opts)")
    case (Inl e)
    then show ?thesis by simp
  next
    case u: (Inr requestUrl)
    let ?sg = "withTimeout pf (now w) (signal f) (o_timeout opts)"
    show ?thesis
    proof (cases "new_Request pf requestUrl
                     \<lparr>init_method = o_method opts, init_headers = o_headers opts,
                      init_body = o_body opts, init_signal = ?sg\<rparr>")
      case (Inl e)
      with u show ?thesis by (simp add: Let_def)
    next
      case r: (Inr rq)
      obtain vs1 w1 where s: "send_attempt fetchFn d f rq vs w = (vs1, w1)"
        by (cases "send_attempt fetchFn d f rq vs w")
      obtain c w2 where dc: "retry_decision d f opts ?sg rq vs1 w1 = (c, w2)"
        by (cases "retry_decision d f opts ?sg rq vs1 w1")
      show ?thesis
      proof (cases c)
        case (Break vs2)
        with u r s dc show ?thesis by (simp add: Let_def)
      next
        case (Continue vs2)
        from retry_decision_continueD [OF dc [unfolded Continue] assms] send_attempt_attempt [OF s]
        have a: "attempt vs2 = attempt vs + 1" "attempt vs2 \<le> N" by simp_all
        with Suc.hyps(2) have j: "j = N - attempt vs2" by simp
        have "retry_loop (Suc (N - attempt vs)) pf fetchFn d f opts input vs w
                = retry_loop (Suc (N - attempt vs2)) pf fetchFn d f opts input vs2 w2"
          using retry_loop_continue [OF u r s dc [unfolded Continue]] Suc.hyps(2) j
          by (metis)
        with Suc.hyps(1) [OF j] show ?thesis by simp
      qed
    qed
  qed
qed

lemma make_options_retry:
  "make_options pf d f = Inr opts \<Longrightarrow> o_retry opts = merge_retry (retry d) (retry f)"
  by (auto simp add: make_options_def Let_def split: sum.splits if_splits)

lemma enhance_returns:
  assumes "r_attempts (merge_retry (retry d) (retry f)) = Some (Inl N)"
  shows "enhance (Suc N) pf fetchFn d input f w \<noteq> None"
proof (cases "make_options pf d f")
  case (Inl e)
  then show ?thesis by (simp add: enhance_def)
next
  case (Inr opts)
  with assms have a: "r_attempts (o_retry opts) = Some (Inl N)" by (simp add: make_options_retry)
  from retry_loop_returns [OF a, of "\<lparr>attempt = 0, v_response = None, v_error = Undefined\<rparr>"
        pf fetchFn d f input w]
  show ?thesis
    by (auto simp add: enhance_def Inr split: option.splits sum.splits prod.splits)
qed

lemma fetch_options_retry [simp]: "retry (fetch_options sd cur) = retry cur"
  by (simp add: fetch_options_def call_options.truncate_def call_options.extend_def)

lemma truncate_retry [simp]: "retry (default_options.truncate co) = retry co"
  by (simp add: default_options.truncate_def)

lemma fetcher_returns:
  assumes "r_attempts (merge_retry (retry co) (retry fo)) = Some (Inl N)"
  shows "fetcher (Suc N) pf co u fo w \<noteq> None"
proof (cases "select_schema co u fo")
  case (Inl e)
  then show ?thesis by (simp add: fetcher_def)
next
  case (Inr sd)
  have "\<And>fetchFn input b q ps.
          enhance (Suc N) pf fetchFn (default_options.truncate co) input
            (fetch_options sd (fo\<lparr>body := b, query := q, params := ps\<rparr>)) w \<noteq> None"
    by (rule enhance_returns) (simp add: assms)
  then have "fetcher_try (Suc N) pf co sd u fo w \<noteq> None"
    unfolding fetcher_try_def Let_def by (auto split: sum.splits)
  with Inr show ?thesis
    by (auto simp add: fetcher_def split: option.splits sum.splits prod.splits)
qed

text \<open>
  What the \<open>catch\<close> of the client function does. Once the schema definition of the call
  has been read, the promise does not reject, and whatever value \<open>e\<close> the \<open>try\<close> block throws
  (from a schema, a serializer, the \<open>Request\<close> constructor, the executor with its hooks,
  parsers and transport) comes back as a failure result: \<open>e\<close> itself when it is a
  \<open>ValidationError\<close> or a \<open>ResponseError\<close>, and otherwise a new \<open>ResponseError\<close> whose
  \<open>originalError\<close> is \<open>e\<close> and whose message is the message of \<open>e\<close> when \<open>e\<close> is an \<open>Error\<close>,
  the empty string when it is not. The promise settles whenever \<open>retry.attempts\<close> is a
  number \<open>N\<close>: the loop ends within \<open>N + 1\<close> turns.
\<close>

theorem try_block_errors_become_failures:
  assumes "select_schema co u fo = Inr sd"
  shows "(fetcher_try fuel pf co sd u fo w = Some (Inl e, w') \<longrightarrow>
           fetcher fuel pf co u fo w =
             Some (Inr (err (if isValidationError e \<or> isResponseError e then e
                             else ResponseError (if instanceof_Error e then error_message e else [])
                                    None None Undefined e)), w'))
         \<and> (\<forall>x w''. fetcher fuel pf co u fo w \<noteq> Some (Inl x, w''))
         \<and> (r_attempts (merge_retry (retry co) (retry fo)) = Some (Inl N) \<longrightarrow>
              fetcher (Suc N) pf co u fo w \<noteq> None)"
proof (intro conjI impI)
  show "fetcher fuel pf co u fo w =
           Some (Inr (err (if isValidationError e \<or> isResponseError e then e
                           else ResponseError (if instanceof_Error e then error_message e else [])
                                  None None Undefined e)), w')"
    if "fetcher_try fuel pf co sd u fo w = Some (Inl e, w')"
    using that assms by (simp add: fetcher_def to_failure_simp)
  show "\<forall>x w''. fetcher fuel pf co u fo w \<noteq> Some (Inl x, w'')"
    using assms by (simp add: fetcher_def split: option.splits sum.splits prod.splits)
  show "fetcher (Suc N) pf co u fo w \<noteq> None"
    if "r_attempts (merge_retry (retry co) (retry fo)) = Some (Inl N)"
    using that by (rule fetcher_returns)
qed

theorem try_block_errors_become_failures_witness:
  "select_schema (client [Inl (Str ''boom'')]) ''/x'' no_options = Inr empty_schema
   \<and> fetcher_try 1 demo_platform (client [Inl (Str ''boom'')]) empty_schema ''/x'' no_options w0
     = Some (Inl (Str ''boom''), \<lparr>now = 10, trace = [Fetch, RetryWhen]\<rparr>)
   \<and> fetcher 1 demo_platform (client [Inl (Str ''boom'')]) ''/x'' no_options w0
     = Some (Inr (err (ResponseError [] None None Undefined (Str ''boom''))),
             \<lparr>now = 10, trace = [Fetch, RetryWhen]\<rparr>)
   \<and> r_attempts (merge_retry (retry (client [Inl (Str ''boom'')])) (retry no_options))
     = Some (Inl 0)
   \<and> fetcher (Suc 0) demo_platform (client [Inl (Str ''boom'')]) ''/x'' no_options w0 \<noteq> None"
proof -
  have sel: "select_schema (client [Inl (Str ''boom'')]) ''/x'' no_options = Inr empty_schema"
    by (simp add: select_schema_def client_def no_create_options_def no_options_def
          call_options.defs default_options.defs resfetch_options.defs create_options.defs)
  have h: "fetcher_try 1 demo_platform (client [Inl (Str ''boom'')]) empty_schema ''/x'' no_options w0
     = Some (Inl (Str ''boom''), \<lparr>now = 10, trace = [Fetch, RetryWhen]\<rparr>)"
    by code_simp
  have a: "r_attempts (merge_retry (retry (client [Inl (Str ''boom'')])) (retry no_options))
     = Some (Inl 0)"
    by (simp add: client_def no_create_options_def no_options_def no_default_options_def
          merge_retry_def retry_field_def pick_def over_def
          call_options.defs default_options.defs resfetch_options.defs create_options.defs)
  show ?thesis
    using sel h a try_block_errors_become_failures [OF sel, where N = 0 and fuel = 1
            and pf = demo_platform and w = w0 and e = "Str ''boom''"
            and w' = "\<lparr>now = 10, trace = [Fetch, RetryWhen]\<rparr>"]
    by simp
qed

text \<open>
  C1. The promise of the client function should never reject, and a value that is thrown
  during the call should come back as the \<open>originalError\<close> of a new \<open>ResponseError\<close>. Two
  calls show that it is not so. In the first, the key \<open>schema\<close> of the options of the call is
  an accessor that throws: the client reads it before its \<open>try\<close> block, and the promise
  rejects with the thrown error. When the URL is a route of the table, that read is not
  made, the same accessor throws inside the block, where the options are copied, and the
  error comes back in a failure result, as the claim wants it. In the last call the
  transport throws \<open>null\<close>: the executor keeps it in \<open>error\<close>, finds \<open>if (error)\<close> false after
  the loop and goes on as if nothing had been thrown; the call fails with the
  \<open>ResponseError\<close> that the fallback \<open>parseRejected\<close> makes for a response that is missing,
  with no \<open>originalError\<close>.
\<close>

theorem call_rejects_or_loses_error:
  "fetcher 1 demo_platform (client [Inr (resp 200 ''hi'')]) ''/x''
     (no_options\<lparr>request_schema := Inl (ErrorObj ''Error'' ''boom'')\<rparr>) w0
     = Some (Inl (ErrorObj ''Error'' ''boom''), w0)
   \<and> fetcher 1 demo_platform routed_client ''/test''
       (no_options\<lparr>request_schema := Inl (ErrorObj ''Error'' ''boom'')\<rparr>) w0
     = Some (Inr (err (ResponseError ''boom'' None None Undefined (ErrorObj ''Error'' ''boom''))), w0)
   \<and> fetcher 1 demo_platform (client [Inl Null]) ''/x'' no_options w0
     = Some (Inr (err (ResponseError [] None
                         (Some (Request ''/x'' None [] Undefined (Some (Signal None Undefined))))
                         Null Undefined)),
             \<lparr>now = 10, trace = [Fetch, RetryWhen, Reject, ParseRejected]\<rparr>)"
  by code_simp

end
